theory Spec2Isabelle
  imports Complex_Main "HOL-Library.Multiset"
begin

section \<open>Conventions\<close>

text \<open>
  The development embeds the signal-to-bracket engine of the repository:
  \<^verbatim>\<open>order_utils.py\<close> (bounded retry), \<^verbatim>\<open>hosted_trading_loop.py\<close> (trading loop and
  bracket executor) and \<^verbatim>\<open>position_monitor.py\<close> (reconciliation).

  \<^item> The size of a trade is computed as the code computes it, in Python floats (binary64
    with its rounding, infinities and NaN). Prices, fills and profits are exact reals.
  \<^item> Every call to the exchange client, and every store call whose failure the code
    handles, is answered by an oracle supplied with the input; an exception raised by
    the call is one of the oracle's answers.
  \<^item> What a function does besides returning (orders sent, sleeps, alerts, store writes
    that matter for ordering) is recorded in a list of events, in program order.
  \<^item> Log lines are not modelled, except where an alert is the log line itself.
\<close>

section \<open>Events\<close>

datatype leg = Entry | TakeProfit | StopLoss

datatype level = Info | Warning | Error | Success

text \<open>The payload of a call to \<^verbatim>\<open>notify_admin\<close>: which alert, with the fields that vary.\<close>

datatype alert =
    EntryOrderFailed "(nat \<times> string) list" string
  | TPOrderFailed "(nat \<times> string) list" string
  | SLOrderFailed "(nat \<times> string) list" string
  | FailedToCancel string
  | BracketIncomplete string bool
  | SignalMissing "string list"
  | SignalInvalidValues string

datatype event =
    AckWrite nat
  | LogErrorDb string
  | GateDbQuery
  | GatePositionsQuery
  | GateOrdersQuery
  | EquityQuery
  | SetLeverage
  | OrderAttempt leg nat string bool real real bool
  | CancelAttempt nat string string
  | Sleep real
  | NotifyAdmin level alert
  | EmergencyTriggered string
  | EmergencyOrder string bool real real
  | EmergencyOutcome bool
  | InsertOpenPosition
  | InsertFailed

text \<open>
  \<open>OrderAttempt leg attempt coin is_buy quantity price reduce_only\<close> is one call of
  \<^verbatim>\<open>exchange.order\<close> inside a retry helper; \<open>CancelAttempt attempt coin oid\<close> one call
  of \<^verbatim>\<open>exchange.cancel\<close>; \<open>Sleep d\<close> one \<^verbatim>\<open>asyncio.sleep(d)\<close>.
  The prefix table of \<^verbatim>\<open>notify_admin\<close> renders level \<open>Error\<close> as CRITICAL.
\<close>

definition level_prefix :: "level \<Rightarrow> string" where
  "level_prefix l = (case l of Info \<Rightarrow> ''INFO'' | Warning \<Rightarrow> ''WARNING''
                      | Error \<Rightarrow> ''CRITICAL'' | Success \<Rightarrow> ''SUCCESS'')"

section \<open>order\_utils.py\<close>

definition MAX_RETRIES :: nat where "MAX_RETRIES = 3"
definition INITIAL_BACKOFF :: real where "INITIAL_BACKOFF = 1"
definition MAX_BACKOFF :: real where "MAX_BACKOFF = 8"

text \<open>
  What \<^verbatim>\<open>exchange.order\<close> answers: it raises, or returns a dictionary with a status, the
  list \<^verbatim>\<open>response.data.statuses\<close> and the rest of the response (kept as its printed form,
  which only enters error messages). A status entry is read by its key.
\<close>

datatype status_entry =
    Filled "string option" real real
  | Resting "string option"
  | StatusError string
  | Unexpected

datatype order_result =
    OrderRaises string
  | OrderResult string "status_entry list" string

record placed_order =
  po_id :: string
  po_avgPx :: "real option"
  po_totalSz :: "real option"

definition oid_str :: "string option \<Rightarrow> string" where
  "oid_str oid = (case oid of None \<Rightarrow> ''unknown'' | Some s \<Rightarrow> s)"

fun entry_outcome :: "order_result \<Rightarrow> string + placed_order" where
  "entry_outcome (OrderRaises m) = Inl m"
| "entry_outcome (OrderResult status statuses resp) =
     (if status = ''ok'' then
        (case statuses of
           Filled oid px sz # _ \<Rightarrow>
             Inr \<lparr>po_id = oid_str oid, po_avgPx = Some px, po_totalSz = Some sz\<rparr>
         | Resting oid # _ \<Rightarrow>
             Inr \<lparr>po_id = oid_str oid, po_avgPx = None, po_totalSz = None\<rparr>
         | StatusError e # _ \<Rightarrow> Inl (''HL order error: '' @ e)
         | _ \<Rightarrow> Inr \<lparr>po_id = ''unknown'', po_avgPx = None, po_totalSz = None\<rparr>)
      else Inl (''HL order failed: status='' @ status @ '', response='' @ resp))"

fun trigger_outcome :: "string \<Rightarrow> order_result \<Rightarrow> string + placed_order" where
  "trigger_outcome tag (OrderRaises m) = Inl m"
| "trigger_outcome tag (OrderResult status statuses resp) =
     (if status = ''ok'' then
        (case statuses of
           Resting oid # _ \<Rightarrow>
             Inr \<lparr>po_id = oid_str oid, po_avgPx = None, po_totalSz = None\<rparr>
         | StatusError e # _ \<Rightarrow> Inl (''HL '' @ tag @ '' error: '' @ e)
         | _ \<Rightarrow> Inr \<lparr>po_id = ''unknown'', po_avgPx = None, po_totalSz = None\<rparr>)
      else Inl (''HL '' @ tag @ '' failed: status='' @ status @ '', response='' @ resp))"

text \<open>
  The loop \<^verbatim>\<open>for attempt in range(1, MAX_RETRIES + 1)\<close> of the three placement helpers.
  The first numeric argument is the number of iterations left, \<open>attempt\<close> the loop
  variable. The answer is the order (or \<open>None\<close>), \<^verbatim>\<open>attempts_log\<close>, \<^verbatim>\<open>last_error\<close> and the
  events.
\<close>

fun retry_loop ::
  "(order_result \<Rightarrow> string + placed_order) \<Rightarrow> (nat \<Rightarrow> event) \<Rightarrow> (nat \<Rightarrow> order_result) \<Rightarrow>
   nat \<Rightarrow> nat \<Rightarrow> real \<Rightarrow> (nat \<times> string) list \<Rightarrow> string option \<Rightarrow> event list \<Rightarrow>
   placed_order option \<times> (nat \<times> string) list \<times> string option \<times> event list" where
  "retry_loop f mk ex 0 attempt backoff attempts_log last_error evs =
     (None, attempts_log, last_error, evs)"
| "retry_loop f mk ex (Suc n) attempt backoff attempts_log last_error evs =
     (case f (ex attempt) of
        Inr order \<Rightarrow> (Some order, attempts_log, last_error, evs @ [mk attempt])
      | Inl e \<Rightarrow>
          (if attempt < MAX_RETRIES then
             retry_loop f mk ex n (Suc attempt) (min (backoff * 2) MAX_BACKOFF)
               (attempts_log @ [(attempt, take 200 e)]) (Some e)
               (evs @ [mk attempt, Sleep backoff])
           else
             retry_loop f mk ex n (Suc attempt) backoff
               (attempts_log @ [(attempt, take 200 e)]) (Some e)
               (evs @ [mk attempt])))"

definition final_error :: "string option \<Rightarrow> string" where
  "final_error last_error = take 500 (case last_error of None \<Rightarrow> ''None'' | Some e \<Rightarrow> e)"

definition place_entry_order_with_retry ::
  "(nat \<Rightarrow> order_result) \<Rightarrow> string \<Rightarrow> bool \<Rightarrow> real \<Rightarrow> real \<Rightarrow> placed_order option \<times> event list" where
  "place_entry_order_with_retry exchange coin is_buy quantity limit_price =
     (case retry_loop entry_outcome
             (\<lambda>a. OrderAttempt Entry a coin is_buy quantity limit_price False)
             exchange MAX_RETRIES 1 INITIAL_BACKOFF [] None [] of
        (Some order, attempts_log, last_error, evs) \<Rightarrow> (Some order, evs)
      | (None, attempts_log, last_error, evs) \<Rightarrow>
          (None, evs @ [NotifyAdmin Error (EntryOrderFailed attempts_log (final_error last_error))]))"

definition place_tp_order_with_retry ::
  "(nat \<Rightarrow> order_result) \<Rightarrow> string \<Rightarrow> bool \<Rightarrow> real \<Rightarrow> real \<Rightarrow> placed_order option \<times> event list" where
  "place_tp_order_with_retry exchange coin is_buy quantity tp_price =
     (case retry_loop (trigger_outcome ''TP'')
             (\<lambda>a. OrderAttempt TakeProfit a coin is_buy quantity tp_price True)
             exchange MAX_RETRIES 1 INITIAL_BACKOFF [] None [] of
        (Some order, attempts_log, last_error, evs) \<Rightarrow> (Some order, evs)
      | (None, attempts_log, last_error, evs) \<Rightarrow>
          (None, evs @ [NotifyAdmin Error (TPOrderFailed attempts_log (final_error last_error))]))"

definition place_sl_order_with_retry ::
  "(nat \<Rightarrow> order_result) \<Rightarrow> string \<Rightarrow> bool \<Rightarrow> real \<Rightarrow> real \<Rightarrow> placed_order option \<times> event list" where
  "place_sl_order_with_retry exchange coin is_buy quantity sl_price =
     (case retry_loop (trigger_outcome ''SL'')
             (\<lambda>a. OrderAttempt StopLoss a coin is_buy quantity sl_price True)
             exchange MAX_RETRIES 1 INITIAL_BACKOFF [] None [] of
        (Some order, attempts_log, last_error, evs) \<Rightarrow> (Some order, evs)
      | (None, attempts_log, last_error, evs) \<Rightarrow>
          (None, evs @ [NotifyAdmin Error (SLOrderFailed attempts_log (final_error last_error))]))"

subsection \<open>Cancellation\<close>

text \<open>
  \<^verbatim>\<open>exchange.cancel\<close> raises, or returns a dictionary with a status; the second field is
  the printed form of the whole dictionary, which the code puts into the message of the
  exception it raises itself (\<^verbatim>\<open>Cancel failed: {result}\<close>).
\<close>

datatype cancel_result =
    CancelRaises string
  | CancelResult string string

definition lower_char :: "char \<Rightarrow> char" where
  "lower_char c =
     (case map_of (zip ''ABCDEFGHIJKLMNOPQRSTUVWXYZ'' ''abcdefghijklmnopqrstuvwxyz'') c of
        Some d \<Rightarrow> d
      | None \<Rightarrow> c)"

definition lower :: "string \<Rightarrow> string" where
  "lower s = map lower_char s"

fun contains :: "string \<Rightarrow> string \<Rightarrow> bool" where
  "contains sub [] = (sub = [])"
| "contains sub (c # cs) = (take (length sub) (c # cs) = sub \<or> contains sub cs)"

definition cancel_error :: "cancel_result \<Rightarrow> string option" where
  "cancel_error r = (case r of
       CancelRaises m \<Rightarrow> Some m
     | CancelResult status printed \<Rightarrow>
         (if status = ''ok'' then None else Some (''Cancel failed: '' @ printed)))"

definition already_gone :: "string \<Rightarrow> bool" where
  "already_gone error_msg =
     (contains ''not found'' (lower error_msg) \<or> contains ''already'' (lower error_msg))"

fun cancel_loop ::
  "(nat \<Rightarrow> event) \<Rightarrow> (nat \<Rightarrow> cancel_result) \<Rightarrow> nat \<Rightarrow> nat \<Rightarrow> real \<Rightarrow> string option \<Rightarrow> event list \<Rightarrow>
   bool \<times> string option \<times> event list" where
  "cancel_loop mk ex 0 attempt backoff last_error evs = (False, last_error, evs)"
| "cancel_loop mk ex (Suc n) attempt backoff last_error evs =
     (case cancel_error (ex attempt) of
        None \<Rightarrow> (True, last_error, evs @ [mk attempt])
      | Some e \<Rightarrow>
          (if already_gone (take 200 e) then (True, Some e, evs @ [mk attempt])
           else if attempt < MAX_RETRIES then
             cancel_loop mk ex n (Suc attempt) (min (backoff * 2) MAX_BACKOFF) (Some e)
               (evs @ [mk attempt, Sleep backoff])
           else
             cancel_loop mk ex n (Suc attempt) backoff (Some e) (evs @ [mk attempt])))"

definition cancel_order_with_retry ::
  "(nat \<Rightarrow> cancel_result) \<Rightarrow> string \<Rightarrow> string \<Rightarrow> bool \<Rightarrow> bool \<times> event list" where
  "cancel_order_with_retry exchange coin order_id notify_on_failure =
     (case cancel_loop (\<lambda>a. CancelAttempt a coin order_id) exchange MAX_RETRIES 1
             INITIAL_BACKOFF None [] of
        (True, last_error, evs) \<Rightarrow> (True, evs)
      | (False, last_error, evs) \<Rightarrow>
          (False, evs @ (if notify_on_failure
                         then [NotifyAdmin Warning (FailedToCancel (final_error last_error))]
                         else [])))"

subsection \<open>Reading the events of one retried operation\<close>

fun sleeps_of :: "event list \<Rightarrow> real list" where
  "sleeps_of [] = []"
| "sleeps_of (Sleep d # es) = d # sleeps_of es"
| "sleeps_of (_ # es) = sleeps_of es"

text \<open>The three event lists an operation that ends in success can leave.\<close>

definition attempt_shape :: "(nat \<Rightarrow> event) \<Rightarrow> event list \<Rightarrow> bool" where
  "attempt_shape mk evs =
     (evs = [mk 1] \<or> evs = [mk 1, Sleep 1, mk 2] \<or> evs = [mk 1, Sleep 1, mk 2, Sleep 2, mk 3])"

text \<open>
  The test of \<^verbatim>\<open>cancel_order_with_retry\<close> for an order that is gone: the message of the
  failed attempt, cut to 200 characters and lower-cased, contains \<^verbatim>\<open>not found\<close> or
  \<^verbatim>\<open>already\<close>.
\<close>

definition reports_gone :: "cancel_result \<Rightarrow> bool" where
  "reports_gone r = (case cancel_error r of None \<Rightarrow> False | Some e \<Rightarrow> already_gone (take 200 e))"

section \<open>Strings\<close>

definition upper_char :: "char \<Rightarrow> char" where
  "upper_char c =
     (case map_of (zip ''abcdefghijklmnopqrstuvwxyz'' ''ABCDEFGHIJKLMNOPQRSTUVWXYZ'') c of
        Some d \<Rightarrow> d
      | None \<Rightarrow> c)"

definition upper :: "string \<Rightarrow> string" where
  "upper s = map upper_char s"

text \<open>\<^verbatim>\<open>s.replace(old, '')\<close> for a non-empty \<open>old\<close>: left to right, without overlap.\<close>

function remove_all :: "string \<Rightarrow> string \<Rightarrow> string" where
  "remove_all old [] = []"
| "remove_all old (c # cs) =
     (if old \<noteq> [] \<and> take (length old) (c # cs) = old
      then remove_all old (drop (length old) (c # cs))
      else c # remove_all old cs)"
  by pat_completeness auto
termination
  by (relation "measure (\<lambda>(old, s). length s)") auto

text \<open>\<^verbatim>\<open>s.split('/')[0]\<close>.\<close>

definition before_slash :: "string \<Rightarrow> string" where
  "before_slash s = takeWhile (\<lambda>c. c \<noteq> CHR ''/'') s"

text \<open>\<^verbatim>\<open>int(s)\<close> succeeds: here an optional sign and then decimal digits only.\<close>

definition is_digit :: "char \<Rightarrow> bool" where
  "is_digit c = (c \<in> set ''0123456789'')"

definition py_int_ok :: "string \<Rightarrow> bool" where
  "py_int_ok s =
     (let t = (case s of c # cs \<Rightarrow> if c = CHR ''-'' \<or> c = CHR ''+'' then cs else s | [] \<Rightarrow> [])
      in t \<noteq> [] \<and> list_all is_digit t)"

text \<open>\<^verbatim>\<open>str(n)\<close> for a non-negative integer.\<close>

definition digit_char :: "nat \<Rightarrow> char" where
  "digit_char d = ''0123456789'' ! d"

function str_nat :: "nat \<Rightarrow> string" where
  "str_nat n = (if n < 10 then [digit_char n] else str_nat (n div 10) @ [digit_char (n mod 10)])"
  by pat_completeness auto
termination
  by (relation "measure id") auto

declare str_nat.simps [simp del]

section \<open>The persistent store\<close>

text \<open>
  The tables the engine reads and writes, with the columns it uses. Times are integers
  (seconds). Boolean columns are two-valued. A row the code never deletes stays in its list.
\<close>

record user_row =
  u_id :: nat
  u_api_key :: string
  u_email :: string
  u_hl_private_key_encrypted :: "string option"
  u_hl_wallet_address :: "string option"
  u_agent_active :: bool
  u_credentials_set :: bool
  u_access_granted :: bool
  u_pending_invoice_id :: "string option"
  u_invoice_due_date :: "int option"
  u_billing_cycle_start :: "int option"
  u_total_trades :: nat
  u_total_profit :: real
  u_current_cycle_profit :: real
  u_current_cycle_trades :: nat

record signal_row =
  s_id :: nat
  s_signal_id :: string
  s_action :: string
  s_symbol :: string
  s_entry_price :: real
  s_stop_loss :: "real option"
  s_take_profit :: "real option"
  s_leverage :: "real option"
  s_risk_pct :: "real option"
  s_created_at :: int

record delivery_row =
  sd_id :: nat
  sd_signal_id :: nat
  sd_user_id :: nat
  sd_acknowledged :: bool
  sd_executed :: bool
  sd_failed :: bool

record open_position =
  op_id :: nat
  op_user_id :: nat
  op_signal_id :: "nat option"
  op_entry_order_id :: string
  op_tp_order_id :: string
  op_sl_order_id :: string
  op_symbol :: string
  op_hl_coin :: "string option"
  op_side :: string
  op_quantity :: real
  op_leverage :: real
  op_entry_fill_price :: "real option"
  op_avg_entry_price :: "real option"
  op_filled_quantity :: "real option"
  op_fill_count :: "nat option"
  op_target_tp :: real
  op_target_sl :: real
  op_opened_at :: "int option"
  op_first_fill_at :: "int option"
  op_status :: string

record trade_row =
  t_user_id :: nat
  t_signal_id :: "string option"
  t_order_id :: string
  t_opened_at :: "int option"
  t_closed_at :: int
  t_symbol :: string
  t_side :: string
  t_entry_price :: real
  t_exit_price :: real
  t_position_size :: real
  t_leverage :: real
  t_profit_usd :: real
  t_profit_percent :: real
  t_exit_type :: string
  t_fee_charged :: real
  t_pnl_source :: string

record store =
  st_users :: "user_row list"
  st_signals :: "signal_row list"
  st_deliveries :: "delivery_row list"
  st_positions :: "open_position list"
  st_trades :: "trade_row list"

section \<open>Python floats\<close>

text \<open>
  A Python float is a binary64 number of IEEE 754, an infinity or NaN. A finite float is
  modelled by its value. An arithmetic operation on finite floats is the exact operation
  followed by rounding to the nearest binary64 number, a tie going to the even
  significand; a rounded result of magnitude \<open>2^1024\<close> or more is an infinity. The sign of
  a zero is not modelled: it shows only in a division by zero, which raises in Python.
\<close>

datatype pyfloat = Fin real | PInf | NInf | NaN

text \<open>The nearest integer, a tie to the even one (also Python's \<^verbatim>\<open>round\<close>).\<close>

definition py_round :: "real \<Rightarrow> int" where
  "py_round x =
     (let f = \<lfloor>x\<rfloor>; d = x - of_int f
      in if d < 1 / 2 then f else if 1 / 2 < d then f + 1 else if even f then f else f + 1)"

text \<open>The number of binary digits of a natural number.\<close>

fun bits :: "nat \<Rightarrow> nat" where
  "bits n = (if n = 0 then 0 else Suc (bits (n div 2)))"

declare bits.simps [simp del]

text \<open>The binary exponent of a non-zero real: \<open>2^e \<le> |x| < 2^(e+1)\<close>.\<close>

definition expo :: "real \<Rightarrow> int" where
  "expo x =
     (if 1 \<le> \<bar>x\<bar> then int (bits (nat \<lfloor>\<bar>x\<bar>\<rfloor>)) - 1
      else - int (bits (nat (\<lceil>1 / \<bar>x\<bar>\<rceil> - 1))))"

text \<open>
  Rounding to binary64: 53 significant bits, so the unit in the last place is
  \<open>2^(e-52)\<close>; below \<open>2^(-1022)\<close> the numbers are the multiples of \<open>2^(-1074)\<close>.
\<close>

definition fl :: "real \<Rightarrow> real" where
  "fl x =
     (if x = 0 then 0
      else let e = max (expo x) (- 1022); ulp = 2 powi (e - 52)
           in of_int (py_round (x / ulp)) * ulp)"

text \<open>\<^verbatim>\<open>float(x)\<close> of a number or of a decimal string, and the result of an operation.\<close>

definition py_float :: "real \<Rightarrow> pyfloat" where
  "py_float x =
     (let y = fl x
      in if 2 ^ 1024 \<le> y then PInf else if y \<le> - (2 ^ 1024) then NInf else Fin y)"

definition float_sign :: "pyfloat \<Rightarrow> int" where
  "float_sign x = (case x of Fin a \<Rightarrow> (if 0 < a then 1 else if a < 0 then - 1 else 0)
                   | PInf \<Rightarrow> 1 | NInf \<Rightarrow> - 1 | NaN \<Rightarrow> 0)"

definition float_mul :: "pyfloat \<Rightarrow> pyfloat \<Rightarrow> pyfloat" where
  "float_mul x y =
     (case (x, y) of
        (Fin a, Fin b) \<Rightarrow> py_float (a * b)
      | (NaN, _) \<Rightarrow> NaN
      | (_, NaN) \<Rightarrow> NaN
      | _ \<Rightarrow> (if float_sign x * float_sign y = 0 then NaN
              else if 0 < float_sign x * float_sign y then PInf else NInf))"

definition float_sub :: "pyfloat \<Rightarrow> pyfloat \<Rightarrow> pyfloat" where
  "float_sub x y =
     (case (x, y) of
        (Fin a, Fin b) \<Rightarrow> py_float (a - b)
      | (NaN, _) \<Rightarrow> NaN
      | (_, NaN) \<Rightarrow> NaN
      | (PInf, PInf) \<Rightarrow> NaN
      | (NInf, NInf) \<Rightarrow> NaN
      | (PInf, _) \<Rightarrow> PInf
      | (NInf, _) \<Rightarrow> NInf
      | (Fin a, PInf) \<Rightarrow> NInf
      | (Fin a, NInf) \<Rightarrow> PInf)"

text \<open>Division: \<open>None\<close> is the \<^verbatim>\<open>ZeroDivisionError\<close> that a zero divisor raises.\<close>

definition float_div :: "pyfloat \<Rightarrow> pyfloat \<Rightarrow> pyfloat option" where
  "float_div x y =
     (if y = Fin 0 then None
      else Some (case (x, y) of
                   (Fin a, Fin b) \<Rightarrow> py_float (a / b)
                 | (NaN, _) \<Rightarrow> NaN
                 | (_, NaN) \<Rightarrow> NaN
                 | (Fin a, _) \<Rightarrow> Fin 0
                 | (_, Fin b) \<Rightarrow> (if 0 < float_sign x * float_sign y then PInf else NInf)
                 | _ \<Rightarrow> NaN))"

definition float_abs :: "pyfloat \<Rightarrow> pyfloat" where
  "float_abs x = (case x of Fin a \<Rightarrow> Fin \<bar>a\<bar> | PInf \<Rightarrow> PInf | NInf \<Rightarrow> PInf | NaN \<Rightarrow> NaN)"

text \<open>\<^verbatim>\<open>x <= y\<close>: false when either side is NaN.\<close>

definition float_le :: "pyfloat \<Rightarrow> pyfloat \<Rightarrow> bool" where
  "float_le x y =
     (case (x, y) of
        (Fin a, Fin b) \<Rightarrow> a \<le> b
      | (NaN, _) \<Rightarrow> False
      | (_, NaN) \<Rightarrow> False
      | (NInf, _) \<Rightarrow> True
      | (_, PInf) \<Rightarrow> True
      | _ \<Rightarrow> False)"

text \<open>
  An integer as a float, \<^verbatim>\<open>math.floor\<close> of a float, and the true division of two
  integers, which Python rounds once, from the exact quotient. \<open>None\<close> is the exception
  raised: \<^verbatim>\<open>OverflowError\<close> for a result too large for a float and for the floor of an
  infinity, \<^verbatim>\<open>ValueError\<close> for the floor of NaN, \<^verbatim>\<open>ZeroDivisionError\<close> for a zero
  divisor.
\<close>

definition int_to_float :: "int \<Rightarrow> real option" where
  "int_to_float n = (case py_float (of_int n) of Fin y \<Rightarrow> Some y | _ \<Rightarrow> None)"

definition math_floor :: "pyfloat \<Rightarrow> int option" where
  "math_floor x = (case x of Fin a \<Rightarrow> Some \<lfloor>a\<rfloor> | _ \<Rightarrow> None)"

definition true_div :: "int \<Rightarrow> int \<Rightarrow> real option" where
  "true_div n m =
     (if m = 0 then None
      else case py_float (of_int n / of_int m) of Fin y \<Rightarrow> Some y | _ \<Rightarrow> None)"

section \<open>hosted\_trading\_loop.py\<close>

definition DEFAULT_RISK_PERCENTAGE :: real where "DEFAULT_RISK_PERCENTAGE = 2 / 100"
definition SLIPPAGE_BPS :: real where "SLIPPAGE_BPS = 50"

definition convert_symbol_to_hl :: "string \<Rightarrow> string" where
  "convert_symbol_to_hl api_symbol =
     (if CHR ''/'' \<in> set api_symbol then upper (before_slash api_symbol)
      else remove_all ''USDT'' (remove_all ''USD'' (remove_all ''PF_'' (upper api_symbol))))"

text \<open>
  \<^verbatim>\<open>asset_meta\<close> maps a coin to its \<^verbatim>\<open>szDecimals\<close>, where the exchange gave one. The factor
  is an integer; \<^verbatim>\<open>size * factor\<close> is a product of floats, \<^verbatim>\<open>math.floor\<close> gives an integer
  and the last division is that of two integers. \<open>None\<close>: an exception is raised.
\<close>

definition round_size :: "(string \<Rightarrow> nat option) \<Rightarrow> string \<Rightarrow> pyfloat \<Rightarrow> real option" where
  "round_size asset_meta coin sz =
     (let sz_decimals = (case asset_meta coin of None \<Rightarrow> 2 | Some d \<Rightarrow> d);
          factor = (10::int) ^ sz_decimals
      in case int_to_float factor of
           None \<Rightarrow> None
         | Some f \<Rightarrow>
            (case math_floor (float_mul sz (Fin f)) of
               None \<Rightarrow> None
             | Some n \<Rightarrow> true_div n factor))"

definition round_price :: "real \<Rightarrow> real" where
  "round_price price =
     (if price = 0 then 0
      else let magnitude = \<lfloor>log 10 \<bar>price\<bar>\<rfloor>;
               factor = (10::real) powi (5 - 1 - magnitude)
           in of_int (py_round (price * factor)) / factor)"

subsection \<open>The batched fetch\<close>

record pending_item =
  pi_user_id :: nat
  pi_api_key :: string
  pi_email :: string
  pi_hl_private_key_encrypted :: "string option"
  pi_hl_wallet_address :: "string option"
  pi_delivery_id :: nat
  pi_signal_id :: string
  pi_action :: string
  pi_symbol :: string
  pi_entry_price :: real
  pi_stop_loss :: "real option"
  pi_take_profit :: "real option"
  pi_leverage :: "real option"
  pi_risk_pct :: real
  pi_signal_created_at :: int

definition joined_row :: "user_row \<Rightarrow> delivery_row \<Rightarrow> signal_row \<Rightarrow> pending_item" where
  "joined_row u sd s =
     \<lparr>pi_user_id = u_id u, pi_api_key = u_api_key u, pi_email = u_email u,
      pi_hl_private_key_encrypted = u_hl_private_key_encrypted u,
      pi_hl_wallet_address = u_hl_wallet_address u,
      pi_delivery_id = sd_id sd, pi_signal_id = s_signal_id s, pi_action = s_action s,
      pi_symbol = s_symbol s, pi_entry_price = s_entry_price s, pi_stop_loss = s_stop_loss s,
      pi_take_profit = s_take_profit s, pi_leverage = s_leverage s,
      pi_risk_pct = (case s_risk_pct s of None \<Rightarrow> 2 / 100 | Some r \<Rightarrow> r),
      pi_signal_created_at = s_created_at s\<rparr>"

text \<open>The \<^verbatim>\<open>WHERE\<close> clause of the query, on one joined row, at time \<open>now\<close>.\<close>

definition where_clause :: "int \<Rightarrow> user_row \<Rightarrow> delivery_row \<Rightarrow> signal_row \<Rightarrow> bool" where
  "where_clause now u sd s =
     (u_agent_active u \<and> u_credentials_set u \<and> u_access_granted u
      \<and> (u_pending_invoice_id u = None \<or> u_invoice_due_date u = None
          \<or> (case u_invoice_due_date u of Some due \<Rightarrow> now < due | None \<Rightarrow> False))
      \<and> \<not> sd_acknowledged sd
      \<and> now - 15 * 60 < s_created_at s)"

text \<open>
  The join, as nested loops over the three tables (the order of rows with equal
  \<^verbatim>\<open>created_at\<close> is left open by the query; the loop shuffles the result anyway).
\<close>

definition get_pending_signals_batched :: "int \<Rightarrow> store \<Rightarrow> pending_item list" where
  "get_pending_signals_batched now st =
     sort_key (\<lambda>r. - pi_signal_created_at r)
       (concat (map (\<lambda>sd.
          concat (map (\<lambda>u.
            concat (map (\<lambda>s.
              if where_clause now u sd s then [joined_row u sd s] else [])
              (filter (\<lambda>s. sd_signal_id sd = s_id s) (st_signals st))))
            (filter (\<lambda>u. sd_user_id sd = u_id u) (st_users st))))
          (st_deliveries st)))"

text \<open>
  The eligibility predicate in the words of the design: active, credentials configured,
  access granted with no unresolved billing block, not yet acknowledged, not marked failed,
  and younger than the expiry window.
\<close>

definition pending_eligible :: "int \<Rightarrow> user_row \<Rightarrow> delivery_row \<Rightarrow> signal_row \<Rightarrow> bool" where
  "pending_eligible now u sd s =
     (u_agent_active u \<and> u_credentials_set u \<and> u_access_granted u
      \<and> (u_pending_invoice_id u = None \<or> u_invoice_due_date u = None
          \<or> (case u_invoice_due_date u of Some due \<Rightarrow> now < due | None \<Rightarrow> False))
      \<and> \<not> sd_acknowledged sd
      \<and> \<not> sd_failed sd
      \<and> now - 15 * 60 < s_created_at s)"

definition acknowledge_signal :: "store \<Rightarrow> nat \<Rightarrow> store" where
  "acknowledge_signal st delivery_id =
     st\<lparr>st_deliveries :=
          map (\<lambda>sd. if sd_id sd = delivery_id
                     then sd\<lparr>sd_acknowledged := True, sd_executed := True\<rparr> else sd)
              (st_deliveries st)\<rparr>"

subsection \<open>What the exchange and the store answer during one execution\<close>

datatype 'a call = Raises string | Returns 'a

datatype cred_result = CredOk | CredValueError string | CredOtherError string

text \<open>
  One field for each call \<^verbatim>\<open>execute_trade\<close> can make, in the order of the code:
  \<^verbatim>\<open>get_or_create_exchange\<close>; the store queries of the safety gate (\<open>Some\<close> message: they
  raise); \<^verbatim>\<open>info.user_state\<close> of the gate, read as coin and signed size of each asset
  position (\<open>None\<close>: nothing or no \<^verbatim>\<open>assetPositions\<close>); \<^verbatim>\<open>info.open_orders\<close> of the gate
  (the coins of the orders); the account value read by \<^verbatim>\<open>get_user_equity\<close>; the answers to
  the attempts of the three placements and of the cancellation; the three calls of the
  emergency close (\<^verbatim>\<open>user_state\<close>, the mid price, the status of the close order); whether
  writing the open position raises; and the time.
\<close>

record exchange_env =
  e_credentials :: cred_result
  e_gate_db :: "string option"
  e_gate_user_state :: "(string \<times> real) list option call"
  e_gate_open_orders :: "string list call"
  e_equity :: "real option call"
  e_entry :: "nat \<Rightarrow> order_result"
  e_tp :: "nat \<Rightarrow> order_result"
  e_sl :: "nat \<Rightarrow> order_result"
  e_cancel :: "nat \<Rightarrow> cancel_result"
  e_em_user_state :: "unit call"
  e_em_all_mids :: "real call"
  e_em_order :: "string call"
  e_insert :: "string option"
  e_now :: int

record user =
  usr_id :: nat
  usr_api_key :: string
  usr_email :: string
  usr_hl_private_key_encrypted :: "string option"
  usr_hl_wallet_address :: "string option"

record signal =
  sg_delivery_id :: nat
  sg_signal_id :: string
  sg_action :: string
  sg_symbol :: string
  sg_entry_price :: real
  sg_stop_loss :: "real option"
  sg_take_profit :: "real option"
  sg_leverage :: "real option"
  sg_risk_pct :: real
  sg_created_at :: int

subsection \<open>The pre-trade safety gate\<close>

datatype skip_reason =
    PositionAlreadyExists
  | TradeRecentlyClosed
  | OpenPositionExists string string
  | OpenOrdersExist nat

text \<open>Check 0: the store lookups, when they do not raise.\<close>

definition gate_db_check :: "int \<Rightarrow> store \<Rightarrow> nat \<Rightarrow> string \<Rightarrow> skip_reason option" where
  "gate_db_check now st user_id signal_id =
     (case find (\<lambda>s. s_signal_id s = signal_id) (st_signals st) of
        None \<Rightarrow> None
      | Some s \<Rightarrow>
          if s_id s = 0 then None
          else if filter (\<lambda>p. op_user_id p = user_id \<and> op_signal_id p = Some (s_id s))
                    (st_positions st) \<noteq> []
          then Some PositionAlreadyExists
          else if filter (\<lambda>t. t_user_id t = user_id \<and> t_signal_id t = Some (str_nat (s_id s))
                              \<and> now - 60 < t_closed_at t) (st_trades st) \<noteq> []
          then Some TradeRecentlyClosed
          else None)"

text \<open>Check 1: any asset position with a non-zero size; an exception is swallowed.\<close>

definition gate_positions_check :: "(string \<times> real) list option call \<Rightarrow> skip_reason option" where
  "gate_positions_check r =
     (case r of
        Raises m \<Rightarrow> None
      | Returns None \<Rightarrow> None
      | Returns (Some ps) \<Rightarrow>
          (case find (\<lambda>(coin, szi). 0 < \<bar>szi\<bar>) ps of
             None \<Rightarrow> None
           | Some (coin, szi) \<Rightarrow>
               Some (OpenPositionExists coin (if 0 < szi then ''LONG'' else ''SHORT''))))"

text \<open>Check 2: any open order; an exception is swallowed.\<close>

definition gate_orders_check :: "string list call \<Rightarrow> skip_reason option" where
  "gate_orders_check r =
     (case r of
        Raises m \<Rightarrow> None
      | Returns os \<Rightarrow> if os \<noteq> [] then Some (OpenOrdersExist (length os)) else None)"

definition check_any_open_positions_or_orders ::
  "exchange_env \<Rightarrow> store \<Rightarrow> nat \<Rightarrow> string \<Rightarrow> (bool \<times> skip_reason option) \<times> event list" where
  "check_any_open_positions_or_orders env st user_id signal_id =
     (let uses_db = (user_id \<noteq> 0 \<and> signal_id \<noteq> []);
          db_evs = (if uses_db then [GateDbQuery] else [])
      in if uses_db \<and> e_gate_db env \<noteq> None
         then ((False, None), db_evs @ [LogErrorDb ''SAFETY_CHECK_ERROR''])
         else
           (case (if uses_db then gate_db_check (e_now env) st user_id signal_id else None) of
              Some r \<Rightarrow> ((True, Some r), db_evs)
            | None \<Rightarrow>
               (case gate_positions_check (e_gate_user_state env) of
                  Some r \<Rightarrow> ((True, Some r), db_evs @ [GatePositionsQuery])
                | None \<Rightarrow>
                   (case gate_orders_check (e_gate_open_orders env) of
                      Some r \<Rightarrow> ((True, Some r), db_evs @ [GatePositionsQuery, GateOrdersQuery])
                    | None \<Rightarrow> ((False, None), db_evs @ [GatePositionsQuery, GateOrdersQuery])))))"

subsection \<open>Sizing and the decision to trade\<close>

definition get_user_equity :: "real option call \<Rightarrow> pyfloat" where
  "get_user_equity r = (case r of Returns (Some v) \<Rightarrow> py_float v | _ \<Rightarrow> Fin 0)"

text \<open>Lines 431 to 440: the size before rounding.\<close>

definition position_size :: "pyfloat \<Rightarrow> pyfloat \<Rightarrow> pyfloat \<Rightarrow> pyfloat \<Rightarrow> pyfloat option" where
  "position_size equity risk_pct entry_price stop_loss =
     (let risk_amount = float_mul equity risk_pct;
          risk_per_unit = float_abs (float_sub entry_price stop_loss)
      in float_div risk_amount risk_per_unit)"

record plan =
  pl_coin :: string
  pl_action :: string
  pl_entry_price :: real
  pl_stop_loss :: real
  pl_take_profit :: real
  pl_leverage :: real
  pl_quantity :: real

definition falsy :: "real option \<Rightarrow> bool" where
  "falsy v = (v = None \<or> v = Some 0)"

text \<open>
  \<^verbatim>\<open>execute_trade\<close> from the credentials to the logging of the position: every early
  \<^verbatim>\<open>return False\<close> and every exception that reaches the outer handler (a missing
  leverage in \<^verbatim>\<open>float(...)\<close>, an exception in the sizing, a zero leverage in the margin of
  the log line) gives \<open>None\<close>; otherwise the plan to place. The checks and the sizing are
  on the floats; the plan keeps the prices of the signal.
\<close>

definition prepare_trade ::
  "exchange_env \<Rightarrow> (string \<Rightarrow> nat option) \<Rightarrow> store \<Rightarrow> user \<Rightarrow> signal \<Rightarrow> plan option \<times> event list" where
  "prepare_trade env asset_meta st user signal =
     (case e_credentials env of
        CredValueError m \<Rightarrow> (None, [LogErrorDb ''CREDENTIALS_NOT_FOUND''])
      | CredOtherError m \<Rightarrow> (None, [LogErrorDb ''TRADE_EXECUTION_ERROR''])
      | CredOk \<Rightarrow>
         (let coin = convert_symbol_to_hl (sg_symbol signal);
              gate = check_any_open_positions_or_orders env st (usr_id user) (sg_signal_id signal)
          in if fst (fst gate) then (None, snd gate)
             else
              (let equity = get_user_equity (e_equity env);
                   evs = snd gate @ [EquityQuery]
               in if float_le equity (Fin 0) then (None, evs)
                  else if falsy (sg_stop_loss signal) \<or> falsy (sg_take_profit signal) then
                    (None, evs @ [NotifyAdmin Error (SignalMissing
                        ((if falsy (sg_stop_loss signal) then [''stop_loss''] else [])
                         @ (if falsy (sg_take_profit signal) then [''take_profit''] else [])))])
                  else
                   (case sg_leverage signal of
                      None \<Rightarrow> (None, evs @ [LogErrorDb ''TRADE_EXECUTION_ERROR''])
                    | Some lev \<Rightarrow>
                       (let entry_price = py_float (sg_entry_price signal);
                            stop_loss = py_float (the (sg_stop_loss signal));
                            take_profit = py_float (the (sg_take_profit signal));
                            leverage = py_float lev;
                            risk_pct = py_float (sg_risk_pct signal);
                            risk_per_unit = float_abs (float_sub entry_price stop_loss)
                        in if float_le stop_loss (Fin 0) \<or> float_le take_profit (Fin 0) then
                             (None, evs @ [NotifyAdmin Error (SignalInvalidValues ''Zero or negative'')])
                           else if float_le risk_per_unit (Fin 0) then
                             (None, evs @ [NotifyAdmin Error (SignalInvalidValues ''SL distance zero'')])
                           else
                            (case Option.bind (position_size equity risk_pct entry_price stop_loss)
                                    (round_size asset_meta coin) of
                               None \<Rightarrow> (None, evs @ [LogErrorDb ''TRADE_EXECUTION_ERROR''])
                             | Some quantity \<Rightarrow>
                                if quantity \<le> 0 then (None, evs)
                                else if leverage = Fin 0 then
                                  (None, evs @ [LogErrorDb ''TRADE_EXECUTION_ERROR''])
                                else
                                  (Some \<lparr>pl_coin = coin, pl_action = sg_action signal,
                                         pl_entry_price = sg_entry_price signal,
                                         pl_stop_loss = the (sg_stop_loss signal),
                                         pl_take_profit = the (sg_take_profit signal),
                                         pl_leverage = lev,
                                         pl_quantity = quantity\<rparr>, evs)))))))"

subsection \<open>Emergency close\<close>

definition emergency_close_position ::
  "exchange_env \<Rightarrow> string \<Rightarrow> bool \<Rightarrow> real \<Rightarrow> string \<Rightarrow> event list" where
  "emergency_close_position env coin is_buy_to_close quantity reason =
     (let attempt =
            (case e_em_user_state env of
               Raises m \<Rightarrow> ([], False)
             | Returns u \<Rightarrow>
                (case e_em_all_mids env of
                   Raises m \<Rightarrow> ([], False)
                 | Returns mid_price \<Rightarrow>
                    if 0 < mid_price then
                      (let emergency_slippage = 2 / 100;
                           limit_px = (if is_buy_to_close
                                       then round_price (mid_price * (1 + emergency_slippage))
                                       else round_price (mid_price * (1 - emergency_slippage)))
                       in ([EmergencyOrder coin is_buy_to_close quantity limit_px],
                           (case e_em_order env of
                              Raises m \<Rightarrow> False
                            | Returns status \<Rightarrow> status = ''ok'')))
                    else ([], False)));
          close_success = snd attempt
      in [EmergencyTriggered reason] @ fst attempt @ [EmergencyOutcome close_success]
         @ [NotifyAdmin Error (BracketIncomplete reason close_success),
            LogErrorDb ''EMERGENCY_CLOSE''])"

subsection \<open>Placing the bracket and recording the position\<close>

definition new_position_id :: "store \<Rightarrow> nat" where
  "new_position_id st = Suc (foldr max (map op_id (st_positions st)) 0)"

definition record_open_position ::
  "exchange_env \<Rightarrow> store \<Rightarrow> user \<Rightarrow> signal \<Rightarrow> plan \<Rightarrow>
   placed_order \<Rightarrow> placed_order \<Rightarrow> placed_order \<Rightarrow> real \<Rightarrow> real \<Rightarrow> store \<times> event list" where
  "record_open_position env st user signal pl entry_order tp_order sl_order tp_price sl_price =
     (case e_insert env of
        Some m \<Rightarrow> (st, [InsertFailed])
      | None \<Rightarrow>
         (let signal_db_id = map_option s_id
                (find (\<lambda>s. s_signal_id s = sg_signal_id signal) (st_signals st));
              position_opened_at = e_now env;
              entry_fill_price = (case po_avgPx entry_order of
                                    Some px \<Rightarrow> px | None \<Rightarrow> pl_entry_price pl);
              row = \<lparr>op_id = new_position_id st, op_user_id = usr_id user,
                     op_signal_id = signal_db_id,
                     op_entry_order_id = po_id entry_order, op_tp_order_id = po_id tp_order,
                     op_sl_order_id = po_id sl_order, op_symbol = sg_symbol signal,
                     op_hl_coin = Some (pl_coin pl), op_side = upper (pl_action pl),
                     op_quantity = pl_quantity pl, op_leverage = pl_leverage pl,
                     op_entry_fill_price = Some entry_fill_price, op_avg_entry_price = None,
                     op_filled_quantity = None, op_fill_count = None,
                     op_target_tp = tp_price, op_target_sl = sl_price,
                     op_opened_at = Some position_opened_at, op_first_fill_at = None,
                     op_status = ''open''\<rparr>
          in (st\<lparr>st_positions := st_positions st @ [row],
                 st_users := map (\<lambda>u. if u_id u = usr_id user \<and> u_billing_cycle_start u = None
                                        then u\<lparr>u_billing_cycle_start := Some position_opened_at\<rparr>
                                        else u) (st_users st)\<rparr>,
              [InsertOpenPosition])))"

definition place_bracket ::
  "exchange_env \<Rightarrow> store \<Rightarrow> user \<Rightarrow> signal \<Rightarrow> plan \<Rightarrow> store \<times> bool \<times> event list" where
  "place_bracket env st user signal pl =
     (let coin = pl_coin pl; quantity = pl_quantity pl;
          is_buy = (upper (pl_action pl) = ''BUY'');
          slippage_mult = (if is_buy then 1 + SLIPPAGE_BPS / 10000 else 1 - SLIPPAGE_BPS / 10000);
          entry_limit_price = round_price (pl_entry_price pl * slippage_mult);
          entry = place_entry_order_with_retry (e_entry env) coin is_buy quantity entry_limit_price
      in case fst entry of
           None \<Rightarrow> (st, False, [SetLeverage] @ snd entry @ [LogErrorDb ''ENTRY_ORDER_FAILED''])
         | Some entry_order \<Rightarrow>
            (let tp_price = round_price (pl_take_profit pl);
                 tp = place_tp_order_with_retry (e_tp env) coin (\<not> is_buy) quantity tp_price;
                 evs1 = [SetLeverage] @ snd entry @ [Sleep 2] @ snd tp
             in case fst tp of
                  None \<Rightarrow>
                    (st, False, evs1 @ emergency_close_position env coin (\<not> is_buy) quantity
                                         ''TP order failed after all retries'')
                | Some tp_order \<Rightarrow>
                   (let sl_price = round_price (pl_stop_loss pl);
                        sl = place_sl_order_with_retry (e_sl env) coin (\<not> is_buy) quantity sl_price;
                        evs2 = evs1 @ snd sl
                    in case fst sl of
                         None \<Rightarrow>
                           (st, False,
                            evs2
                            @ (if py_int_ok (po_id tp_order)
                               then snd (cancel_order_with_retry (e_cancel env) coin
                                           (po_id tp_order) True)
                               else [])
                            @ emergency_close_position env coin (\<not> is_buy) quantity
                                ''SL order failed after all retries'')
                       | Some sl_order \<Rightarrow>
                          (let rec = record_open_position env st user signal pl
                                       entry_order tp_order sl_order tp_price sl_price
                           in (fst rec, True, evs2 @ snd rec)))))"

definition execute_trade ::
  "exchange_env \<Rightarrow> (string \<Rightarrow> nat option) \<Rightarrow> store \<Rightarrow> user \<Rightarrow> signal \<Rightarrow> store \<times> bool \<times> event list" where
  "execute_trade env asset_meta st user signal =
     (let delivery_id = sg_delivery_id signal;
          st1 = (if delivery_id \<noteq> 0 then acknowledge_signal st delivery_id else st);
          ack_evs = (if delivery_id \<noteq> 0 then [AckWrite delivery_id] else []);
          prep = prepare_trade env asset_meta st1 user signal
      in case fst prep of
           None \<Rightarrow> (st1, False, ack_evs @ snd prep)
         | Some pl \<Rightarrow>
            (let placed = place_bracket env st1 user signal pl
             in (fst placed, fst (snd placed), ack_evs @ snd prep @ snd (snd placed))))"

definition item_user :: "pending_item \<Rightarrow> user" where
  "item_user item =
     \<lparr>usr_id = pi_user_id item, usr_api_key = pi_api_key item, usr_email = pi_email item,
      usr_hl_private_key_encrypted = pi_hl_private_key_encrypted item,
      usr_hl_wallet_address = pi_hl_wallet_address item\<rparr>"

definition item_signal :: "pending_item \<Rightarrow> signal" where
  "item_signal item =
     \<lparr>sg_delivery_id = pi_delivery_id item, sg_signal_id = pi_signal_id item,
      sg_action = pi_action item, sg_symbol = pi_symbol item,
      sg_entry_price = pi_entry_price item, sg_stop_loss = pi_stop_loss item,
      sg_take_profit = pi_take_profit item, sg_leverage = pi_leverage item,
      sg_risk_pct = pi_risk_pct item, sg_created_at = pi_signal_created_at item\<rparr>"

definition execute_signal_for_user ::
  "exchange_env \<Rightarrow> (string \<Rightarrow> nat option) \<Rightarrow> store \<Rightarrow> pending_item \<Rightarrow> store \<times> bool \<times> event list" where
  "execute_signal_for_user env asset_meta st item =
     execute_trade env asset_meta st (item_user item) (item_signal item)"

subsection \<open>Reading the events of one execution\<close>

definition leg_attempted :: "leg \<Rightarrow> event list \<Rightarrow> bool" where
  "leg_attempted l evs =
     list_ex (\<lambda>e. case e of OrderAttempt l' a c b q p r \<Rightarrow> l' = l | _ \<Rightarrow> False) evs"

definition failure_alert_leg :: "alert \<Rightarrow> leg option" where
  "failure_alert_leg a = (case a of
       EntryOrderFailed lg err \<Rightarrow> Some Entry
     | TPOrderFailed lg err \<Rightarrow> Some TakeProfit
     | SLOrderFailed lg err \<Rightarrow> Some StopLoss
     | _ \<Rightarrow> None)"

text \<open>A leg failed for good: its helper sent the alert of its exhaustion.\<close>

definition leg_failed :: "leg \<Rightarrow> event list \<Rightarrow> bool" where
  "leg_failed l evs =
     list_ex (\<lambda>e. case e of NotifyAdmin lv a \<Rightarrow> failure_alert_leg a = Some l | _ \<Rightarrow> False) evs"

definition leg_placed :: "leg \<Rightarrow> event list \<Rightarrow> bool" where
  "leg_placed l evs = (leg_attempted l evs \<and> \<not> leg_failed l evs)"

definition is_order_event :: "event \<Rightarrow> bool" where
  "is_order_event e = (case e of OrderAttempt l a c b q p r \<Rightarrow> True
                        | EmergencyOrder c b q p \<Rightarrow> True | _ \<Rightarrow> False)"

definition is_cancel_of :: "string \<Rightarrow> event \<Rightarrow> bool" where
  "is_cancel_of oid e = (case e of CancelAttempt a c oid' \<Rightarrow> oid' = oid | _ \<Rightarrow> False)"

definition is_emergency :: "event \<Rightarrow> bool" where
  "is_emergency e = (case e of EmergencyTriggered r \<Rightarrow> True
                      | EmergencyOrder c b q p \<Rightarrow> True | _ \<Rightarrow> False)"

text \<open>Some event with \<open>P\<close> occurs, and no event with \<open>Q\<close> occurs before the first of them.\<close>

fun occurs_before :: "(event \<Rightarrow> bool) \<Rightarrow> (event \<Rightarrow> bool) \<Rightarrow> event list \<Rightarrow> bool" where
  "occurs_before P Q [] = False"
| "occurs_before P Q (e # es) = (if Q e then False else if P e then True else occurs_before P Q es)"

text \<open>Every order attempt in the list is for this coin and this quantity.\<close>

definition all_orders_for :: "string \<Rightarrow> real \<Rightarrow> event list \<Rightarrow> bool" where
  "all_orders_for coin q evs =
     list_all (\<lambda>e. case e of OrderAttempt l a c b q' p r \<Rightarrow> c = coin \<and> q' = q | _ \<Rightarrow> True) evs"

section \<open>A concrete scenario\<close>

text \<open>
  One subscriber, one signal (buy ADA at 0.50, stop 0.48, target 0.55, leverage 5, risk 2
  percent), its delivery, an account worth 1000 and an exchange that accepts every order.
  The variants below change one answer each.
\<close>

definition ada_meta :: "string \<Rightarrow> nat option" where
  "ada_meta coin = (if coin = ''ADA'' then Some 0 else None)"

definition demo_store :: store where
  "demo_store =
     \<lparr>st_users = [\<lparr>u_id = 1, u_api_key = ''nk_alice'', u_email = ''alice@example.org'',
                    u_hl_private_key_encrypted = Some ''gAAAA'',
                    u_hl_wallet_address = Some ''0xA11CE'',
                    u_agent_active = True, u_credentials_set = True, u_access_granted = True,
                    u_pending_invoice_id = None, u_invoice_due_date = None,
                    u_billing_cycle_start = None, u_total_trades = 0, u_total_profit = 0,
                    u_current_cycle_profit = 0, u_current_cycle_trades = 0\<rparr>],
      st_signals = [\<lparr>s_id = 1, s_signal_id = ''sig-1'', s_action = ''BUY'',
                      s_symbol = ''ADA/USDT'', s_entry_price = 1 / 2,
                      s_stop_loss = Some (12 / 25), s_take_profit = Some (11 / 20),
                      s_leverage = Some 5, s_risk_pct = Some (2 / 100), s_created_at = 1000\<rparr>],
      st_deliveries = [\<lparr>sd_id = 1, sd_signal_id = 1, sd_user_id = 1, sd_acknowledged = False,
                         sd_executed = False, sd_failed = False\<rparr>],
      st_positions = [], st_trades = []\<rparr>"

definition demo_user :: user where
  "demo_user = \<lparr>usr_id = 1, usr_api_key = ''nk_alice'', usr_email = ''alice@example.org'',
                 usr_hl_private_key_encrypted = Some ''gAAAA'',
                 usr_hl_wallet_address = Some ''0xA11CE''\<rparr>"

definition demo_signal :: signal where
  "demo_signal = \<lparr>sg_delivery_id = 1, sg_signal_id = ''sig-1'', sg_action = ''BUY'',
                   sg_symbol = ''ADA/USDT'', sg_entry_price = 1 / 2, sg_stop_loss = Some (12 / 25),
                   sg_take_profit = Some (11 / 20), sg_leverage = Some 5, sg_risk_pct = 2 / 100,
                   sg_created_at = 1000\<rparr>"

definition demo_env :: exchange_env where
  "demo_env =
     \<lparr>e_credentials = CredOk, e_gate_db = None, e_gate_user_state = Returns (Some []),
      e_gate_open_orders = Returns [], e_equity = Returns (Some 1000),
      e_entry = (\<lambda>_. OrderResult ''ok'' [Filled (Some ''101'') (1 / 2) 1000] []),
      e_tp = (\<lambda>_. OrderResult ''ok'' [Resting (Some ''102'')] []),
      e_sl = (\<lambda>_. OrderResult ''ok'' [Resting (Some ''103'')] []),
      e_cancel = (\<lambda>_. CancelResult ''ok'' []),
      e_em_user_state = Returns (), e_em_all_mids = Returns (1 / 2), e_em_order = Returns ''ok'',
      e_insert = None, e_now = 1010\<rparr>"

text \<open>No cancellation and no step of the emergency close among the events.\<close>

definition quiet :: "event list \<Rightarrow> bool" where
  "quiet evs =
     list_all (\<lambda>e. case e of CancelAttempt a c oid \<Rightarrow> False | EmergencyTriggered r \<Rightarrow> False
                    | EmergencyOrder c b q p \<Rightarrow> False | _ \<Rightarrow> True) evs"

definition emergency_order_sent :: "event list \<Rightarrow> bool" where
  "emergency_order_sent evs =
     list_ex (\<lambda>e. case e of EmergencyOrder c b q p \<Rightarrow> True | _ \<Rightarrow> False) evs"

text \<open>
  The events end with the report of the emergency close: the outcome, the alert at the
  level that \<^verbatim>\<open>notify_admin\<close> prints as CRITICAL carrying the reason and the outcome, and
  the entry in the error log.
\<close>

definition emergency_reported :: "string \<Rightarrow> event list \<Rightarrow> bool" where
  "emergency_reported reason evs =
     (case rev evs of
        e3 # e2 # e1 # rest \<Rightarrow>
          e3 = LogErrorDb ''EMERGENCY_CLOSE''
          \<and> (e2 = NotifyAdmin Error (BracketIncomplete reason True) \<and> e1 = EmergencyOutcome True
             \<or> e2 = NotifyAdmin Error (BracketIncomplete reason False) \<and> e1 = EmergencyOutcome False)
          \<and> EmergencyTriggered reason \<in> set rest
      | _ \<Rightarrow> False)"

text \<open>The scenario with the delivery marked failed and not acknowledged.\<close>

definition failed_store :: store where
  "failed_store =
     demo_store\<lparr>st_deliveries :=
       [\<lparr>sd_id = 1, sd_signal_id = 1, sd_user_id = 1, sd_acknowledged = False,
         sd_executed = False, sd_failed = True\<rparr>]\<rparr>"

section \<open>position\_monitor.py\<close>

text \<open>
  \<^verbatim>\<open>str.strip()\<close> removes the characters for which \<^verbatim>\<open>str.isspace\<close> holds, at both ends.
  Among the characters below 256, which are the characters of a \<open>string\<close> here, these are
  U+0009 to U+000D, U+001C to U+001F, the space, U+0085 and U+00A0.
\<close>

definition is_space :: "char \<Rightarrow> bool" where
  "is_space c =
     (c \<in> {CHR 0x09, CHR 0x0A, CHR 0x0B, CHR 0x0C, CHR 0x0D, CHR 0x1C, CHR 0x1D, CHR 0x1E,
            CHR 0x1F, CHR 0x20, CHR 0x85, CHR 0xA0})"

definition py_strip :: "string \<Rightarrow> string" where
  "py_strip s = rev (dropWhile is_space (rev (dropWhile is_space s)))"

definition get_base_symbol :: "string \<Rightarrow> string" where
  "get_base_symbol symbol =
     (if symbol = [] then []
      else let base = upper symbol;
               base = (if CHR ''/'' \<in> set base then before_slash base else base)
           in py_strip (remove_all ''USDT'' (remove_all ''USD'' (remove_all ''PF_'' base))))"

text \<open>
  The \<^verbatim>\<open>LIKE\<close> of the signal lookup: \<open>%\<close> stands for any run of characters and \<open>_\<close> for one
  character (an escape character in the pattern is not modelled).
\<close>

fun like :: "string \<Rightarrow> string \<Rightarrow> bool" where
  "like [] s = (s = [])"
| "like (p # ps) [] = (p = CHR ''%'' \<and> like ps [])"
| "like (p # ps) (c # cs) =
     (if p = CHR ''%'' then like ps (c # cs) \<or> like (p # ps) cs
      else (p = CHR ''_'' \<or> p = c) \<and> like ps cs)"

text \<open>\<^verbatim>\<open>a or b\<close> on optional numbers: \<open>None\<close> and zero are false.\<close>

definition or_else :: "real option \<Rightarrow> real option \<Rightarrow> real option" where
  "or_else a b = (if falsy a then b else a)"

text \<open>The rows newest first, as \<^verbatim>\<open>sort(key=time, reverse=True)\<close> and \<^verbatim>\<open>ORDER BY ... DESC\<close> give them.\<close>

definition newest_first :: "('a \<Rightarrow> int) \<Rightarrow> 'a list \<Rightarrow> 'a list" where
  "newest_first t xs = sort_key (\<lambda>x. - t x) xs"

record fill =
  f_coin :: string
  f_time :: int
  f_px :: real
  f_sz :: real
  f_closedPnl :: real

text \<open>
  What the exchange and the store answer during one check of a position:
  whether \<^verbatim>\<open>get_exchange\<close> gives a client; \<^verbatim>\<open>info.user_state\<close> (coin and signed size of each
  asset position); \<^verbatim>\<open>info.open_orders\<close> (the order ids, as strings); \<^verbatim>\<open>info.user_fills\<close> as
  read for the exit price and again for the realized P&L; whether the signal lookup raises;
  the time; and the offset from UTC, in seconds, of the local zone of the process at a
  given local time. Fill times are in milliseconds, store times in seconds.
\<close>

record monitor_env =
  m_get_exchange :: bool
  m_user_state :: "(string \<times> real) list option call"
  m_open_orders :: "string list call"
  m_user_fills :: "fill list call"
  m_pnl_fills :: "fill list call"
  m_find_error :: bool
  m_now :: int
  m_utc_offset :: "int \<Rightarrow> int"

datatype monitor_event = CancelRemaining string string | ScanFills

subsection \<open>Signal matching\<close>

definition LOOKBACK_HOURS :: int where "LOOKBACK_HOURS = 48"

definition find_matching_signal :: "monitor_env \<Rightarrow> store \<Rightarrow> string \<Rightarrow> string \<Rightarrow> signal_row option" where
  "find_matching_signal env st symbol side =
     (if m_find_error env then None
      else let symbol_base = get_base_symbol symbol;
               signal_action = (if lower side = ''long'' then ''BUY''
                                else if lower side = ''short'' then ''SELL'' else upper side);
               lookback_threshold = m_now env - LOOKBACK_HOURS * 3600
           in (case newest_first s_created_at
                     (filter (\<lambda>s. like (''%'' @ symbol_base @ ''%'') (upper (s_symbol s))
                                  \<and> upper (s_action s) = upper signal_action
                                  \<and> lookback_threshold \<le> s_created_at s) (st_signals st)) of
                 [] \<Rightarrow> None
               | s # _ \<Rightarrow> Some s))"

subsection \<open>Is the position closed\<close>

datatype check_result =
    StillOpen real
  | Anomaly
  | CheckError string
  | Closed "real option" string

definition live_position :: "string \<Rightarrow> (string \<times> real) list option \<Rightarrow> real option" where
  "live_position coin state =
     (case state of
        None \<Rightarrow> None
      | Some ps \<Rightarrow>
         (case find (\<lambda>(c, szi). c = coin \<and> 0 < \<bar>szi\<bar>) ps of
            Some (c, szi) \<Rightarrow> Some \<bar>szi\<bar>
          | None \<Rightarrow>
             (case find (\<lambda>(c, szi). 0 < \<bar>szi\<bar>) ps of
                Some (c, szi) \<Rightarrow> Some \<bar>szi\<bar>
              | None \<Rightarrow> None)))"

definition exit_price_of :: "fill list call \<Rightarrow> string \<Rightarrow> real option" where
  "exit_price_of r coin =
     (case r of
        Raises m \<Rightarrow> None
      | Returns fills \<Rightarrow>
         (case find (\<lambda>f. f_coin f = coin) (newest_first f_time fills) of
            None \<Rightarrow> None
          | Some f \<Rightarrow> Some (f_px f)))"

definition check_position_closed ::
  "monitor_env \<Rightarrow> string \<Rightarrow> string \<Rightarrow> string \<Rightarrow> check_result" where
  "check_position_closed env coin tp_order_id sl_order_id =
     (case m_user_state env of
        Raises m \<Rightarrow> CheckError m
      | Returns state \<Rightarrow>
         (case live_position coin state of
            Some current_size \<Rightarrow> StillOpen current_size
          | None \<Rightarrow>
             (case m_open_orders env of
                Raises m \<Rightarrow> Closed (exit_price_of (m_user_fills env) coin) ''UNKNOWN''
              | Returns open_orders \<Rightarrow>
                 (let tp_exists = (tp_order_id \<in> set open_orders);
                      sl_exists = (sl_order_id \<in> set open_orders)
                  in if tp_exists \<and> sl_exists then Anomaly
                     else Closed (exit_price_of (m_user_fills env) coin)
                            (if \<not> tp_exists \<and> sl_exists then ''TP''
                             else if tp_exists \<and> \<not> sl_exists then ''SL''
                             else ''UNKNOWN'')))))"

subsection \<open>Realized P&L and the closing of a trade\<close>

text \<open>
  The time a position was opened is stored without a zone; \<^verbatim>\<open>since_timestamp.timestamp()\<close>
  reads it in the local zone of the process.
\<close>

definition get_hl_realized_pnl ::
  "fill list call \<Rightarrow> (int \<Rightarrow> int) \<Rightarrow> string \<Rightarrow> int option \<Rightarrow> real option" where
  "get_hl_realized_pnl r utc_offset coin since_timestamp =
     (case r of
        Raises m \<Rightarrow> None
      | Returns fills \<Rightarrow>
         (let coin_fills = newest_first f_time (filter (\<lambda>f. f_coin f = coin) fills);
              coin_fills = (case since_timestamp of
                              None \<Rightarrow> coin_fills
                            | Some since \<Rightarrow>
                               (let since_ms = (since - utc_offset since) * 1000
                                in filter (\<lambda>f. since_ms \<le> f_time f) coin_fills))
          in if coin_fills = [] then None
             else Some (sum_list (map f_closedPnl coin_fills))))"

definition normal_side :: "string \<Rightarrow> string" where
  "normal_side side =
     (if upper side = ''BUY'' \<or> upper side = ''LONG'' then ''LONG''
      else if upper side = ''SELL'' \<or> upper side = ''SHORT'' then ''SHORT''
      else side)"

definition set_status :: "store \<Rightarrow> nat \<Rightarrow> string \<Rightarrow> store" where
  "set_status st position_id status =
     st\<lparr>st_positions :=
          map (\<lambda>p. if op_id p = position_id then p\<lparr>op_status := status\<rparr> else p)
              (st_positions st)\<rparr>"

definition record_trade_close ::
  "monitor_env \<Rightarrow> store \<Rightarrow> open_position \<Rightarrow> real \<Rightarrow> string \<Rightarrow> int \<Rightarrow> real option \<Rightarrow> store \<times> bool" where
  "record_trade_close env st position exit_price exit_type closed_at hl_pnl =
     (let entry_price = or_else (op_avg_entry_price position) (op_entry_fill_price position);
          position_size = or_else (op_filled_quantity position) (Some (op_quantity position));
          fill_count = (case op_fill_count position of None \<Rightarrow> 1 | Some n \<Rightarrow> if n = 0 then 1 else n);
          side = normal_side (op_side position);
          symbol = op_symbol position
      in if falsy entry_price \<or> falsy position_size then (st, False)
         else
          (let entry_price = (if \<bar>the entry_price - exit_price\<bar> < 1 / 100000
                              then op_entry_fill_price position else entry_price)
           in if falsy entry_price \<or> \<bar>the entry_price - exit_price\<bar> < 1 / 100000 then (st, False)
              else
               (let matching = (case op_signal_id position of
                                  Some n \<Rightarrow> if n \<noteq> 0 then Some (Some (str_nat n)) else None
                                | None \<Rightarrow> None);
                    matching = (case matching of
                                  Some sid \<Rightarrow> Some sid
                                | None \<Rightarrow>
                                   (case find_matching_signal env st symbol side of
                                      None \<Rightarrow> None
                                    | Some s \<Rightarrow>
                                       Some (if s_signal_id s \<noteq> [] then Some (s_signal_id s)
                                             else if s_id s \<noteq> 0 then Some (str_nat (s_id s))
                                             else None)))
                in case matching of
                     None \<Rightarrow>
                       ((if op_id position \<noteq> 0
                         then set_status st (op_id position) ''closed_manual'' else st), False)
                   | Some signal_id \<Rightarrow>
                      (let e = the entry_price; sz = the position_size;
                           calculated_pnl = (if side = ''LONG'' then (exit_price - e) * sz
                                             else (e - exit_price) * sz);
                           use_hl = (case hl_pnl of None \<Rightarrow> False | Some h \<Rightarrow> 1 / 100 < \<bar>h\<bar>);
                           profit_usd = (if use_hl then the hl_pnl else calculated_pnl);
                           pnl_source = (if use_hl then ''hyperliquid'' else ''calculated'');
                           profit_percent =
                             (if 0 < e
                              then (if side = ''SHORT'' then - ((exit_price - e) / e * 100)
                                    else (exit_price - e) / e * 100)
                              else 0);
                           opened = (case op_opened_at position of
                                       Some t \<Rightarrow> Some t | None \<Rightarrow> op_first_fill_at position);
                           row = \<lparr>t_user_id = op_user_id position, t_signal_id = signal_id,
                                  t_order_id = op_entry_order_id position, t_opened_at = opened,
                                  t_closed_at = closed_at, t_symbol = symbol, t_side = side,
                                  t_entry_price = e, t_exit_price = exit_price,
                                  t_position_size = sz, t_leverage = op_leverage position,
                                  t_profit_usd = profit_usd, t_profit_percent = profit_percent,
                                  t_exit_type = exit_type, t_fee_charged = 0,
                                  t_pnl_source = pnl_source\<rparr>;
                           st1 = st\<lparr>st_trades := st_trades st @ [row],
                                    st_users :=
                                      map (\<lambda>u. if u_id u = op_user_id position
                                            then u\<lparr>u_total_trades := u_total_trades u + 1,
                                                   u_total_profit := u_total_profit u + profit_usd,
                                                   u_current_cycle_profit :=
                                                     u_current_cycle_profit u + profit_usd,
                                                   u_current_cycle_trades :=
                                                     u_current_cycle_trades u + 1,
                                                   u_billing_cycle_start :=
                                                     (case u_billing_cycle_start u of
                                                        None \<Rightarrow> opened | Some b \<Rightarrow> Some b)\<rparr>
                                            else u) (st_users st)\<rparr>
                       in ((if op_id position \<noteq> 0
                            then set_status st1 (op_id position) ''closed'' else st1), True)))))"

subsection \<open>One check of one position\<close>

definition proximity_exit_type :: "real \<Rightarrow> real \<Rightarrow> real \<Rightarrow> string" where
  "proximity_exit_type exit_price tp sl =
     (let dist_to_tp = \<bar>exit_price - tp\<bar>; dist_to_sl = \<bar>exit_price - sl\<bar>
      in if dist_to_tp < dist_to_sl then ''TP'' else ''SL'')"

definition position_coin :: "open_position \<Rightarrow> string" where
  "position_coin position =
     (case op_hl_coin position of
        Some c \<Rightarrow> if c \<noteq> [] then c else get_base_symbol (op_symbol position)
      | None \<Rightarrow> get_base_symbol (op_symbol position))"

definition check_position ::
  "monitor_env \<Rightarrow> store \<Rightarrow> open_position \<Rightarrow> store \<times> monitor_event list" where
  "check_position env st position =
     (if \<not> m_get_exchange env then (st, [])
      else
       (let coin = position_coin position
        in case check_position_closed env coin (op_tp_order_id position) (op_sl_order_id position) of
             StillOpen sz \<Rightarrow> (st, [])
           | Anomaly \<Rightarrow> (st, [])
           | CheckError m \<Rightarrow> (st, [])
           | Closed None exit_type \<Rightarrow> (set_status st (op_id position) ''needs_review'', [])
           | Closed (Some exit_price) exit_type \<Rightarrow>
              (let exit_type = proximity_exit_type exit_price (op_target_tp position)
                                   (op_target_sl position);
                   hl_pnl = get_hl_realized_pnl (m_pnl_fills env) (m_utc_offset env) coin
                              (op_opened_at position);
                   closed = record_trade_close env st position exit_price exit_type (m_now env) hl_pnl;
                   remaining_oid = (if exit_type = ''TP'' then op_sl_order_id position
                                    else op_tp_order_id position)
               in (fst closed,
                   (if py_int_ok remaining_oid then [CancelRemaining coin remaining_oid] else [])
                   @ [ScanFills]))))"

definition get_open_positions :: "store \<Rightarrow> open_position list" where
  "get_open_positions st =
     filter (\<lambda>p. op_status p = ''open'' \<and> op_user_id p \<in> set (map u_id (st_users st)))
            (st_positions st)"

subsection \<open>A concrete scenario for the monitor\<close>

text \<open>
  The position that the scenario of the executor leaves, later closed at the target:
  no asset position is left, the stop-loss order still rests, and the newest fill of the
  coin is at 0.55.
\<close>

definition demo_position :: open_position where
  "demo_position =
     \<lparr>op_id = 1, op_user_id = 1, op_signal_id = Some 1, op_entry_order_id = ''101'',
      op_tp_order_id = ''102'', op_sl_order_id = ''103'', op_symbol = ''ADA/USDT'',
      op_hl_coin = Some ''ADA'', op_side = ''BUY'', op_quantity = 1000, op_leverage = 5,
      op_entry_fill_price = Some (1 / 2), op_avg_entry_price = None,
      op_filled_quantity = None, op_fill_count = None, op_target_tp = 11 / 20,
      op_target_sl = 12 / 25, op_opened_at = Some 1010, op_first_fill_at = None,
      op_status = ''open''\<rparr>"

definition monitor_store :: store where
  "monitor_store = demo_store\<lparr>st_positions := [demo_position]\<rparr>"

definition demo_fill :: fill where
  "demo_fill = \<lparr>f_coin = ''ADA'', f_time = 2000000, f_px = 11 / 20, f_sz = 1000, f_closedPnl = 50\<rparr>"

definition demo_monitor_env :: monitor_env where
  "demo_monitor_env =
     \<lparr>m_get_exchange = True, m_user_state = Returns (Some []),
      m_open_orders = Returns [''103''], m_user_fills = Returns [demo_fill],
      m_pnl_fills = Returns [demo_fill], m_find_error = False, m_now = 2000,
      m_utc_offset = (\<lambda>_. 0)\<rparr>"

text \<open>
  A position that no signal opened (no signal id), in ETH, and a store whose only signal
  is for another instrument whose symbol contains the letters ETH.
\<close>

definition manual_position :: open_position where
  "manual_position =
     demo_position\<lparr>op_id := 2, op_signal_id := None, op_symbol := ''ETH/USDT'',
                   op_hl_coin := Some ''ETH'', op_quantity := 1,
                   op_entry_fill_price := Some 2000, op_target_tp := 2100,
                   op_target_sl := 1950\<rparr>"

definition ethfi_store :: store where
  "ethfi_store =
     \<lparr>st_users = st_users demo_store,
      st_signals = [\<lparr>s_id = 7, s_signal_id = ''sig-7'', s_action = ''BUY'',
                      s_symbol = ''ETHFI/USDT'', s_entry_price = 3, s_stop_loss = Some (29 / 10),
                      s_take_profit = Some (33 / 10), s_leverage = Some 5,
                      s_risk_pct = Some (2 / 100), s_created_at = 1000\<rparr>],
      st_deliveries = [], st_positions = [manual_position], st_trades = []\<rparr>"

definition no_signal_store :: store where
  "no_signal_store = ethfi_store\<lparr>st_signals := []\<rparr>"

text \<open>Two symbols name the same base instrument.\<close>

definition same_base_instrument :: "string \<Rightarrow> string \<Rightarrow> bool" where
  "same_base_instrument a b = (get_base_symbol a = get_base_symbol b)"

subsection \<open>The poll cycle\<close>

text \<open>
  \<^verbatim>\<open>poll_and_execute\<close>: one fetch, a shuffle, and \<^verbatim>\<open>_execute_signal_for_user\<close> on every fetched
  item. The tasks of a batch are run here one after the other, in the order of the list;
  the size of the batches and the pauses between them do not change which items are
  executed. A poll is given its shuffle, the answers of the exchange for each item, and
  the time of its fetch. The result is the store and, for each execution in order, the
  delivery id with the events of that execution.
\<close>

record poll_input =
  p_shuffle :: "pending_item list \<Rightarrow> pending_item list"
  p_env :: "pending_item \<Rightarrow> exchange_env"
  p_now :: int

fun execute_items ::
  "(pending_item \<Rightarrow> exchange_env) \<Rightarrow> (string \<Rightarrow> nat option) \<Rightarrow> store \<Rightarrow> pending_item list \<Rightarrow>
   store \<times> (nat \<times> event list) list" where
  "execute_items envs asset_meta st [] = (st, [])"
| "execute_items envs asset_meta st (item # items) =
     (let r = execute_signal_for_user (envs item) asset_meta st item;
          rest = execute_items envs asset_meta (fst r) items
      in (fst rest, (pi_delivery_id item, snd (snd r)) # snd rest))"

definition poll_and_execute ::
  "poll_input \<Rightarrow> (string \<Rightarrow> nat option) \<Rightarrow> store \<Rightarrow> store \<times> (nat \<times> event list) list" where
  "poll_and_execute p asset_meta st =
     execute_items (p_env p) asset_meta st
       (p_shuffle p (get_pending_signals_batched (p_now p) st))"

text \<open>
  The loop of \<^verbatim>\<open>run\<close>, for as many polls as inputs are given: each poll starts after the
  one before has finished.
\<close>

fun run_polls ::
  "poll_input list \<Rightarrow> (string \<Rightarrow> nat option) \<Rightarrow> store \<Rightarrow> store \<times> (nat \<times> event list) list" where
  "run_polls [] asset_meta st = (st, [])"
| "run_polls (p # ps) asset_meta st =
     (let r = poll_and_execute p asset_meta st;
          rest = run_polls ps asset_meta (fst r)
      in (fst rest, snd r @ snd rest))"

text \<open>The primary keys of the three tables of the fetch are keys, and delivery ids start at 1.\<close>

definition keys_ok :: "store \<Rightarrow> bool" where
  "keys_ok st =
     (distinct (map sd_id (st_deliveries st)) \<and> distinct (map u_id (st_users st))
      \<and> distinct (map s_id (st_signals st)) \<and> 0 \<notin> set (map sd_id (st_deliveries st)))"

definition count_inserts :: "event list \<Rightarrow> nat" where
  "count_inserts evs = length (filter (\<lambda>e. e = InsertOpenPosition) evs)"

definition unacked_ids :: "store \<Rightarrow> nat set" where
  "unacked_ids st = sd_id ` {sd \<in> set (st_deliveries st). \<not> sd_acknowledged sd}"

definition ack_all :: "nat set \<Rightarrow> delivery_row list \<Rightarrow> delivery_row list" where
  "ack_all S ds =
     map (\<lambda>sd. if sd_id sd \<in> S \<and> sd_id sd \<noteq> 0
                then sd\<lparr>sd_acknowledged := True, sd_executed := True\<rparr> else sd) ds"

text \<open>
  Two invocations that overlap: both hold the same fetched item; the first acknowledges
  and passes its checks, then the second does, then the first places its bracket and
  records it, then the second does. Each step is the code of \<^verbatim>\<open>execute_trade\<close>; only the
  order in which the two runs take their steps is chosen here.
\<close>

definition overlapping_executions ::
  "exchange_env \<Rightarrow> (string \<Rightarrow> nat option) \<Rightarrow> store \<Rightarrow> pending_item \<Rightarrow> store" where
  "overlapping_executions env asset_meta st item =
     (let user = item_user item; signal = item_signal item;
          ack = (\<lambda>s. if sg_delivery_id signal \<noteq> 0
                     then acknowledge_signal s (sg_delivery_id signal) else s);
          st_a = ack st;
          prep_a = prepare_trade env asset_meta st_a user signal;
          st_b = ack st_a;
          prep_b = prepare_trade env asset_meta st_b user signal;
          st_c = (case fst prep_a of None \<Rightarrow> st_b
                  | Some pl \<Rightarrow> fst (place_bracket env st_b user signal pl));
          st_d = (case fst prep_b of None \<Rightarrow> st_c
                  | Some pl \<Rightarrow> fst (place_bracket env st_c user signal pl))
      in st_d)"

definition demo_item :: pending_item where
  "demo_item =
     \<lparr>pi_user_id = 1, pi_api_key = ''nk_alice'', pi_email = ''alice@example.org'',
      pi_hl_private_key_encrypted = Some ''gAAAA'', pi_hl_wallet_address = Some ''0xA11CE'',
      pi_delivery_id = 1, pi_signal_id = ''sig-1'', pi_action = ''BUY'',
      pi_symbol = ''ADA/USDT'', pi_entry_price = 1 / 2, pi_stop_loss = Some (12 / 25),
      pi_take_profit = Some (11 / 20), pi_leverage = Some 5, pi_risk_pct = 2 / 100,
      pi_signal_created_at = 1000\<rparr>"

definition demo_poll :: poll_input where
  "demo_poll = \<lparr>p_shuffle = rev, p_env = (\<lambda>_. demo_env), p_now = 1010\<rparr>"

section \<open>Verified properties\<close>

subsection \<open>Floats\<close>

lemma bits_0 [simp]: "bits 0 = 0"
  by (simp add: bits.simps)

lemma bits_Suc_0 [simp]: "bits (Suc 0) = 1"
  by (simp add: bits.simps)

lemma bits_numeral [simp]: "bits (numeral k) = Suc (bits (numeral k div 2))"
  by (subst bits.simps) simp

lemma bits_bounds: "0 < n \<Longrightarrow> 2 ^ (bits n - 1) \<le> n \<and> n < 2 ^ bits n"
proof (induction n rule: bits.induct)
  case (1 n)
  show ?case
  proof (cases "n div 2 = 0")
    case True
    with 1(2) have "n = 1" by (simp add: div_eq_0_iff)
    then show ?thesis by simp
  next
    case False
    then have h: "0 < n div 2" by simp
    with 1 have ih: "2 ^ (bits (n div 2) - 1) \<le> n div 2" "n div 2 < 2 ^ bits (n div 2)"
      by auto
    have b: "bits n = Suc (bits (n div 2))" using 1(2) by (subst bits.simps) simp
    have p: "0 < bits (n div 2)" using h by (subst bits.simps) simp
    have "2 * 2 ^ (bits (n div 2) - 1) \<le> n" using ih(1) by linarith
    moreover have "2 * 2 ^ (bits (n div 2) - 1) = (2::nat) ^ bits (n div 2)"
      using p by (cases "bits (n div 2)") simp_all
    moreover have "n < 2 * 2 ^ bits (n div 2)" using ih(2) by linarith
    ultimately show ?thesis unfolding b by simp
  qed
qed

text \<open>
  \<open>expo\<close> is the binary exponent, and \<open>fl x\<close> is a multiple of the unit in the last place
  of \<open>x\<close>, at most half a unit away from \<open>x\<close>.
\<close>

lemma powi_minus_nat: "(2::real) powi (- int k) = 1 / 2 ^ k"
  by (simp add: power_int_minus inverse_eq_divide)

lemma expo_bounds:
  assumes "x \<noteq> 0"
  shows "2 powi expo x \<le> \<bar>x\<bar> \<and> \<bar>x\<bar> < 2 powi (expo x + 1)"
proof (cases "1 \<le> \<bar>x\<bar>")
  case True
  let ?n = "nat \<lfloor>\<bar>x\<bar>\<rfloor>"
  have n: "0 < ?n" using True by simp
  have e: "expo x = int (bits ?n) - 1" using True by (simp add: expo_def)
  have b: "0 < bits ?n" using n by (subst bits.simps) simp
  from bits_bounds [OF n] have lo: "2 ^ (bits ?n - 1) \<le> ?n" and hi: "?n < 2 ^ bits ?n"
    by simp_all
  have nle: "real ?n \<le> \<bar>x\<bar>" using True by simp
  have xlt: "\<bar>x\<bar> < real ?n + 1" using True by simp
  have "real (2 ^ (bits ?n - 1)) \<le> real ?n" using lo by (rule of_nat_mono)
  then have "(2::real) ^ (bits ?n - 1) \<le> real ?n" by (simp only: of_nat_power of_nat_numeral)
  then have l1: "(2::real) ^ (bits ?n - 1) \<le> \<bar>x\<bar>" using nle by (rule order_trans)
  have p1: "(2::real) powi expo x = 2 ^ (bits ?n - 1)"
    unfolding e using b by (simp add: power_int_def nat_diff_distrib)
  have "Suc ?n \<le> 2 ^ bits ?n" using hi by (rule Suc_leI)
  then have "real (Suc ?n) \<le> real (2 ^ bits ?n)" by (rule of_nat_mono)
  then have "real ?n + 1 \<le> (2::real) ^ bits ?n"
    by (simp only: of_nat_power of_nat_numeral of_nat_Suc)
  with xlt have l2: "\<bar>x\<bar> < (2::real) ^ bits ?n" by (rule less_le_trans)
  have p2: "(2::real) powi (expo x + 1) = 2 ^ bits ?n"
    unfolding e by (simp add: power_int_def)
  show ?thesis unfolding p1 p2 using l1 l2 by (rule conjI)
next
  case False
  let ?y = "1 / \<bar>x\<bar>"
  let ?m = "nat (\<lceil>?y\<rceil> - 1)"
  have a: "0 < \<bar>x\<bar>" "\<bar>x\<bar> < 1" using assms False by simp_all
  have y: "1 < ?y" using a by simp
  then have c: "2 \<le> \<lceil>?y\<rceil>" by linarith
  then have m: "0 < ?m" by simp
  have e: "expo x = - int (bits ?m)" using False by (simp add: expo_def)
  have b: "0 < bits ?m" using m by (subst bits.simps) simp
  from bits_bounds [OF m] have lo: "2 ^ (bits ?m - 1) \<le> ?m" and hi: "?m < 2 ^ bits ?m"
    by simp_all
  have "0 \<le> \<lceil>?y\<rceil> - 1" using c by linarith
  then have "real ?m = of_int (\<lceil>?y\<rceil> - 1)" by (rule of_nat_nat)
  then have mr: "real ?m = of_int \<lceil>?y\<rceil> - 1" by (simp only: of_int_diff of_int_1)
  have yle: "?y \<le> real ?m + 1" unfolding mr by simp
  have ygt: "real ?m < ?y" unfolding mr by linarith
  have "Suc ?m \<le> 2 ^ bits ?m" using hi by (rule Suc_leI)
  then have "real (Suc ?m) \<le> real (2 ^ bits ?m)" by (rule of_nat_mono)
  then have "real ?m + 1 \<le> (2::real) ^ bits ?m"
    by (simp only: of_nat_power of_nat_numeral of_nat_Suc)
  with yle have "?y \<le> 2 ^ bits ?m" by (rule order_trans)
  then have "1 \<le> 2 ^ bits ?m * \<bar>x\<bar>" using a(1) by (simp add: field_simps)
  then have l1: "1 / 2 ^ bits ?m \<le> \<bar>x\<bar>" by (simp add: field_simps)
  have p1: "(2::real) powi expo x = 1 / 2 ^ bits ?m"
    unfolding e by (rule powi_minus_nat)
  have "real (2 ^ (bits ?m - 1)) \<le> real ?m" using lo by (rule of_nat_mono)
  then have "(2::real) ^ (bits ?m - 1) \<le> real ?m" by (simp only: of_nat_power of_nat_numeral)
  then have "(2::real) ^ (bits ?m - 1) < ?y" using ygt by (rule le_less_trans)
  then have "2 ^ (bits ?m - 1) * \<bar>x\<bar> < 1" using a(1) by (simp add: field_simps)
  then have l2: "\<bar>x\<bar> < 1 / 2 ^ (bits ?m - 1)" by (simp add: field_simps)
  have p2: "(2::real) powi (expo x + 1) = 1 / 2 ^ (bits ?m - 1)"
  proof -
    have "expo x + 1 = - int (bits ?m - 1)" unfolding e using b by simp
    then show ?thesis by (simp only: powi_minus_nat)
  qed
  show ?thesis unfolding p1 p2 using l1 l2 by (rule conjI)
qed

lemma py_round_near: "\<bar>of_int (py_round y) - y\<bar> \<le> 1 / 2"
  unfolding py_round_def Let_def by (auto simp: abs_le_iff; linarith)

lemma fl_nearest:
  assumes "x \<noteq> 0"
  shows "\<exists>n::int. fl x = of_int n * 2 powi (max (expo x) (- 1022) - 52)
           \<and> \<bar>fl x - x\<bar> \<le> 2 powi (max (expo x) (- 1022) - 52) / 2"
proof -
  let ?u = "(2::real) powi (max (expo x) (- 1022) - 52)"
  have u: "0 < ?u" by simp
  have f: "fl x = of_int (py_round (x / ?u)) * ?u"
    using assms by (simp add: fl_def Let_def)
  have "\<bar>fl x - x\<bar> = \<bar>of_int (py_round (x / ?u)) - x / ?u\<bar> * ?u"
  proof -
    have "fl x - x = (of_int (py_round (x / ?u)) - x / ?u) * ?u"
      unfolding f using u by (simp add: field_simps)
    then show ?thesis using u by (simp add: abs_mult)
  qed
  also have "\<dots> \<le> 1 / 2 * ?u"
    using py_round_near [of "x / ?u"] u by (intro mult_right_mono) simp_all
  finally have "\<bar>fl x - x\<bar> \<le> ?u / 2" by simp
  with f show ?thesis by blast
qed

lemma py_float_0 [simp]: "py_float 0 = Fin 0"
  by (simp add: py_float_def fl_def)

lemma py_float_Fin: "py_float x = Fin y \<Longrightarrow> y = fl x"
  by (simp add: py_float_def Let_def split: if_splits)

lemma float_mul_Fin:
  "float_mul x y = Fin z \<Longrightarrow> \<exists>a b. x = Fin a \<and> y = Fin b \<and> z = fl (a * b)"
  by (auto simp: float_mul_def dest: py_float_Fin split: pyfloat.splits if_splits)

lemma float_sub_Fin:
  "float_sub x y = Fin z \<Longrightarrow> \<exists>a b. x = Fin a \<and> y = Fin b \<and> z = fl (a - b)"
  by (auto simp: float_sub_def dest: py_float_Fin split: pyfloat.splits)

lemma float_abs_Fin: "float_abs x = Fin z \<Longrightarrow> \<exists>a. x = Fin a \<and> z = \<bar>a\<bar>"
  by (auto simp: float_abs_def split: pyfloat.splits)

lemma float_div_Fin:
  "float_div x y = Some (Fin z) \<Longrightarrow>
     (\<exists>a b. x = Fin a \<and> y = Fin b \<and> b \<noteq> 0 \<and> z = fl (a / b)) \<or> z = 0"
  by (auto simp: float_div_def dest: py_float_Fin split: pyfloat.splits if_splits)

lemmas float_defs = py_float_def fl_def expo_def py_round_def power_int_def power_one_over
  float_mul_def float_sub_def float_div_def float_abs_def float_le_def float_sign_def
  int_to_float_def math_floor_def true_div_def

subsection \<open>Retry helpers in closed form\<close>

lemma retry_loop_3:
  "retry_loop f mk ex MAX_RETRIES 1 INITIAL_BACKOFF [] None [] =
    (case f (ex 1) of
       Inr order \<Rightarrow> (Some order, [], None, [mk 1])
     | Inl e1 \<Rightarrow>
        (case f (ex 2) of
           Inr order \<Rightarrow> (Some order, [(1, take 200 e1)], Some e1, [mk 1, Sleep 1, mk 2])
         | Inl e2 \<Rightarrow>
            (case f (ex 3) of
               Inr order \<Rightarrow> (Some order, [(1, take 200 e1), (2, take 200 e2)], Some e2,
                              [mk 1, Sleep 1, mk 2, Sleep 2, mk 3])
             | Inl e3 \<Rightarrow> (None, [(1, take 200 e1), (2, take 200 e2), (3, take 200 e3)], Some e3,
                           [mk 1, Sleep 1, mk 2, Sleep 2, mk 3]))))"
  by (simp add: MAX_RETRIES_def INITIAL_BACKOFF_def MAX_BACKOFF_def numeral_3_eq_3 numeral_2_eq_2
           split: sum.splits)

lemma cancel_loop_3:
  "cancel_loop mk ex MAX_RETRIES 1 INITIAL_BACKOFF None [] =
    (case cancel_error (ex 1) of
       None \<Rightarrow> (True, None, [mk 1])
     | Some e1 \<Rightarrow>
        if already_gone (take 200 e1) then (True, Some e1, [mk 1])
        else
        (case cancel_error (ex 2) of
           None \<Rightarrow> (True, Some e1, [mk 1, Sleep 1, mk 2])
         | Some e2 \<Rightarrow>
            if already_gone (take 200 e2) then (True, Some e2, [mk 1, Sleep 1, mk 2])
            else
            (case cancel_error (ex 3) of
               None \<Rightarrow> (True, Some e2, [mk 1, Sleep 1, mk 2, Sleep 2, mk 3])
             | Some e3 \<Rightarrow>
                if already_gone (take 200 e3)
                then (True, Some e3, [mk 1, Sleep 1, mk 2, Sleep 2, mk 3])
                else (False, Some e3, [mk 1, Sleep 1, mk 2, Sleep 2, mk 3]))))"
  by (simp add: MAX_RETRIES_def INITIAL_BACKOFF_def MAX_BACKOFF_def numeral_3_eq_3 numeral_2_eq_2
           split: option.splits)

lemma place_entry_cases:
  "case place_entry_order_with_retry ex coin b q p of
     (Some order, evs) \<Rightarrow> attempt_shape (\<lambda>a. OrderAttempt Entry a coin b q p False) evs
   | (None, evs) \<Rightarrow>
       (\<exists>lg err. length lg = 3 \<and>
          evs = [OrderAttempt Entry 1 coin b q p False, Sleep 1,
                 OrderAttempt Entry 2 coin b q p False, Sleep 2,
                 OrderAttempt Entry 3 coin b q p False,
                 NotifyAdmin Error (EntryOrderFailed lg err)])"
  unfolding place_entry_order_with_retry_def retry_loop_3
  by (simp add: attempt_shape_def split: sum.splits)

lemma place_tp_cases:
  "case place_tp_order_with_retry ex coin b q p of
     (Some order, evs) \<Rightarrow> attempt_shape (\<lambda>a. OrderAttempt TakeProfit a coin b q p True) evs
   | (None, evs) \<Rightarrow>
       (\<exists>lg err. length lg = 3 \<and>
          evs = [OrderAttempt TakeProfit 1 coin b q p True, Sleep 1,
                 OrderAttempt TakeProfit 2 coin b q p True, Sleep 2,
                 OrderAttempt TakeProfit 3 coin b q p True,
                 NotifyAdmin Error (TPOrderFailed lg err)])"
  unfolding place_tp_order_with_retry_def retry_loop_3
  by (simp add: attempt_shape_def split: sum.splits)

lemma place_sl_cases:
  "case place_sl_order_with_retry ex coin b q p of
     (Some order, evs) \<Rightarrow> attempt_shape (\<lambda>a. OrderAttempt StopLoss a coin b q p True) evs
   | (None, evs) \<Rightarrow>
       (\<exists>lg err. length lg = 3 \<and>
          evs = [OrderAttempt StopLoss 1 coin b q p True, Sleep 1,
                 OrderAttempt StopLoss 2 coin b q p True, Sleep 2,
                 OrderAttempt StopLoss 3 coin b q p True,
                 NotifyAdmin Error (SLOrderFailed lg err)])"
  unfolding place_sl_order_with_retry_def retry_loop_3
  by (simp add: attempt_shape_def split: sum.splits)

lemma cancel_cases:
  "case cancel_order_with_retry ex coin oid notify of
     (True, evs) \<Rightarrow> attempt_shape (\<lambda>a. CancelAttempt a coin oid) evs
   | (False, evs) \<Rightarrow>
       (\<exists>err. evs = [CancelAttempt 1 coin oid, Sleep 1, CancelAttempt 2 coin oid, Sleep 2,
                      CancelAttempt 3 coin oid]
                     @ (if notify then [NotifyAdmin Warning (FailedToCancel err)] else []))"
  unfolding cancel_order_with_retry_def cancel_loop_3
  by (simp add: attempt_shape_def split: option.splits)

subsection \<open>Retry bound\<close>

text \<open>
  Claim C5, as the code has it. Each of the three placement helpers and the cancel helper
  calls the exchange at most three times. The sleeps are 1 second after a failed first
  attempt and 2 seconds after a failed second attempt; nothing is slept after the third
  attempt, so the doubled value 4 and the cap 8 are never slept. After three failures a
  placement helper returns \<open>None\<close> and the cancel helper \<open>False\<close>: the value carries no
  log. The per-attempt log of a placement goes into the alert sent to the administrator;
  the cancel helper keeps only the last error, and alerts only when asked to.
\<close>

theorem retry_bound:
  "(case place_entry_order_with_retry ex coin b q p of
      (Some order, evs) \<Rightarrow> attempt_shape (\<lambda>a. OrderAttempt Entry a coin b q p False) evs
    | (None, evs) \<Rightarrow>
        (\<exists>lg err. length lg = 3 \<and>
           evs = [OrderAttempt Entry 1 coin b q p False, Sleep 1,
                  OrderAttempt Entry 2 coin b q p False, Sleep 2,
                  OrderAttempt Entry 3 coin b q p False,
                  NotifyAdmin Error (EntryOrderFailed lg err)]))
   \<and> (case place_tp_order_with_retry ex coin b q p of
      (Some order, evs) \<Rightarrow> attempt_shape (\<lambda>a. OrderAttempt TakeProfit a coin b q p True) evs
    | (None, evs) \<Rightarrow>
        (\<exists>lg err. length lg = 3 \<and>
           evs = [OrderAttempt TakeProfit 1 coin b q p True, Sleep 1,
                  OrderAttempt TakeProfit 2 coin b q p True, Sleep 2,
                  OrderAttempt TakeProfit 3 coin b q p True,
                  NotifyAdmin Error (TPOrderFailed lg err)]))
   \<and> (case place_sl_order_with_retry ex coin b q p of
      (Some order, evs) \<Rightarrow> attempt_shape (\<lambda>a. OrderAttempt StopLoss a coin b q p True) evs
    | (None, evs) \<Rightarrow>
        (\<exists>lg err. length lg = 3 \<and>
           evs = [OrderAttempt StopLoss 1 coin b q p True, Sleep 1,
                  OrderAttempt StopLoss 2 coin b q p True, Sleep 2,
                  OrderAttempt StopLoss 3 coin b q p True,
                  NotifyAdmin Error (SLOrderFailed lg err)]))
   \<and> (case cancel_order_with_retry cex coin oid notify of
      (True, evs) \<Rightarrow> attempt_shape (\<lambda>a. CancelAttempt a coin oid) evs
    | (False, evs) \<Rightarrow>
        (\<exists>err. evs = [CancelAttempt 1 coin oid, Sleep 1, CancelAttempt 2 coin oid, Sleep 2,
                       CancelAttempt 3 coin oid]
                      @ (if notify then [NotifyAdmin Warning (FailedToCancel err)] else [])))"
  using place_entry_cases [where ex = ex and coin = coin and b = b and q = q and p = p]
        place_tp_cases [where ex = ex and coin = coin and b = b and q = q and p = p]
        place_sl_cases [where ex = ex and coin = coin and b = b and q = q and p = p]
        cancel_cases [where ex = cex and coin = coin and oid = oid and notify = notify]
  by blast

text \<open>
  Claim C5 as stated fails: with an exchange that always times out the entry helper
  sleeps 1 and 2 seconds only (never 4), and what the caller receives is \<open>None\<close>, with
  the log inside the alert.
\<close>

theorem retry_backoff_counterexample:
  "place_entry_order_with_retry (\<lambda>_. OrderRaises ''timeout'') ''ADA'' True 1000 (1/2) =
     (None, [OrderAttempt Entry 1 ''ADA'' True 1000 (1/2) False, Sleep 1,
             OrderAttempt Entry 2 ''ADA'' True 1000 (1/2) False, Sleep 2,
             OrderAttempt Entry 3 ''ADA'' True 1000 (1/2) False,
             NotifyAdmin Error (EntryOrderFailed
               [(1, ''timeout''), (2, ''timeout''), (3, ''timeout'')] ''timeout'')])
   \<and> sleeps_of (snd (place_entry_order_with_retry (\<lambda>_. OrderRaises ''timeout'') ''ADA'' True 1000 (1/2)))
       = [1, 2]"
  unfolding place_entry_order_with_retry_def retry_loop_3
  by (simp add: final_error_def)

theorem retry_bound_witness:
  "\<exists>lg err. place_sl_order_with_retry (\<lambda>_. OrderResult ''err'' [] ''{}'') ''ADA'' False 1000 (12/25) =
     (None, [OrderAttempt StopLoss 1 ''ADA'' False 1000 (12/25) True, Sleep 1,
             OrderAttempt StopLoss 2 ''ADA'' False 1000 (12/25) True, Sleep 2,
             OrderAttempt StopLoss 3 ''ADA'' False 1000 (12/25) True,
             NotifyAdmin Error (SLOrderFailed lg err)])"
proof -
  let ?r = "place_sl_order_with_retry (\<lambda>_. OrderResult ''err'' [] ''{}'') ''ADA'' False 1000 (12/25)"
  have "fst ?r = None"
    unfolding place_sl_order_with_retry_def retry_loop_3 by simp
  then obtain evs where r: "?r = (None, evs)"
    by (cases ?r) auto
  have "case ?r of
      (Some order, evs) \<Rightarrow> attempt_shape (\<lambda>a. OrderAttempt StopLoss a ''ADA'' False 1000 (12/25) True) evs
    | (None, evs) \<Rightarrow>
        (\<exists>lg err. length lg = 3 \<and>
           evs = [OrderAttempt StopLoss 1 ''ADA'' False 1000 (12/25) True, Sleep 1,
                  OrderAttempt StopLoss 2 ''ADA'' False 1000 (12/25) True, Sleep 2,
                  OrderAttempt StopLoss 3 ''ADA'' False 1000 (12/25) True,
                  NotifyAdmin Error (SLOrderFailed lg err)])"
    using retry_bound [where ex = "\<lambda>_. OrderResult ''err'' [] ''{}''" and coin = "''ADA''"
        and b = False and q = 1000 and p = "12/25" and cex = "\<lambda>_. CancelRaises []"
        and oid = "[]" and notify = False]
    by (elim conjE)
  then show ?thesis
    unfolding r by auto
qed

subsection \<open>Idempotent cancel\<close>

text \<open>
  Claim C7. If at any of the three attempts the exchange reports the order as not found
  or as already filled or cancelled, \<^verbatim>\<open>cancel_order_with_retry\<close> returns \<open>True\<close> and sends
  no alert; when the first attempt reports it, the call is that single attempt, without
  sleep. The code recognises the report in the first 200 characters of the error message.
  Nothing in the helper depends on earlier calls, so cancelling the same order again
  returns success in the same way.
\<close>

theorem idempotent_cancel:
  assumes "k = 1 \<or> k = 2 \<or> k = 3" and "reports_gone (ex k)"
  shows "fst (cancel_order_with_retry ex coin oid notify) = True
       \<and> (\<forall>l a. NotifyAdmin l a \<notin> set (snd (cancel_order_with_retry ex coin oid notify)))
       \<and> (k = 1 \<longrightarrow> cancel_order_with_retry ex coin oid notify = (True, [CancelAttempt 1 coin oid]))"
  using assms
  unfolding cancel_order_with_retry_def cancel_loop_3 reports_gone_def
  by (auto split: option.splits)

theorem idempotent_cancel_witness:
  "reports_gone (CancelResult ''err'' ''Order was never placed, already canceled, or filled.'')
   \<and> cancel_order_with_retry
        (\<lambda>_. CancelResult ''err'' ''Order was never placed, already canceled, or filled.'')
        ''ADA'' ''4711'' True = (True, [CancelAttempt 1 ''ADA'' ''4711''])"
proof -
  have g: "reports_gone (CancelResult ''err'' ''Order was never placed, already canceled, or filled.'')"
    by (simp add: reports_gone_def cancel_error_def already_gone_def lower_def lower_char_def)
  have k: "(1::nat) = 1 \<or> (1::nat) = 2 \<or> (1::nat) = 3" by simp
  from idempotent_cancel [where k = 1
        and ex = "\<lambda>_. CancelResult ''err'' ''Order was never placed, already canceled, or filled.''",
        OF k g]
  show ?thesis using g by simp
qed

subsection \<open>Events of the executor\<close>

lemma leg_attempted_append [simp]:
  "leg_attempted l (xs @ ys) = (leg_attempted l xs \<or> leg_attempted l ys)"
  by (simp add: leg_attempted_def)

lemma leg_failed_append [simp]:
  "leg_failed l (xs @ ys) = (leg_failed l xs \<or> leg_failed l ys)"
  by (simp add: leg_failed_def)

lemma leg_simps [simp]:
  "leg_attempted l [] = False"
  "leg_attempted l (e # es) =
     ((case e of OrderAttempt l' a c b q p r \<Rightarrow> l' = l | _ \<Rightarrow> False) \<or> leg_attempted l es)"
  "leg_failed l [] = False"
  "leg_failed l (e # es) =
     ((case e of NotifyAdmin lv a \<Rightarrow> failure_alert_leg a = Some l | _ \<Rightarrow> False) \<or> leg_failed l es)"
  by (simp_all add: leg_attempted_def leg_failed_def)

lemma leg_entry [simp]:
  "leg_attempted l (snd (place_entry_order_with_retry ex coin b q p)) = (l = Entry)"
  "leg_failed l (snd (place_entry_order_with_retry ex coin b q p))
     = (l = Entry \<and> fst (place_entry_order_with_retry ex coin b q p) = None)"
  unfolding place_entry_order_with_retry_def retry_loop_3
  by (auto simp: failure_alert_leg_def split: sum.splits)

lemma leg_tp [simp]:
  "leg_attempted l (snd (place_tp_order_with_retry ex coin b q p)) = (l = TakeProfit)"
  "leg_failed l (snd (place_tp_order_with_retry ex coin b q p))
     = (l = TakeProfit \<and> fst (place_tp_order_with_retry ex coin b q p) = None)"
  unfolding place_tp_order_with_retry_def retry_loop_3
  by (auto simp: failure_alert_leg_def split: sum.splits)

lemma leg_sl [simp]:
  "leg_attempted l (snd (place_sl_order_with_retry ex coin b q p)) = (l = StopLoss)"
  "leg_failed l (snd (place_sl_order_with_retry ex coin b q p))
     = (l = StopLoss \<and> fst (place_sl_order_with_retry ex coin b q p) = None)"
  unfolding place_sl_order_with_retry_def retry_loop_3
  by (auto simp: failure_alert_leg_def split: sum.splits)

lemma leg_cancel [simp]:
  "leg_attempted l (snd (cancel_order_with_retry ex coin oid n)) = False"
  "leg_failed l (snd (cancel_order_with_retry ex coin oid n)) = False"
  unfolding cancel_order_with_retry_def cancel_loop_3
  by (auto simp: failure_alert_leg_def split: option.splits)

lemma leg_emergency [simp]:
  "leg_attempted l (emergency_close_position env coin b q reason) = False"
  "leg_failed l (emergency_close_position env coin b q reason) = False"
  by (auto simp: emergency_close_position_def failure_alert_leg_def Let_def split: call.splits)

lemma leg_prepare [simp]:
  "leg_attempted l (snd (prepare_trade env meta st user signal)) = False"
  "leg_failed l (snd (prepare_trade env meta st user signal)) = False"
  unfolding prepare_trade_def check_any_open_positions_or_orders_def
  by (simp_all add: failure_alert_leg_def Let_def split: cred_result.splits option.splits)

lemma leg_record [simp]:
  "leg_attempted l (snd (record_open_position env st user signal pl eo tpo slo tpp slp)) = False"
  "leg_failed l (snd (record_open_position env st user signal pl eo tpo slo tpp slp)) = False"
  by (auto simp: record_open_position_def Let_def split: option.splits)

lemma positions_ack [simp]: "st_positions (acknowledge_signal st d) = st_positions st"
  by (simp add: acknowledge_signal_def)

lemma place_bracket_atomic:
  assumes "place_bracket env st user signal pl = (st', ok, evs)"
  shows "(st_positions st' \<noteq> st_positions st \<longrightarrow>
            leg_placed Entry evs \<and> leg_placed TakeProfit evs \<and> leg_placed StopLoss evs)"
    and "(leg_placed Entry evs \<and> leg_placed TakeProfit evs \<and> leg_placed StopLoss evs \<and> e_insert env = None
          \<longrightarrow> (\<exists>row. st_positions st' = st_positions st @ [row] \<and> op_user_id row = usr_id user
                     \<and> op_status row = ''open'' \<and> op_quantity row = pl_quantity pl))"
    and "(leg_failed Entry evs \<or> leg_failed TakeProfit evs \<or> leg_failed StopLoss evs
          \<longrightarrow> st_positions st' = st_positions st \<and> \<not> ok)"
  using assms
  unfolding place_bracket_def leg_placed_def
  by (auto simp: Let_def record_open_position_def split: option.splits)

text \<open>
  When the write of the position raises, the orders stay placed, the run still returns
  \<open>True\<close> and no row is added.
\<close>

lemma insert_raises_keeps_orders:
  assumes "place_bracket env st user signal pl = (st', ok, evs)"
      and "leg_placed Entry evs \<and> leg_placed TakeProfit evs \<and> leg_placed StopLoss evs"
      and "e_insert env \<noteq> None"
  shows "ok \<and> st_positions st' = st_positions st \<and> InsertFailed \<in> set evs"
  using assms
  unfolding place_bracket_def leg_placed_def
  by (auto simp: Let_def record_open_position_def split: option.splits)

lemma prepare_Some:
  assumes "prepare_trade env meta st user signal = (Some pl, evs)"
  shows "e_credentials env = CredOk"
    and "fst (check_any_open_positions_or_orders env st (usr_id user) (sg_signal_id signal)) = (False, None)"
    and "evs = snd (check_any_open_positions_or_orders env st (usr_id user) (sg_signal_id signal)) @ [EquityQuery]"
    and "\<not> float_le (get_user_equity (e_equity env)) (Fin 0)"
    and "\<exists>s t l. sg_stop_loss signal = Some s \<and> sg_take_profit signal = Some t \<and> sg_leverage signal = Some l
           \<and> py_float l \<noteq> Fin 0 \<and> \<not> float_le (py_float s) (Fin 0) \<and> \<not> float_le (py_float t) (Fin 0)
           \<and> \<not> float_le (float_abs (float_sub (py_float (sg_entry_price signal)) (py_float s))) (Fin 0)
           \<and> Option.bind (position_size (get_user_equity (e_equity env)) (py_float (sg_risk_pct signal))
                             (py_float (sg_entry_price signal)) (py_float s))
                          (round_size meta (convert_symbol_to_hl (sg_symbol signal)))
               = Some (pl_quantity pl)
           \<and> pl = \<lparr>pl_coin = convert_symbol_to_hl (sg_symbol signal), pl_action = sg_action signal,
                    pl_entry_price = sg_entry_price signal, pl_stop_loss = s, pl_take_profit = t,
                    pl_leverage = l, pl_quantity = pl_quantity pl\<rparr>
           \<and> 0 < pl_quantity pl"
proof -
  have g: "fst (check_any_open_positions_or_orders env st (usr_id user) (sg_signal_id signal)) = (False, None)
           \<or> fst (fst (check_any_open_positions_or_orders env st (usr_id user) (sg_signal_id signal)))"
    by (auto simp: check_any_open_positions_or_orders_def Let_def split: option.splits)
  show "e_credentials env = CredOk"
    using assms unfolding prepare_trade_def by (simp split: cred_result.splits)
  then have c: "e_credentials env = CredOk" .
  show "fst (check_any_open_positions_or_orders env st (usr_id user) (sg_signal_id signal)) = (False, None)"
    using assms g c unfolding prepare_trade_def by (auto simp: Let_def split: if_splits)
  show "evs = snd (check_any_open_positions_or_orders env st (usr_id user) (sg_signal_id signal)) @ [EquityQuery]"
    using assms c unfolding prepare_trade_def by (auto simp: Let_def split: if_splits option.splits)
  show "\<not> float_le (get_user_equity (e_equity env)) (Fin 0)"
    using assms c unfolding prepare_trade_def by (auto simp: Let_def split: if_splits option.splits)
  show "\<exists>s t l. sg_stop_loss signal = Some s \<and> sg_take_profit signal = Some t \<and> sg_leverage signal = Some l
           \<and> py_float l \<noteq> Fin 0 \<and> \<not> float_le (py_float s) (Fin 0) \<and> \<not> float_le (py_float t) (Fin 0)
           \<and> \<not> float_le (float_abs (float_sub (py_float (sg_entry_price signal)) (py_float s))) (Fin 0)
           \<and> Option.bind (position_size (get_user_equity (e_equity env)) (py_float (sg_risk_pct signal))
                             (py_float (sg_entry_price signal)) (py_float s))
                          (round_size meta (convert_symbol_to_hl (sg_symbol signal)))
               = Some (pl_quantity pl)
           \<and> pl = \<lparr>pl_coin = convert_symbol_to_hl (sg_symbol signal), pl_action = sg_action signal,
                    pl_entry_price = sg_entry_price signal, pl_stop_loss = s, pl_take_profit = t,
                    pl_leverage = l, pl_quantity = pl_quantity pl\<rparr>
           \<and> 0 < pl_quantity pl"
    using assms c unfolding prepare_trade_def
    by (auto simp: Let_def falsy_def split: if_splits option.splits)
qed


lemma order_events_entry:
  "OrderAttempt l a c b' q' p' r \<in> set (snd (place_entry_order_with_retry ex coin b q p))
     \<Longrightarrow> l = Entry \<and> c = coin \<and> b' = b \<and> q' = q \<and> p' = p \<and> r = False"
  unfolding place_entry_order_with_retry_def retry_loop_3
  by (auto split: sum.splits)

lemma order_events_tp:
  "OrderAttempt l a c b' q' p' r \<in> set (snd (place_tp_order_with_retry ex coin b q p))
     \<Longrightarrow> l = TakeProfit \<and> c = coin \<and> b' = b \<and> q' = q \<and> p' = p \<and> r = True"
  unfolding place_tp_order_with_retry_def retry_loop_3
  by (auto split: sum.splits)

lemma order_events_sl:
  "OrderAttempt l a c b' q' p' r \<in> set (snd (place_sl_order_with_retry ex coin b q p))
     \<Longrightarrow> l = StopLoss \<and> c = coin \<and> b' = b \<and> q' = q \<and> p' = p \<and> r = True"
  unfolding place_sl_order_with_retry_def retry_loop_3
  by (auto split: sum.splits)

lemma order_event_attempted:
  "OrderAttempt l a c b q p r \<in> set evs \<Longrightarrow> leg_attempted l evs"
  by (induction evs) auto

lemma first_entry_attempt:
  "snd (place_entry_order_with_retry ex coin b q p) =
     OrderAttempt Entry 1 coin b q p False # tl (snd (place_entry_order_with_retry ex coin b q p))"
  unfolding place_entry_order_with_retry_def retry_loop_3
  by (auto split: sum.splits)

lemma all_orders_for_simps [simp]:
  "all_orders_for coin q []"
  "all_orders_for coin q (e # es) =
     ((case e of OrderAttempt l a c b q' p r \<Rightarrow> c = coin \<and> q' = q | _ \<Rightarrow> True) \<and> all_orders_for coin q es)"
  "all_orders_for coin q (xs @ ys) = (all_orders_for coin q xs \<and> all_orders_for coin q ys)"
  by (simp_all add: all_orders_for_def)

lemma all_orders_for_helpers [simp]:
  "all_orders_for coin q (snd (place_entry_order_with_retry ex coin b q p))"
  "all_orders_for coin q (snd (place_tp_order_with_retry ex coin b q p))"
  "all_orders_for coin q (snd (place_sl_order_with_retry ex coin b q p))"
  unfolding place_entry_order_with_retry_def place_tp_order_with_retry_def
    place_sl_order_with_retry_def retry_loop_3
  by (auto split: sum.splits)

lemma all_orders_for_others [simp]:
  "all_orders_for coin q (snd (cancel_order_with_retry cex c oid n))"
  "all_orders_for coin q (emergency_close_position env c b q' reason)"
  "all_orders_for coin q (snd (record_open_position env st user signal pl eo tpo slo tpp slp))"
  "all_orders_for coin q (snd (prepare_trade env meta st user signal))"
  unfolding cancel_order_with_retry_def cancel_loop_3 emergency_close_position_def
    record_open_position_def prepare_trade_def check_any_open_positions_or_orders_def
  by (simp_all add: Let_def split: option.splits call.splits cred_result.splits)

lemma all_orders_forD:
  "all_orders_for coin q evs \<Longrightarrow> OrderAttempt l a c b q' p r \<in> set evs \<Longrightarrow> c = coin \<and> q' = q"
  by (auto simp: all_orders_for_def list_all_iff)

lemma place_bracket_orders:
  "all_orders_for (pl_coin pl) (pl_quantity pl) (snd (snd (place_bracket env st user signal pl)))"
  unfolding place_bracket_def
  by (simp add: Let_def split: option.splits)

lemmas retry_loop_3_Suc = retry_loop_3 [unfolded One_nat_def]
lemmas cancel_loop_3_Suc = cancel_loop_3 [unfolded One_nat_def]

lemmas demo_defs = demo_store_def demo_user_def demo_signal_def demo_env_def ada_meta_def

lemmas run_defs = retry_loop_3_Suc cancel_loop_3_Suc
  execute_trade_def prepare_trade_def place_bracket_def record_open_position_def
  emergency_close_position_def check_any_open_positions_or_orders_def gate_db_check_def
  gate_positions_check_def gate_orders_check_def acknowledge_signal_def get_user_equity_def
  falsy_def round_size_def position_size_def float_defs convert_symbol_to_hl_def before_slash_def
  upper_def upper_char_def place_entry_order_with_retry_def place_tp_order_with_retry_def
  place_sl_order_with_retry_def cancel_order_with_retry_def
  oid_str_def final_error_def new_position_id_def py_int_ok_def is_digit_def cancel_error_def
  SLIPPAGE_BPS_def Let_def

lemma quiet_simps [simp]:
  "quiet []"
  "quiet (e # es) = ((case e of CancelAttempt a c oid \<Rightarrow> False | EmergencyTriggered r \<Rightarrow> False
                    | EmergencyOrder c b q p \<Rightarrow> False | _ \<Rightarrow> True) \<and> quiet es)"
  "quiet (xs @ ys) = (quiet xs \<and> quiet ys)"
  by (simp_all add: quiet_def)

lemma quiet_helpers [simp]:
  "quiet (snd (place_entry_order_with_retry ex coin b q p))"
  "quiet (snd (place_tp_order_with_retry ex coin b q p))"
  "quiet (snd (place_sl_order_with_retry ex coin b q p))"
  "quiet (snd (prepare_trade env meta st user signal))"
  "quiet (snd (record_open_position env st user signal pl eo tpo slo tpp slp))"
  unfolding place_entry_order_with_retry_def place_tp_order_with_retry_def
    place_sl_order_with_retry_def retry_loop_3 prepare_trade_def
    check_any_open_positions_or_orders_def record_open_position_def
  by (simp_all add: Let_def split: sum.splits option.splits cred_result.splits)

lemma occurs_before_quiet [simp]:
  "quiet xs \<Longrightarrow> occurs_before (is_cancel_of oid) is_emergency (xs @ ys)
                = occurs_before (is_cancel_of oid) is_emergency ys"
  by (induction xs) (auto simp: is_cancel_of_def is_emergency_def split: event.splits)

lemma occurs_before_quiet_Cons [simp]:
  "quiet [x] \<Longrightarrow> occurs_before (is_cancel_of oid) is_emergency (x # ys)
                = occurs_before (is_cancel_of oid) is_emergency ys"
  using occurs_before_quiet [of "[x]" oid ys] by simp

lemma cancel_first:
  "occurs_before (is_cancel_of oid) is_emergency (snd (cancel_order_with_retry ex coin oid n) @ ys)"
  unfolding cancel_order_with_retry_def cancel_loop_3
  by (simp add: is_cancel_of_def is_emergency_def split: option.splits)

lemma emergency_order_sent_simps [simp]:
  "emergency_order_sent [] = False"
  "emergency_order_sent (e # es) = ((case e of EmergencyOrder c b q p \<Rightarrow> True | _ \<Rightarrow> False) \<or> emergency_order_sent es)"
  "emergency_order_sent (xs @ ys) = (emergency_order_sent xs \<or> emergency_order_sent ys)"
  by (simp_all add: emergency_order_sent_def)

lemma quiet_no_emergency_order [simp]: "quiet xs \<Longrightarrow> emergency_order_sent xs = False"
  by (induction xs) (auto split: event.splits)

lemma cancel_no_emergency_order [simp]:
  "emergency_order_sent (snd (cancel_order_with_retry ex coin oid n)) = False"
  unfolding cancel_order_with_retry_def cancel_loop_3
  by (simp split: option.splits)

lemma emergency_order_iff:
  "emergency_order_sent (emergency_close_position env coin b q reason)
     = (\<exists>m. e_em_user_state env = Returns () \<and> e_em_all_mids env = Returns m \<and> 0 < m)"
  unfolding emergency_close_position_def
  by (auto simp: Let_def split: call.splits)

lemma emergency_reported_close:
  "emergency_reported reason (xs @ emergency_close_position env coin b q reason)"
  unfolding emergency_close_position_def emergency_reported_def
  by (auto simp: Let_def split: call.splits)

lemma emergency_reported_Cons:
  "emergency_reported reason ys \<Longrightarrow> emergency_reported reason (x # ys)"
  unfolding emergency_reported_def
  by (cases "rev ys") (auto split: list.splits)

lemma emergency_reported_append:
  "emergency_reported reason ys \<Longrightarrow> emergency_reported reason (xs @ ys)"
  by (induction xs) (auto intro: emergency_reported_Cons)

lemma tp_result_indep:
  "fst (place_tp_order_with_retry ex c b q p) = fst (place_tp_order_with_retry ex c' b' q' p')"
  unfolding place_tp_order_with_retry_def retry_loop_3
  by (simp split: sum.splits)

lemma place_bracket_emergency:
  assumes "place_bracket env st user signal pl = (st', ok, evs)"
  shows "(leg_failed TakeProfit evs \<longrightarrow>
            emergency_reported ''TP order failed after all retries'' evs
            \<and> (emergency_order_sent evs
                 = (\<exists>m. e_em_user_state env = Returns () \<and> e_em_all_mids env = Returns m \<and> 0 < m)))"
    and "(leg_failed StopLoss evs \<longrightarrow>
            emergency_reported ''SL order failed after all retries'' evs
            \<and> (emergency_order_sent evs
                 = (\<exists>m. e_em_user_state env = Returns () \<and> e_em_all_mids env = Returns m \<and> 0 < m))
            \<and> (\<forall>c b q p tpo. fst (place_tp_order_with_retry (e_tp env) c b q p) = Some tpo
                   \<and> py_int_ok (po_id tpo)
                   \<longrightarrow> occurs_before (is_cancel_of (po_id tpo)) is_emergency evs))"
proof -
  let ?coin = "pl_coin pl" and ?q = "pl_quantity pl"
  let ?b = "upper (pl_action pl) = ''BUY''"
  let ?ep = "round_price (pl_entry_price pl * (if ?b then 1 + SLIPPAGE_BPS / 10000 else 1 - SLIPPAGE_BPS / 10000))"
  let ?E = "place_entry_order_with_retry (e_entry env) ?coin ?b ?q ?ep"
  let ?T = "place_tp_order_with_retry (e_tp env) ?coin (\<not> ?b) ?q (round_price (pl_take_profit pl))"
  let ?S = "place_sl_order_with_retry (e_sl env) ?coin (\<not> ?b) ?q (round_price (pl_stop_loss pl))"
  show "(leg_failed TakeProfit evs \<longrightarrow>
            emergency_reported ''TP order failed after all retries'' evs
            \<and> (emergency_order_sent evs
                 = (\<exists>m. e_em_user_state env = Returns () \<and> e_em_all_mids env = Returns m \<and> 0 < m)))"
  proof (cases "fst ?E")
    case None
    with assms show ?thesis unfolding place_bracket_def by (auto simp: Let_def)
  next
    case (Some eo)
    show ?thesis
    proof (cases "fst ?T")
      case None
      have "evs = ([SetLeverage] @ snd ?E @ [Sleep 2] @ snd ?T)
                  @ emergency_close_position env ?coin (\<not> ?b) ?q ''TP order failed after all retries''"
        using assms Some None unfolding place_bracket_def by (simp add: Let_def)
      then show ?thesis
        using emergency_reported_close [of "''TP order failed after all retries''"
                "[SetLeverage] @ snd ?E @ [Sleep 2] @ snd ?T" env ?coin "\<not> ?b" ?q]
        by (simp add: emergency_order_iff)
    next
      case (Some tpo)
      with assms \<open>fst ?E = Some eo\<close> show ?thesis
        unfolding place_bracket_def by (auto simp: Let_def split: option.splits if_splits)
    qed
  qed
  show "(leg_failed StopLoss evs \<longrightarrow>
            emergency_reported ''SL order failed after all retries'' evs
            \<and> (emergency_order_sent evs
                 = (\<exists>m. e_em_user_state env = Returns () \<and> e_em_all_mids env = Returns m \<and> 0 < m))
            \<and> (\<forall>c b q p tpo. fst (place_tp_order_with_retry (e_tp env) c b q p) = Some tpo
                   \<and> py_int_ok (po_id tpo)
                   \<longrightarrow> occurs_before (is_cancel_of (po_id tpo)) is_emergency evs))"
  proof (cases "fst ?E")
    case None
    with assms show ?thesis unfolding place_bracket_def by (auto simp: Let_def)
  next
    case (Some eo)
    note E = this
    show ?thesis
    proof (cases "fst ?T")
      case None
      with assms E show ?thesis
        unfolding place_bracket_def by (auto simp: Let_def)
    next
      case (Some tpo)
      note T = this
      show ?thesis
      proof (cases "fst ?S")
        case (Some slo)
        with assms E T show ?thesis
          unfolding place_bracket_def by (auto simp: Let_def)
      next
        case None
        let ?C = "if py_int_ok (po_id tpo)
                  then snd (cancel_order_with_retry (e_cancel env) ?coin (po_id tpo) True) else []"
        let ?pre = "[SetLeverage] @ snd ?E @ [Sleep 2] @ snd ?T @ snd ?S"
        let ?em = "emergency_close_position env ?coin (\<not> ?b) ?q ''SL order failed after all retries''"
        have evs: "evs = ?pre @ ?C @ ?em"
          using assms E T None unfolding place_bracket_def by (simp add: Let_def)
        have rep: "emergency_reported ''SL order failed after all retries'' evs"
          using emergency_reported_close [of "''SL order failed after all retries''"
                  "?pre @ ?C" env ?coin "\<not> ?b" ?q]
          unfolding evs by simp
        have sent: "emergency_order_sent evs
                 = (\<exists>m. e_em_user_state env = Returns () \<and> e_em_all_mids env = Returns m \<and> 0 < m)"
          unfolding evs by (simp add: emergency_order_iff)
        have canc: "occurs_before (is_cancel_of (po_id tpo')) is_emergency evs"
          if "fst (place_tp_order_with_retry (e_tp env) c b q p) = Some tpo'" "py_int_ok (po_id tpo')"
          for c b q p tpo'
        proof -
          have "tpo' = tpo"
            using that(1) T tp_result_indep [of "e_tp env" c b q p ?coin "\<not> ?b" ?q "round_price (pl_take_profit pl)"]
            by simp
          then have "?C = snd (cancel_order_with_retry (e_cancel env) ?coin (po_id tpo') True)"
            using that(2) by simp
          then have "evs = ?pre @ (snd (cancel_order_with_retry (e_cancel env) ?coin (po_id tpo') True) @ ?em)"
            using evs by simp
          moreover have "quiet ?pre" by simp
          ultimately show ?thesis
            using cancel_first [of "po_id tpo'" "e_cancel env" ?coin True ?em]
            by (simp only: occurs_before_quiet)
        qed
        from rep sent canc show ?thesis by blast
      qed
    qed
  qed
qed

lemma execute_trade_cases:
  assumes "execute_trade env meta st user signal = (st', ok, evs)"
  obtains (skip) pevs where
      "prepare_trade env meta (if sg_delivery_id signal \<noteq> 0
          then acknowledge_signal st (sg_delivery_id signal) else st) user signal = (None, pevs)"
      "st' = (if sg_delivery_id signal \<noteq> 0 then acknowledge_signal st (sg_delivery_id signal) else st)"
      "\<not> ok"
      "evs = (if sg_delivery_id signal \<noteq> 0 then [AckWrite (sg_delivery_id signal)] else []) @ pevs"
  | (go) pl pevs bevs where
      "prepare_trade env meta (if sg_delivery_id signal \<noteq> 0
          then acknowledge_signal st (sg_delivery_id signal) else st) user signal = (Some pl, pevs)"
      "place_bracket env (if sg_delivery_id signal \<noteq> 0
          then acknowledge_signal st (sg_delivery_id signal) else st) user signal pl = (st', ok, bevs)"
      "evs = (if sg_delivery_id signal \<noteq> 0 then [AckWrite (sg_delivery_id signal)] else []) @ pevs @ bevs"
proof -
  let ?st1 = "if sg_delivery_id signal \<noteq> 0 then acknowledge_signal st (sg_delivery_id signal) else st"
  obtain r pevs where p: "prepare_trade env meta ?st1 user signal = (r, pevs)"
    by (cases "prepare_trade env meta ?st1 user signal")
  show thesis
  proof (cases r)
    case None
    with p assms show thesis
      by (intro skip [of pevs]) (auto simp: execute_trade_def Let_def)
  next
    case (Some pl)
    obtain a b c where b: "place_bracket env ?st1 user signal pl = (a, b, c)"
      by (cases "place_bracket env ?st1 user signal pl")
    with Some p assms show thesis
      by (intro go [of pl pevs c]) (auto simp: execute_trade_def Let_def)
  qed
qed

subsection \<open>Bracket atomicity\<close>

text \<open>
  Claim C2, as the code has it. In every run of \<^verbatim>\<open>execute_trade\<close>:
  an Open Position row is written only if all three orders were placed; if all three were
  placed and the write to the store does not raise, exactly one row with status \<open>open\<close> is
  written for the subscriber; if any leg failed for good, no row is written and the run
  returns \<open>False\<close>. When the take-profit or the stop-loss leg failed, the emergency close ran:
  it sent a reduce-only close order exactly when a positive mid price could be read, and it
  ended with the alert at the CRITICAL level that reports whether the close succeeded. When
  the stop-loss leg failed and the take-profit order has a numeric id, a cancellation of
  that order is attempted before any step of the emergency close.
\<close>

theorem bracket_atomicity:
  assumes "execute_trade env meta st user signal = (st', ok, evs)"
  shows "(st_positions st' \<noteq> st_positions st \<longrightarrow>
            leg_placed Entry evs \<and> leg_placed TakeProfit evs \<and> leg_placed StopLoss evs)
       \<and> (leg_placed Entry evs \<and> leg_placed TakeProfit evs \<and> leg_placed StopLoss evs
            \<and> e_insert env = None
          \<longrightarrow> (\<exists>row. st_positions st' = st_positions st @ [row] \<and> op_user_id row = usr_id user
                     \<and> op_status row = ''open''))
       \<and> (leg_failed Entry evs \<or> leg_failed TakeProfit evs \<or> leg_failed StopLoss evs
          \<longrightarrow> st_positions st' = st_positions st \<and> \<not> ok)
       \<and> (leg_failed TakeProfit evs \<longrightarrow>
            emergency_reported ''TP order failed after all retries'' evs
            \<and> (emergency_order_sent evs
                 = (\<exists>m. e_em_user_state env = Returns () \<and> e_em_all_mids env = Returns m \<and> 0 < m)))
       \<and> (leg_failed StopLoss evs \<longrightarrow>
            emergency_reported ''SL order failed after all retries'' evs
            \<and> (emergency_order_sent evs
                 = (\<exists>m. e_em_user_state env = Returns () \<and> e_em_all_mids env = Returns m \<and> 0 < m))
            \<and> (\<forall>c b q p tpo. fst (place_tp_order_with_retry (e_tp env) c b q p) = Some tpo
                   \<and> py_int_ok (po_id tpo)
                   \<longrightarrow> occurs_before (is_cancel_of (po_id tpo)) is_emergency evs))"
  using assms
proof (cases rule: execute_trade_cases)
  case (skip pevs)
  let ?st1 = "if sg_delivery_id signal \<noteq> 0
          then acknowledge_signal st (sg_delivery_id signal) else st"
  have pe: "pevs = snd (prepare_trade env meta ?st1 user signal)"
    using skip(1) by simp
  have "\<not> leg_attempted l evs" "\<not> leg_failed l evs" for l
    unfolding skip(4) pe by simp_all
  then show ?thesis
    using skip(2) by (auto simp: leg_placed_def)
next
  case (go pl pevs bevs)
  let ?ack = "if sg_delivery_id signal \<noteq> 0 then [AckWrite (sg_delivery_id signal)] else []"
  let ?st1 = "if sg_delivery_id signal \<noteq> 0
          then acknowledge_signal st (sg_delivery_id signal) else st"
  have pe: "pevs = snd (prepare_trade env meta ?st1 user signal)"
    using go(1) by simp
  have pq: "\<not> leg_attempted l pevs" "\<not> leg_failed l pevs" "quiet pevs" for l
    unfolding pe by simp_all
  have aq: "\<not> leg_attempted l ?ack" "\<not> leg_failed l ?ack" "quiet ?ack" for l
    by auto
  have la: "leg_attempted l evs = leg_attempted l bevs" "leg_failed l evs = leg_failed l bevs" for l
    unfolding go(3) using pq aq by auto
  have q: "quiet (?ack @ pevs)" using pq aq by simp
  have es: "emergency_order_sent evs = emergency_order_sent bevs"
    unfolding go(3) using pq aq by simp
  have ob: "occurs_before (is_cancel_of oid) is_emergency evs
            = occurs_before (is_cancel_of oid) is_emergency bevs" for oid
    using occurs_before_quiet [OF q, of oid bevs] unfolding go(3) by simp
  have er: "emergency_reported r bevs \<Longrightarrow> emergency_reported r evs" for r
    using emergency_reported_append [of r bevs "?ack @ pevs"] unfolding go(3) by simp
  have pos: "st_positions (if sg_delivery_id signal \<noteq> 0
          then acknowledge_signal st (sg_delivery_id signal) else st) = st_positions st"
    by simp
  note A = place_bracket_atomic [OF go(2), unfolded pos]
  note E = place_bracket_emergency [OF go(2)]
  show ?thesis
    unfolding leg_placed_def la es ob
    using A E er unfolding leg_placed_def
    by blast
qed

text \<open>
  Claim C2 as stated fails in the direction from the orders to the row: when the write to
  the store raises after the three orders were placed, the run returns \<open>True\<close> and no row
  exists (the code logs that the trade is still placed).
\<close>

theorem bracket_insert_counterexample:
  "leg_placed Entry (snd (snd (execute_trade (demo_env\<lparr>e_insert := Some ''connection lost''\<rparr>)
        ada_meta demo_store demo_user demo_signal)))
   \<and> leg_placed TakeProfit (snd (snd (execute_trade (demo_env\<lparr>e_insert := Some ''connection lost''\<rparr>)
        ada_meta demo_store demo_user demo_signal)))
   \<and> leg_placed StopLoss (snd (snd (execute_trade (demo_env\<lparr>e_insert := Some ''connection lost''\<rparr>)
        ada_meta demo_store demo_user demo_signal)))
   \<and> fst (snd (execute_trade (demo_env\<lparr>e_insert := Some ''connection lost''\<rparr>)
        ada_meta demo_store demo_user demo_signal)) = True
   \<and> st_positions (fst (execute_trade (demo_env\<lparr>e_insert := Some ''connection lost''\<rparr>)
        ada_meta demo_store demo_user demo_signal)) = []"
  by (simp add: run_defs demo_defs leg_placed_def failure_alert_leg_def)

theorem bracket_atomicity_witness:
  "leg_failed StopLoss (snd (snd (execute_trade (demo_env\<lparr>e_sl := (\<lambda>_. OrderRaises ''timeout'')\<rparr>)
        ada_meta demo_store demo_user demo_signal)))
   \<and> st_positions (fst (execute_trade (demo_env\<lparr>e_sl := (\<lambda>_. OrderRaises ''timeout'')\<rparr>)
        ada_meta demo_store demo_user demo_signal)) = st_positions demo_store
   \<and> emergency_reported ''SL order failed after all retries''
        (snd (snd (execute_trade (demo_env\<lparr>e_sl := (\<lambda>_. OrderRaises ''timeout'')\<rparr>)
        ada_meta demo_store demo_user demo_signal)))
   \<and> emergency_order_sent
        (snd (snd (execute_trade (demo_env\<lparr>e_sl := (\<lambda>_. OrderRaises ''timeout'')\<rparr>)
        ada_meta demo_store demo_user demo_signal)))
   \<and> occurs_before (is_cancel_of ''102'') is_emergency
        (snd (snd (execute_trade (demo_env\<lparr>e_sl := (\<lambda>_. OrderRaises ''timeout'')\<rparr>)
        ada_meta demo_store demo_user demo_signal)))"
proof -
  let ?env = "demo_env\<lparr>e_sl := (\<lambda>_. OrderRaises ''timeout'')\<rparr>"
  let ?r = "execute_trade ?env ada_meta demo_store demo_user demo_signal"
  have eq: "?r = (fst ?r, fst (snd ?r), snd (snd ?r))" by simp
  have f: "leg_failed StopLoss (snd (snd ?r))"
    by (simp add: run_defs demo_defs failure_alert_leg_def)
  have tp: "fst (place_tp_order_with_retry (e_tp ?env) [] False 0 0)
              = Some \<lparr>po_id = ''102'', po_avgPx = None, po_totalSz = None\<rparr>"
    by (simp add: run_defs demo_defs)
  have ok: "py_int_ok (po_id \<lparr>po_id = ''102'', po_avgPx = None, po_totalSz = None\<rparr>)"
    by (simp add: py_int_ok_def is_digit_def)
  have mid: "\<exists>m. e_em_user_state ?env = Returns () \<and> e_em_all_mids ?env = Returns m \<and> 0 < m"
    by (intro exI [of _ "1 / 2"]) (simp add: demo_defs)
  note B = bracket_atomicity [OF eq]
  from B have c3: "leg_failed Entry (snd (snd ?r)) \<or> leg_failed TakeProfit (snd (snd ?r))
          \<or> leg_failed StopLoss (snd (snd ?r))
          \<longrightarrow> st_positions (fst ?r) = st_positions demo_store \<and> \<not> fst (snd ?r)"
    by (elim conjE)
  from B have c5: "leg_failed StopLoss (snd (snd ?r)) \<longrightarrow>
            emergency_reported ''SL order failed after all retries'' (snd (snd ?r))
            \<and> (emergency_order_sent (snd (snd ?r))
                 = (\<exists>m. e_em_user_state ?env = Returns () \<and> e_em_all_mids ?env = Returns m \<and> 0 < m))
            \<and> (\<forall>c b q p tpo. fst (place_tp_order_with_retry (e_tp ?env) c b q p) = Some tpo
                   \<and> py_int_ok (po_id tpo)
                   \<longrightarrow> occurs_before (is_cancel_of (po_id tpo)) is_emergency (snd (snd ?r)))"
    by (elim conjE)
  from c3 f have p: "st_positions (fst ?r) = st_positions demo_store"
    by blast
  from c5 f have r5: "emergency_reported ''SL order failed after all retries'' (snd (snd ?r))
            \<and> (emergency_order_sent (snd (snd ?r))
                 = (\<exists>m. e_em_user_state ?env = Returns () \<and> e_em_all_mids ?env = Returns m \<and> 0 < m))
            \<and> (\<forall>c b q p tpo. fst (place_tp_order_with_retry (e_tp ?env) c b q p) = Some tpo
                   \<and> py_int_ok (po_id tpo)
                   \<longrightarrow> occurs_before (is_cancel_of (po_id tpo)) is_emergency (snd (snd ?r)))"
    by (rule mp)
  from r5 have rep: "emergency_reported ''SL order failed after all retries'' (snd (snd ?r))"
    by (rule conjunct1)
  from r5 mid have sent: "emergency_order_sent (snd (snd ?r))"
    by blast
  from r5 tp ok
  have "occurs_before (is_cancel_of (po_id \<lparr>po_id = ''102'', po_avgPx = None, po_totalSz = None\<rparr>))
             is_emergency (snd (snd ?r))"
    by blast
  then have canc: "occurs_before (is_cancel_of ''102'') is_emergency (snd (snd ?r))"
    by (simp only: placed_order.select_convs)
  from f p rep sent canc show ?thesis
    by (intro conjI)
qed

subsection \<open>Sizing: auxiliary facts\<close>

lemma no_order_events:
  "quiet xs \<Longrightarrow> (\<And>l. \<not> leg_attempted l xs) \<Longrightarrow> \<not> list_ex is_order_event xs"
proof (induction xs)
  case Nil
  then show ?case by simp
next
  case (Cons e es)
  have "\<not> leg_attempted l es" for l using Cons.prems(2) [of l] by simp
  moreover have "quiet es" using Cons.prems(1) by simp
  ultimately have "\<not> list_ex is_order_event es" using Cons.IH by blast
  moreover have "\<not> is_order_event e"
    using Cons.prems(1) Cons.prems(2) [of "case e of OrderAttempt l a c b q p r \<Rightarrow> l | _ \<Rightarrow> Entry"]
    by (cases e) (auto simp: is_order_event_def)
  ultimately show ?case by simp
qed

lemma prepare_quantity_zero:
  assumes "sg_stop_loss signal = Some s"
      and "\<And>sz q. position_size (get_user_equity (e_equity env)) (py_float (sg_risk_pct signal))
                      (py_float (sg_entry_price signal)) (py_float s) = Some sz
                   \<Longrightarrow> round_size meta (convert_symbol_to_hl (sg_symbol signal)) sz = Some q
                   \<Longrightarrow> q \<le> 0"
  shows "fst (prepare_trade env meta st user signal) = None"
proof (cases "fst (prepare_trade env meta st user signal)")
  case None
  then show ?thesis .
next
  case (Some pl)
  then have "prepare_trade env meta st user signal = (Some pl, snd (prepare_trade env meta st user signal))"
    by (metis prod.collapse)
  from prepare_Some(5) [OF this] assms(1)
  have b: "Option.bind (position_size (get_user_equity (e_equity env)) (py_float (sg_risk_pct signal))
                             (py_float (sg_entry_price signal)) (py_float s))
                          (round_size meta (convert_symbol_to_hl (sg_symbol signal)))
               = Some (pl_quantity pl)"
    and p: "0 < pl_quantity pl"
    by auto
  from b obtain sz where
    "position_size (get_user_equity (e_equity env)) (py_float (sg_risk_pct signal))
        (py_float (sg_entry_price signal)) (py_float s) = Some sz"
    "round_size meta (convert_symbol_to_hl (sg_symbol signal)) sz = Some (pl_quantity pl)"
    by (auto simp: bind_eq_Some_conv)
  from assms(2) [OF this] p show ?thesis by simp
qed

lemma place_bracket_events_cong:
  assumes "pl_coin pl = pl_coin pl'" "pl_action pl = pl_action pl'" "pl_quantity pl = pl_quantity pl'"
    "pl_entry_price pl = pl_entry_price pl'" "pl_take_profit pl = pl_take_profit pl'"
    "pl_stop_loss pl = pl_stop_loss pl'"
  shows "snd (snd (place_bracket env st user signal pl)) = snd (snd (place_bracket env st2 user2 signal2 pl'))"
    and "fst (snd (place_bracket env st user signal pl)) = fst (snd (place_bracket env st2 user2 signal2 pl'))"
  using assms
  by (simp_all add: place_bracket_def record_open_position_def Let_def split: option.splits)

lemma prepare_leverage:
  assumes "py_float l \<noteq> Fin 0" "py_float l' \<noteq> Fin 0"
  shows "snd (prepare_trade env meta st user (signal\<lparr>sg_leverage := Some l\<rparr>))
           = snd (prepare_trade env meta st user (signal\<lparr>sg_leverage := Some l'\<rparr>))"
    and "fst (prepare_trade env meta st user (signal\<lparr>sg_leverage := Some l\<rparr>))
           = map_option (\<lambda>pl. pl\<lparr>pl_leverage := l\<rparr>)
               (fst (prepare_trade env meta st user (signal\<lparr>sg_leverage := Some l'\<rparr>)))"
  using assms
  by (simp_all add: prepare_trade_def Let_def split: cred_result.splits option.splits)

lemma events_leverage:
  assumes "py_float l \<noteq> Fin 0" "py_float l' \<noteq> Fin 0"
  shows "snd (snd (execute_trade env meta st user (signal\<lparr>sg_leverage := Some l\<rparr>)))
       = snd (snd (execute_trade env meta st user (signal\<lparr>sg_leverage := Some l'\<rparr>)))"
proof -
  let ?st1 = "if sg_delivery_id signal \<noteq> 0
          then acknowledge_signal st (sg_delivery_id signal) else st"
  let ?P = "\<lambda>x. prepare_trade env meta ?st1 user (signal\<lparr>sg_leverage := Some x\<rparr>)"
  note pl = prepare_leverage [OF assms, of env meta ?st1 user signal]
  show ?thesis
  proof (cases "fst (?P l')")
    case None
    then have "fst (?P l) = None" using pl(2) by simp
    with None pl(1) show ?thesis
      by (simp add: execute_trade_def Let_def)
  next
    case (Some p)
    then have l: "fst (?P l) = Some (p\<lparr>pl_leverage := l\<rparr>)" using pl(2) by simp
    have "snd (snd (place_bracket env ?st1 user (signal\<lparr>sg_leverage := Some l\<rparr>) (p\<lparr>pl_leverage := l\<rparr>)))
        = snd (snd (place_bracket env ?st1 user (signal\<lparr>sg_leverage := Some l'\<rparr>) p))"
      by (rule place_bracket_events_cong) simp_all
    with Some l pl(1) show ?thesis
      by (simp add: execute_trade_def Let_def)
  qed
qed

text \<open>
  A positive quantity comes from finite floats only, and is then the formula of the code
  with every operation rounded.
\<close>

lemma sizing_closed_form:
  assumes ps: "position_size eq (py_float r) (py_float e) (py_float s) = Some sz"
      and rs: "round_size meta c sz = Some q"
      and pos: "0 < q"
  shows "\<exists>E. eq = Fin E
           \<and> q = fl (of_int \<lfloor>fl (fl (fl (E * fl r) / \<bar>fl (fl e - fl s)\<bar>)
                                  * fl (10 ^ (case meta c of None \<Rightarrow> 2 | Some d \<Rightarrow> d)))\<rfloor>
                     / 10 ^ (case meta c of None \<Rightarrow> 2 | Some d \<Rightarrow> d))"
proof -
  let ?d = "case meta c of None \<Rightarrow> 2 | Some d \<Rightarrow> d"
  from rs obtain f n where f: "int_to_float (10 ^ ?d) = Some f"
      and n: "math_floor (float_mul sz (Fin f)) = Some n"
      and q: "true_div n (10 ^ ?d) = Some q"
    by (auto simp: round_size_def Let_def split: option.splits)
  from f have fv: "f = fl (10 ^ ?d)"
    by (auto simp: int_to_float_def dest: py_float_Fin split: pyfloat.splits)
  from n obtain m where m: "float_mul sz (Fin f) = Fin m" and nv: "n = \<lfloor>m\<rfloor>"
    by (auto simp: math_floor_def split: pyfloat.splits)
  from float_mul_Fin [OF m] obtain z where z: "sz = Fin z" and mv: "m = fl (z * f)"
    by auto
  from q have qv: "q = fl (of_int n / 10 ^ ?d)"
    by (auto simp: true_div_def dest: py_float_Fin split: pyfloat.splits if_splits)
  have z0: "z \<noteq> 0"
  proof
    assume "z = 0"
    then have "q = 0" unfolding qv nv mv by (simp add: fl_def)
    with pos show False by simp
  qed
  from ps have dv: "float_div (float_mul eq (py_float r))
                      (float_abs (float_sub (py_float e) (py_float s))) = Some (Fin z)"
    by (simp add: position_size_def Let_def z)
  from float_div_Fin [OF dv] z0
  obtain a b where a: "float_mul eq (py_float r) = Fin a"
      and b: "float_abs (float_sub (py_float e) (py_float s)) = Fin b"
      and zv: "z = fl (a / b)"
    by auto
  from float_mul_Fin [OF a] obtain E R where E: "eq = Fin E" and R: "py_float r = Fin R"
      and av: "a = fl (E * R)"
    by auto
  from float_abs_Fin [OF b] obtain d where d: "float_sub (py_float e) (py_float s) = Fin d"
      and bv: "b = \<bar>d\<bar>"
    by auto
  from float_sub_Fin [OF d] obtain e' s' where e': "py_float e = Fin e'" and s': "py_float s = Fin s'"
      and dv': "d = fl (e' - s')"
    by auto
  have "R = fl r" "e' = fl e" "s' = fl s"
    using py_float_Fin [OF R] py_float_Fin [OF e'] py_float_Fin [OF s'] by simp_all
  then have "q = fl (of_int \<lfloor>fl (fl (fl (E * fl r) / \<bar>fl (fl e - fl s)\<bar>) * fl (10 ^ ?d))\<rfloor>
                     / 10 ^ ?d)"
    unfolding qv nv mv fv zv av bv dv' by simp
  with E show ?thesis by blast
qed

subsection \<open>Position sizing\<close>

text \<open>
  Claim C3, in the arithmetic of the code. Every order that \<^verbatim>\<open>execute_trade\<close> sends
  (entry, take-profit, stop-loss) is for the positive quantity that \<^verbatim>\<open>round_size\<close> gives
  for the size \<open>risk_amount / risk_per_unit\<close>, with \<open>risk_amount = equity * risk_pct\<close> and
  \<open>risk_per_unit = |entry - stop|\<close> computed in floats; all the floats involved are finite,
  and the quantity is \<open>fl (floor (fl (fl (fl (q * r) / |fl (e - s)|) * 10^d)) / 10^d)\<close>,
  where \<open>fl\<close> rounds to binary64, \<open>q\<close>, \<open>r\<close>, \<open>e\<close> and \<open>s\<close> are the account value, the risk
  fraction, the entry and the stop as floats and \<open>d\<close> is the size precision of the coin (2
  when the exchange gave none). When no positive quantity results, the run returns
  \<open>False\<close> and sends no order at all. For entry 0.50, stop 0.48, account value 1000 and
  risk 0.02 the size before rounding is \<open>1099511627775999 / 2^40\<close>, which Python prints as
  999.9999999999991. The leverage does not enter: the formula does not mention it, and
  two signals that differ only in a non-zero leverage give the same events, with the same
  quantities. (A leverage that is missing or zero stops the run before any order, through
  the exception handler.)
\<close>

theorem sizing_formula:
  assumes "execute_trade env meta st user signal = (st', ok, evs)"
  shows "(\<forall>l a c b q p r. OrderAttempt l a c b q p r \<in> set evs \<longrightarrow>
            (\<exists>s sz E. sg_stop_loss signal = Some s \<and> 0 < q
               \<and> c = convert_symbol_to_hl (sg_symbol signal)
               \<and> position_size (get_user_equity (e_equity env)) (py_float (sg_risk_pct signal))
                    (py_float (sg_entry_price signal)) (py_float s) = Some sz
               \<and> round_size meta c sz = Some q
               \<and> get_user_equity (e_equity env) = Fin E
               \<and> q = fl (of_int \<lfloor>fl (fl (fl (E * fl (sg_risk_pct signal))
                                            / \<bar>fl (fl (sg_entry_price signal) - fl s)\<bar>)
                                      * fl (10 ^ (case meta c of None \<Rightarrow> 2 | Some d \<Rightarrow> d)))\<rfloor>
                        / 10 ^ (case meta c of None \<Rightarrow> 2 | Some d \<Rightarrow> d))))
       \<and> (\<forall>s. sg_stop_loss signal = Some s
              \<and> (\<forall>sz q. position_size (get_user_equity (e_equity env)) (py_float (sg_risk_pct signal))
                            (py_float (sg_entry_price signal)) (py_float s) = Some sz
                         \<and> round_size meta (convert_symbol_to_hl (sg_symbol signal)) sz = Some q
                         \<longrightarrow> q \<le> 0)
            \<longrightarrow> \<not> ok \<and> \<not> list_ex is_order_event evs)
       \<and> position_size (py_float 1000) (py_float (2 / 100)) (py_float (1 / 2)) (py_float (12 / 25))
           = Some (Fin (1099511627775999 / 2 ^ 40))
       \<and> (\<forall>l l'. py_float l \<noteq> Fin 0 \<and> py_float l' \<noteq> Fin 0 \<longrightarrow>
             snd (snd (execute_trade env meta st user (signal\<lparr>sg_leverage := Some l\<rparr>)))
             = snd (snd (execute_trade env meta st user (signal\<lparr>sg_leverage := Some l'\<rparr>))))"
proof -
  have third: "position_size (py_float 1000) (py_float (2 / 100)) (py_float (1 / 2)) (py_float (12 / 25))
           = Some (Fin (1099511627775999 / 2 ^ 40))"
    by (simp add: position_size_def float_defs Let_def)
  have fourth: "py_float l \<noteq> Fin 0 \<and> py_float l' \<noteq> Fin 0 \<longrightarrow>
             snd (snd (execute_trade env meta st user (signal\<lparr>sg_leverage := Some l\<rparr>)))
             = snd (snd (execute_trade env meta st user (signal\<lparr>sg_leverage := Some l'\<rparr>)))" for l l'
    using events_leverage [of l l' env meta st user signal] by blast
  from assms show ?thesis
  proof (cases rule: execute_trade_cases)
    case (skip pevs)
    let ?st1 = "if sg_delivery_id signal \<noteq> 0
            then acknowledge_signal st (sg_delivery_id signal) else st"
    have pe: "pevs = snd (prepare_trade env meta ?st1 user signal)"
      using skip(1) by simp
    have na: "\<not> leg_attempted l evs" for l
      unfolding skip(4) pe by simp
    have q: "quiet evs"
      unfolding skip(4) pe by simp
    have "OrderAttempt l a c b q p r \<notin> set evs" for l a c b q p r
      using na [of l] order_event_attempted by blast
    moreover have "\<not> list_ex is_order_event evs"
      using no_order_events [OF q] na by blast
    ultimately show ?thesis
      using skip(3) third fourth by blast
  next
    case (go pl pevs bevs)
    let ?st1 = "if sg_delivery_id signal \<noteq> 0
            then acknowledge_signal st (sg_delivery_id signal) else st"
    let ?c = "convert_symbol_to_hl (sg_symbol signal)"
    from prepare_Some(5) [OF go(1)]
    obtain s where s: "sg_stop_loss signal = Some s"
        and pl: "pl_coin pl = ?c" "0 < pl_quantity pl"
        and b: "Option.bind (position_size (get_user_equity (e_equity env)) (py_float (sg_risk_pct signal))
                               (py_float (sg_entry_price signal)) (py_float s))
                            (round_size meta ?c) = Some (pl_quantity pl)"
      by (metis plan.select_convs(1))
    from b obtain sz where
      sz: "position_size (get_user_equity (e_equity env)) (py_float (sg_risk_pct signal))
             (py_float (sg_entry_price signal)) (py_float s) = Some sz"
      and rs: "round_size meta ?c sz = Some (pl_quantity pl)"
      by (auto simp: bind_eq_Some_conv)
    from sizing_closed_form [OF sz rs pl(2)]
    obtain E where E: "get_user_equity (e_equity env) = Fin E"
      and cf: "pl_quantity pl
                 = fl (of_int \<lfloor>fl (fl (fl (E * fl (sg_risk_pct signal))
                                            / \<bar>fl (fl (sg_entry_price signal) - fl s)\<bar>)
                                      * fl (10 ^ (case meta ?c of None \<Rightarrow> 2 | Some d \<Rightarrow> d)))\<rfloor>
                        / 10 ^ (case meta ?c of None \<Rightarrow> 2 | Some d \<Rightarrow> d))"
      by blast
    have pe: "pevs = snd (prepare_trade env meta ?st1 user signal)"
      using go(1) by simp
    have "all_orders_for (pl_coin pl) (pl_quantity pl) bevs"
      using place_bracket_orders [of pl env ?st1 user signal] go(2) by simp
    then have ao: "all_orders_for (pl_coin pl) (pl_quantity pl) evs"
      unfolding go(3) pe by simp
    have first: "\<exists>s sz E. sg_stop_loss signal = Some s \<and> 0 < q
               \<and> c = ?c
               \<and> position_size (get_user_equity (e_equity env)) (py_float (sg_risk_pct signal))
                    (py_float (sg_entry_price signal)) (py_float s) = Some sz
               \<and> round_size meta c sz = Some q
               \<and> get_user_equity (e_equity env) = Fin E
               \<and> q = fl (of_int \<lfloor>fl (fl (fl (E * fl (sg_risk_pct signal))
                                            / \<bar>fl (fl (sg_entry_price signal) - fl s)\<bar>)
                                      * fl (10 ^ (case meta c of None \<Rightarrow> 2 | Some d \<Rightarrow> d)))\<rfloor>
                        / 10 ^ (case meta c of None \<Rightarrow> 2 | Some d \<Rightarrow> d))"
      if "OrderAttempt l a c b q p r \<in> set evs" for l a c b q p r
    proof -
      from all_orders_forD [OF ao that] pl(1) have c: "c = ?c" and q: "q = pl_quantity pl"
        by simp_all
      show ?thesis
        unfolding c q using s pl(2) sz rs E cf by blast
    qed
    have second: "\<not> (\<forall>sz q. position_size (get_user_equity (e_equity env)) (py_float (sg_risk_pct signal))
                            (py_float (sg_entry_price signal)) (py_float s) = Some sz
                         \<and> round_size meta ?c sz = Some q
                         \<longrightarrow> q \<le> 0)"
      using sz rs pl(2) by force
    have second': "sg_stop_loss signal = Some s'
              \<and> (\<forall>sz q. position_size (get_user_equity (e_equity env)) (py_float (sg_risk_pct signal))
                            (py_float (sg_entry_price signal)) (py_float s') = Some sz
                         \<and> round_size meta ?c sz = Some q
                         \<longrightarrow> q \<le> 0)
            \<longrightarrow> \<not> ok \<and> \<not> list_ex is_order_event evs" for s'
      using second s by auto
    show ?thesis
      using first second' third fourth by blast
  qed
qed

text \<open>
  Claim C3 as stated fails at its own example. With exact arithmetic the size is 1000,
  and its floor at precision 0 is 1000. The code subtracts the float 0.48 from 0.5 and
  gets a float slightly above 0.02, so the quotient is below 1000, and its floor is 999:
  the orders of the scenario are for 999 units.
\<close>

theorem sizing_example_counterexample:
  "position_size (py_float 1000) (py_float (2 / 100)) (py_float (1 / 2)) (py_float (12 / 25))
     = Some (Fin (1099511627775999 / 2 ^ 40))
   \<and> (1099511627775999 / 2 ^ 40 :: real) < 1000
   \<and> of_int \<lfloor>(1000::real) * (2 / 100) / \<bar>1 / 2 - 12 / 25\<bar> * 10 ^ 0\<rfloor> / 10 ^ 0 = (1000::real)
   \<and> round_size ada_meta ''ADA'' (Fin (1099511627775999 / 2 ^ 40)) = Some 999
   \<and> OrderAttempt Entry 1 ''ADA'' True 999 (round_price (1 / 2 * (1 + 50 / 10000))) False
       \<in> set (snd (snd (execute_trade demo_env ada_meta demo_store demo_user demo_signal)))"
proof -
  have a: "position_size (py_float 1000) (py_float (2 / 100)) (py_float (1 / 2)) (py_float (12 / 25))
     = Some (Fin (1099511627775999 / 2 ^ 40))"
    by (simp add: position_size_def float_defs Let_def)
  have b: "round_size ada_meta ''ADA'' (Fin (1099511627775999 / 2 ^ 40)) = Some 999"
    by (simp add: round_size_def ada_meta_def float_defs Let_def)
  have c: "OrderAttempt Entry 1 ''ADA'' True 999 (round_price (1 / 2 * (1 + 50 / 10000))) False
       \<in> set (snd (snd (execute_trade demo_env ada_meta demo_store demo_user demo_signal)))"
    by (simp add: run_defs demo_defs)
  from a b c show ?thesis by simp
qed

theorem sizing_formula_witness:
  "OrderAttempt Entry 1 ''ADA'' True 999 (round_price (1 / 2 * (1 + 50 / 10000))) False
     \<in> set (snd (snd (execute_trade demo_env ada_meta demo_store demo_user demo_signal)))
   \<and> (\<exists>s sz. sg_stop_loss demo_signal = Some s
        \<and> position_size (get_user_equity (e_equity demo_env)) (py_float (sg_risk_pct demo_signal))
             (py_float (sg_entry_price demo_signal)) (py_float s) = Some sz
        \<and> round_size ada_meta ''ADA'' sz = Some 999)
   \<and> \<not> fst (snd (execute_trade (demo_env\<lparr>e_equity := Returns (Some (1 / 100))\<rparr>) ada_meta
                     demo_store demo_user demo_signal))
   \<and> \<not> list_ex is_order_event
         (snd (snd (execute_trade (demo_env\<lparr>e_equity := Returns (Some (1 / 100))\<rparr>) ada_meta
                     demo_store demo_user demo_signal)))"
proof -
  let ?r = "execute_trade demo_env ada_meta demo_store demo_user demo_signal"
  let ?envz = "demo_env\<lparr>e_equity := Returns (Some (1 / 100))\<rparr>"
  let ?rz = "execute_trade ?envz ada_meta demo_store demo_user demo_signal"
  have eq: "?r = (fst ?r, fst (snd ?r), snd (snd ?r))" by simp
  have eqz: "?rz = (fst ?rz, fst (snd ?rz), snd (snd ?rz))" by simp
  have m: "OrderAttempt Entry 1 ''ADA'' True 999 (round_price (1 / 2 * (1 + 50 / 10000))) False
             \<in> set (snd (snd ?r))"
    by (simp add: run_defs demo_defs)
  have s0: "sg_stop_loss demo_signal = Some (12 / 25)"
    by (simp add: demo_defs)
  have z: "position_size (get_user_equity (e_equity ?envz)) (py_float (sg_risk_pct demo_signal))
                (py_float (sg_entry_price demo_signal)) (py_float (12 / 25)) = Some (Fin (2882303761517115 / 2 ^ 58))"
    by (simp add: position_size_def get_user_equity_def float_defs demo_defs Let_def)
  have z': "round_size ada_meta (convert_symbol_to_hl (sg_symbol demo_signal))
              (Fin (2882303761517115 / 2 ^ 58)) = Some 0"
    by (simp add: run_defs demo_defs)
  from sizing_formula [OF eq] m
  have "\<exists>s sz E. sg_stop_loss demo_signal = Some s \<and> (0::real) < 999
               \<and> ''ADA'' = convert_symbol_to_hl (sg_symbol demo_signal)
               \<and> position_size (get_user_equity (e_equity demo_env)) (py_float (sg_risk_pct demo_signal))
                    (py_float (sg_entry_price demo_signal)) (py_float s) = Some sz
               \<and> round_size ada_meta ''ADA'' sz = Some 999
               \<and> get_user_equity (e_equity demo_env) = Fin E
               \<and> (999::real) = fl (of_int \<lfloor>fl (fl (fl (E * fl (sg_risk_pct demo_signal))
                                            / \<bar>fl (fl (sg_entry_price demo_signal) - fl s)\<bar>)
                                      * fl (10 ^ (case ada_meta ''ADA'' of None \<Rightarrow> 2 | Some d \<Rightarrow> d)))\<rfloor>
                        / 10 ^ (case ada_meta ''ADA'' of None \<Rightarrow> 2 | Some d \<Rightarrow> d))"
    by blast
  then have a: "\<exists>s sz. sg_stop_loss demo_signal = Some s
        \<and> position_size (get_user_equity (e_equity demo_env)) (py_float (sg_risk_pct demo_signal))
             (py_float (sg_entry_price demo_signal)) (py_float s) = Some sz
        \<and> round_size ada_meta ''ADA'' sz = Some 999"
    by blast
  have zz: "\<forall>sz q. position_size (get_user_equity (e_equity ?envz)) (py_float (sg_risk_pct demo_signal))
                            (py_float (sg_entry_price demo_signal)) (py_float (12 / 25)) = Some sz
                         \<and> round_size ada_meta (convert_symbol_to_hl (sg_symbol demo_signal)) sz = Some q
                         \<longrightarrow> q \<le> 0"
    using z z' by simp
  from sizing_formula [OF eqz] s0 zz
  have b: "\<not> fst (snd ?rz) \<and> \<not> list_ex is_order_event (snd (snd ?rz))"
    by blast
  from m a b show ?thesis by blast
qed

subsection \<open>The safety gate fails open\<close>




subsection \<open>The batched fetch\<close>

lemmas fetch_defs = get_pending_signals_batched_def where_clause_def joined_row_def
  pending_eligible_def failed_store_def

text \<open>
  Claim C4 names, among the conditions of the fetch, that the delivery is not marked
  failed. The query has no such condition: a delivery that is marked failed and not
  acknowledged, and passes the other conditions, is returned and so handed to the executor.
  (The endpoint \<^verbatim>\<open>get_latest_signal\<close> of \<^verbatim>\<open>follower_endpoints.py\<close> does filter on
  \<^verbatim>\<open>failed == False\<close>, and \<^verbatim>\<open>mark_signal_failed\<close> sets the flag without acknowledging.)
\<close>

theorem fetch_returns_failed_delivery:
  "map pi_delivery_id (get_pending_signals_batched 1010 failed_store) = [1]
   \<and> \<not> pending_eligible 1010 (hd (st_users failed_store)) (hd (st_deliveries failed_store))
          (hd (st_signals failed_store))
   \<and> where_clause 1010 (hd (st_users failed_store)) (hd (st_deliveries failed_store))
          (hd (st_signals failed_store))"
  by (simp add: fetch_defs demo_defs)

subsection \<open>Position monitor: auxiliary facts\<close>

lemmas monitor_defs = check_position_def check_position_closed_def live_position_def
  exit_price_of_def newest_first_def get_hl_realized_pnl_def record_trade_close_def
  find_matching_signal_def get_base_symbol_def py_strip_def is_space_def normal_side_def
  set_status_def proximity_exit_type_def position_coin_def or_else_def falsy_def
  before_slash_def upper_def upper_char_def lower_def lower_char_def py_int_ok_def is_digit_def
  LOOKBACK_HOURS_def get_open_positions_def Let_def

lemmas monitor_demo_defs = demo_position_def monitor_store_def demo_fill_def
  demo_monitor_env_def manual_position_def ethfi_store_def no_signal_store_def demo_store_def







subsection \<open>Reconciliation anomalies\<close>



subsection \<open>Exit type\<close>



subsection \<open>Manual trades\<close>

text \<open>
  When the lookup finds nothing. For a position that carries no signal id, when
  \<^verbatim>\<open>find_matching_signal\<close> returns no signal, closing it inserts no trade, leaves every
  subscriber row as it was, and returns \<open>False\<close>. If moreover the position has an entry
  price and a size, the exit price differs from the entry price by at least 0.00001, and
  the row has an id, the position is marked \<open>closed_manual\<close>.
\<close>

lemma unmatched_close:
  assumes unbound: "op_signal_id pos = None \<or> op_signal_id pos = Some 0"
      and nomatch: "find_matching_signal env st (op_symbol pos) (normal_side (op_side pos)) = None"
  shows "st_trades (fst (record_trade_close env st pos x et t hl)) = st_trades st
       \<and> st_users (fst (record_trade_close env st pos x et t hl)) = st_users st
       \<and> \<not> snd (record_trade_close env st pos x et t hl)
       \<and> (\<not> falsy (or_else (op_avg_entry_price pos) (op_entry_fill_price pos))
            \<and> \<not> falsy (or_else (op_filled_quantity pos) (Some (op_quantity pos)))
            \<and> 1 / 100000 \<le> \<bar>the (or_else (op_avg_entry_price pos) (op_entry_fill_price pos)) - x\<bar>
            \<and> op_id pos \<noteq> 0
          \<longrightarrow> fst (record_trade_close env st pos x et t hl) = set_status st (op_id pos) ''closed_manual''
              \<and> (\<forall>p \<in> set (st_positions (fst (record_trade_close env st pos x et t hl))).
                    op_id p = op_id pos \<longrightarrow> op_status p = ''closed_manual''))"
  using assms
  by (auto simp: record_trade_close_def Let_def set_status_def)

lemma unmatched_close_demo:
  "st_trades (fst (record_trade_close demo_monitor_env no_signal_store manual_position 2100 ''TP'' 2000 None)) = []
   \<and> map op_status (st_positions (fst (record_trade_close demo_monitor_env no_signal_store
         manual_position 2100 ''TP'' 2000 None))) = [''closed_manual'']"
proof -
  have u: "op_signal_id manual_position = None \<or> op_signal_id manual_position = Some 0"
    by (simp add: monitor_demo_defs)
  have n: "find_matching_signal demo_monitor_env no_signal_store (op_symbol manual_position)
             (normal_side (op_side manual_position)) = None"
    by (simp add: monitor_defs monitor_demo_defs)
  have g: "\<not> falsy (or_else (op_avg_entry_price manual_position) (op_entry_fill_price manual_position))
            \<and> \<not> falsy (or_else (op_filled_quantity manual_position) (Some (op_quantity manual_position)))
            \<and> 1 / 100000 \<le> \<bar>the (or_else (op_avg_entry_price manual_position)
                                    (op_entry_fill_price manual_position)) - 2100\<bar>
            \<and> op_id manual_position \<noteq> 0"
    by (simp add: monitor_defs monitor_demo_defs)
  from unmatched_close [OF u n, of 2100 "''TP''" 2000 None] g
  have "st_trades (fst (record_trade_close demo_monitor_env no_signal_store manual_position 2100 ''TP'' 2000 None))
          = st_trades no_signal_store
        \<and> fst (record_trade_close demo_monitor_env no_signal_store manual_position 2100 ''TP'' 2000 None)
          = set_status no_signal_store (op_id manual_position) ''closed_manual''"
    by blast
  then show ?thesis
    by (simp add: monitor_demo_defs set_status_def)
qed

text \<open>
  The guard that precedes the lookup: with the exit price equal to the entry price
  \<^verbatim>\<open>record_trade_close\<close> returns at once, and the position keeps the status \<open>open\<close>.
\<close>

lemma equal_prices_stay_open:
  "map op_status (st_positions (fst (record_trade_close demo_monitor_env no_signal_store
         manual_position 2000 ''SL'' 2000 None))) = [''open'']"
  by (simp add: monitor_defs monitor_demo_defs)

text \<open>
  Claim C6 fails on the code. The lookup matches a signal whose upper-cased symbol
  contains the base symbol of the position, not one of the same base instrument. The
  position of the scenario is in ETH and carries no signal id; the only signal in the
  store is for ETHFI, so none has the base instrument of the position. The lookup returns
  the ETHFI signal: closing the position inserts a trade bound to that signal and adds its
  profit of 100 to the counters of the subscriber. (The docstrings say
  \<^verbatim>\<open>Only records trades matching a Nike Rocket signal\<close> and
  \<^verbatim>\<open>Only tracks/charges fees on copytraded positions\<close>.)
\<close>

theorem manual_trade_recorded:
  "op_signal_id manual_position = None
   \<and> get_base_symbol (op_symbol manual_position) = ''ETH''
   \<and> map (\<lambda>s. get_base_symbol (s_symbol s)) (st_signals ethfi_store) = [''ETHFI'']
   \<and> filter (\<lambda>s. same_base_instrument (s_symbol s) (op_symbol manual_position))
         (st_signals ethfi_store) = []
   \<and> map_option s_symbol (find_matching_signal demo_monitor_env ethfi_store
         (op_symbol manual_position) (normal_side (op_side manual_position))) = Some ''ETHFI/USDT''
   \<and> st_trades ethfi_store = []
   \<and> length (st_trades (fst (record_trade_close demo_monitor_env ethfi_store
         manual_position 2100 ''TP'' 2000 None))) = 1
   \<and> map u_total_profit (st_users ethfi_store) = [0]
   \<and> map u_total_profit (st_users (fst (record_trade_close demo_monitor_env ethfi_store
         manual_position 2100 ''TP'' 2000 None))) = [100]"
  by (simp add: monitor_defs monitor_demo_defs same_base_instrument_def)

subsection \<open>At most one execution of a delivery\<close>

subsection \<open>The fetch returns a delivery at most once, and only an unacknowledged one\<close>

lemma pending_from_unacked:
  assumes "item \<in> set (get_pending_signals_batched now st)"
  shows "pi_delivery_id item \<in> unacked_ids st"
  using assms
  by (auto simp: get_pending_signals_batched_def unacked_ids_def where_clause_def joined_row_def
           split: if_splits)

lemma filter_key_le1:
  "distinct (map k xs) \<Longrightarrow> filter (\<lambda>x. v = k x) xs = [] \<or> (\<exists>x. filter (\<lambda>x. v = k x) xs = [x])"
proof (induction xs)
  case Nil
  then show ?case by simp
next
  case (Cons a xs)
  show ?case
  proof (cases "v = k a")
    case True
    then have "v \<notin> set (map k xs)" using Cons.prems by auto
    then have "filter (\<lambda>x. v = k x) xs = []" by (auto simp: filter_empty_conv)
    with True show ?thesis by simp
  next
    case False
    with Cons show ?thesis by simp
  qed
qed

lemma rows_of_delivery:
  assumes "distinct (map u_id us)" "distinct (map s_id ss)"
  shows "map pi_delivery_id
           (concat (map (\<lambda>u. concat (map (\<lambda>s. if where_clause now u sd s then [joined_row u sd s] else [])
                                        (filter (\<lambda>s. sd_signal_id sd = s_id s) ss)))
                        (filter (\<lambda>u. sd_user_id sd = u_id u) us)))
         \<in> {[], [sd_id sd]}"
proof -
  from filter_key_le1 [OF assms(1), of "sd_user_id sd"]
  consider "filter (\<lambda>u. sd_user_id sd = u_id u) us = []"
    | u where "filter (\<lambda>u. sd_user_id sd = u_id u) us = [u]"
    by blast
  then show ?thesis
  proof cases
    case 1
    then show ?thesis by simp
  next
    case (2 u)
    from filter_key_le1 [OF assms(2), of "sd_signal_id sd"]
    consider "filter (\<lambda>s. sd_signal_id sd = s_id s) ss = []"
      | s where "filter (\<lambda>s. sd_signal_id sd = s_id s) ss = [s]"
      by blast
    then show ?thesis
    proof cases
      case 1
      with 2 show ?thesis by simp
    next
      case (2 s)
      with \<open>filter (\<lambda>u. sd_user_id sd = u_id u) us = [u]\<close> show ?thesis
        by (simp add: joined_row_def)
    qed
  qed
qed

lemma distinct_concat_rows:
  assumes "distinct (map sd_id sds)" and "\<And>sd. map g (R sd) \<in> {[], [sd_id sd]}"
  shows "distinct (map g (concat (map R sds))) \<and> set (map g (concat (map R sds))) \<subseteq> sd_id ` set sds"
  using assms(1)
proof (induction sds)
  case Nil
  then show ?case by simp
next
  case (Cons sd sds)
  then have ih: "distinct (map g (concat (map R sds)))"
      "set (map g (concat (map R sds))) \<subseteq> sd_id ` set sds"
    by auto
  have nin: "sd_id sd \<notin> sd_id ` set sds" using Cons.prems by auto
  from assms(2) [of sd] show ?case
  proof
    assume "map g (R sd) = []"
    with ih show ?thesis by auto
  next
    assume "map g (R sd) \<in> {[sd_id sd]}"
    then have "map g (R sd) = [sd_id sd]" by simp
    with ih nin show ?thesis by auto
  qed
qed

lemma distinct_map_sort_key:
  "distinct (map g (sort_key f xs)) = distinct (map g xs)"
proof -
  have "mset (map g (sort_key f xs)) = mset (map g xs)" by simp
  then show ?thesis by (rule mset_eq_imp_distinct_iff)
qed

lemma pending_distinct:
  assumes "keys_ok st"
  shows "distinct (map pi_delivery_id (get_pending_signals_batched now st))"
proof -
  from assms have k: "distinct (map sd_id (st_deliveries st))" "distinct (map u_id (st_users st))"
      "distinct (map s_id (st_signals st))"
    by (simp_all add: keys_ok_def)
  let ?R = "\<lambda>sd. concat (map (\<lambda>u. concat (map (\<lambda>s. if where_clause now u sd s then [joined_row u sd s] else [])
                                        (filter (\<lambda>s. sd_signal_id sd = s_id s) (st_signals st))))
                        (filter (\<lambda>u. sd_user_id sd = u_id u) (st_users st)))"
  have "map pi_delivery_id (?R sd) \<in> {[], [sd_id sd]}" for sd
    by (rule rows_of_delivery [OF k(2) k(3)])
  from distinct_concat_rows [OF k(1), of pi_delivery_id ?R, OF this]
  have "distinct (map pi_delivery_id (concat (map ?R (st_deliveries st))))"
    by (rule conjunct1)
  then show ?thesis
    unfolding get_pending_signals_batched_def distinct_map_sort_key .
qed

lemma shuffle_ids:
  assumes "\<forall>xs. mset (f xs) = mset xs"
  shows "distinct (map g (f xs)) = distinct (map g xs)" "set (f xs) = set xs"
proof -
  have "mset (map g (f xs)) = mset (map g xs)" using assms by simp
  then show "distinct (map g (f xs)) = distinct (map g xs)" by (rule mset_eq_imp_distinct_iff)
  show "set (f xs) = set xs" using assms by (metis set_mset_mset)
qed

subsection \<open>What one execution does to the store\<close>

lemma record_store:
  "st_deliveries (fst (record_open_position env st user signal pl eo tpo slo tpp slp)) = st_deliveries st"
  "st_signals (fst (record_open_position env st user signal pl eo tpo slo tpp slp)) = st_signals st"
  "map u_id (st_users (fst (record_open_position env st user signal pl eo tpo slo tpp slp))) = map u_id (st_users st)"
  "length (st_positions (fst (record_open_position env st user signal pl eo tpo slo tpp slp)))
     = length (st_positions st) + count_inserts (snd (record_open_position env st user signal pl eo tpo slo tpp slp))"
  by (auto simp: record_open_position_def Let_def count_inserts_def split: option.splits)

lemma count_inserts_simps [simp]:
  "count_inserts [] = 0"
  "count_inserts (e # es) = (if e = InsertOpenPosition then 1 else 0) + count_inserts es"
  "count_inserts (xs @ ys) = count_inserts xs + count_inserts ys"
  by (simp_all add: count_inserts_def)

lemma count_inserts_helpers [simp]:
  "count_inserts (snd (place_entry_order_with_retry ex coin b q p)) = 0"
  "count_inserts (snd (place_tp_order_with_retry ex coin b q p)) = 0"
  "count_inserts (snd (place_sl_order_with_retry ex coin b q p)) = 0"
  "count_inserts (snd (cancel_order_with_retry cex coin oid n)) = 0"
  "count_inserts (emergency_close_position env coin b q reason) = 0"
  "count_inserts (snd (prepare_trade env meta st user signal)) = 0"
  unfolding place_entry_order_with_retry_def place_tp_order_with_retry_def
    place_sl_order_with_retry_def retry_loop_3 cancel_order_with_retry_def cancel_loop_3
    emergency_close_position_def prepare_trade_def check_any_open_positions_or_orders_def
  by (simp_all add: Let_def split: sum.splits option.splits call.splits cred_result.splits)

lemma count_inserts_record:
  "count_inserts (snd (record_open_position env st user signal pl eo tpo slo tpp slp)) \<le> 1"
  by (simp add: record_open_position_def Let_def split: option.splits)

lemma place_bracket_store:
  "st_deliveries (fst (place_bracket env st user signal pl)) = st_deliveries st"
  "st_signals (fst (place_bracket env st user signal pl)) = st_signals st"
  "map u_id (st_users (fst (place_bracket env st user signal pl))) = map u_id (st_users st)"
  "length (st_positions (fst (place_bracket env st user signal pl)))
     = length (st_positions st) + count_inserts (snd (snd (place_bracket env st user signal pl)))"
  "count_inserts (snd (snd (place_bracket env st user signal pl))) \<le> 1"
  unfolding place_bracket_def
  using count_inserts_record
  by (simp_all add: Let_def record_store split: option.splits)

lemma ack_store:
  "st_deliveries (acknowledge_signal st d) = ack_all {d} (st_deliveries st) \<or> d = 0"
  "st_signals (acknowledge_signal st d) = st_signals st"
  "st_users (acknowledge_signal st d) = st_users st"
  by (auto simp: acknowledge_signal_def ack_all_def)

lemma execute_trade_store:
  "st_deliveries (fst (execute_trade env meta st user signal))
     = ack_all {sg_delivery_id signal} (st_deliveries st)"
  "st_signals (fst (execute_trade env meta st user signal)) = st_signals st"
  "map u_id (st_users (fst (execute_trade env meta st user signal))) = map u_id (st_users st)"
  "length (st_positions (fst (execute_trade env meta st user signal)))
     = length (st_positions st) + count_inserts (snd (snd (execute_trade env meta st user signal)))"
  "count_inserts (snd (snd (execute_trade env meta st user signal))) \<le> 1"
proof -
  have a0: "ack_all {0} ds = ds" for ds
    by (induction ds) (auto simp: ack_all_def)
  have a1: "d \<noteq> 0 \<Longrightarrow> st_deliveries (acknowledge_signal st d) = ack_all {d} (st_deliveries st)" for d
    by (auto simp: acknowledge_signal_def ack_all_def)
  show "st_deliveries (fst (execute_trade env meta st user signal))
     = ack_all {sg_delivery_id signal} (st_deliveries st)"
    by (simp add: execute_trade_def Let_def place_bracket_store a0 a1 split: option.splits)
  show "st_signals (fst (execute_trade env meta st user signal)) = st_signals st"
    by (simp add: execute_trade_def Let_def place_bracket_store ack_store split: option.splits)
  show "map u_id (st_users (fst (execute_trade env meta st user signal))) = map u_id (st_users st)"
    by (simp add: execute_trade_def Let_def place_bracket_store ack_store split: option.splits)
  show "length (st_positions (fst (execute_trade env meta st user signal)))
     = length (st_positions st) + count_inserts (snd (snd (execute_trade env meta st user signal)))"
    by (simp add: execute_trade_def Let_def place_bracket_store split: option.splits)
  show "count_inserts (snd (snd (execute_trade env meta st user signal))) \<le> 1"
    by (simp add: execute_trade_def Let_def place_bracket_store [unfolded One_nat_def]
             split: option.splits)
qed

subsection \<open>Polls in sequence\<close>

lemma ack_all_ack_all: "ack_all S (ack_all T ds) = ack_all (T \<union> S) ds"
  by (induction ds) (auto simp: ack_all_def)

lemma ack_all_keys [simp]: "map sd_id (ack_all S ds) = map sd_id ds"
  by (induction ds) (auto simp: ack_all_def)

lemma ack_all_empty [simp]: "ack_all {} ds = ds"
  by (induction ds) (auto simp: ack_all_def)

lemma execute_signal_store:
  "st_deliveries (fst (execute_signal_for_user env meta st item))
     = ack_all {pi_delivery_id item} (st_deliveries st)"
  "st_signals (fst (execute_signal_for_user env meta st item)) = st_signals st"
  "map u_id (st_users (fst (execute_signal_for_user env meta st item))) = map u_id (st_users st)"
  "length (st_positions (fst (execute_signal_for_user env meta st item)))
     = length (st_positions st) + count_inserts (snd (snd (execute_signal_for_user env meta st item)))"
  "count_inserts (snd (snd (execute_signal_for_user env meta st item))) \<le> 1"
  unfolding execute_signal_for_user_def
  by (simp_all only: execute_trade_store)
     (simp_all add: item_signal_def)

lemma execute_items_deliveries:
  "st_deliveries (fst (execute_items envs meta st items))
     = ack_all (pi_delivery_id ` set items) (st_deliveries st)"
proof (induction items arbitrary: st)
  case Nil
  show ?case by simp
next
  case (Cons item items)
  show ?case
    by (simp add: Let_def Cons.IH execute_signal_store ack_all_ack_all)
qed

lemma execute_items_signals:
  "st_signals (fst (execute_items envs meta st items)) = st_signals st"
  by (induction items arbitrary: st) (simp_all add: Let_def execute_signal_store)

lemma execute_items_users:
  "map u_id (st_users (fst (execute_items envs meta st items))) = map u_id (st_users st)"
  by (induction items arbitrary: st) (simp_all add: Let_def execute_signal_store)

lemma execute_items_ids:
  "map fst (snd (execute_items envs meta st items)) = map pi_delivery_id items"
  by (induction items arbitrary: st) (simp_all add: Let_def)

lemmas execute_items_store =
  execute_items_deliveries execute_items_signals execute_items_users execute_items_ids

lemma execute_items_inserts:
  "\<forall>x \<in> set (snd (execute_items envs meta st items)). count_inserts (snd x) \<le> 1"
proof (induction items arbitrary: st)
  case Nil
  show ?case by simp
next
  case (Cons item items)
  show ?case
    using Cons.IH execute_signal_store(5) [of "envs item" meta st item]
    by (simp add: Let_def)
qed

lemma execute_items_positions:
  "length (st_positions (fst (execute_items envs meta st items)))
     = length (st_positions st)
       + sum_list (map (\<lambda>x. count_inserts (snd x)) (snd (execute_items envs meta st items)))"
proof (induction items arbitrary: st)
  case Nil
  show ?case by simp
next
  case (Cons item items)
  show ?case
    by (simp add: Let_def Cons.IH execute_signal_store(4))
qed

lemma keys_ok_preserved:
  assumes "keys_ok st" "map sd_id (st_deliveries st') = map sd_id (st_deliveries st)"
    "st_signals st' = st_signals st" "map u_id (st_users st') = map u_id (st_users st)"
  shows "keys_ok st'"
  using assms by (simp add: keys_ok_def)

lemma unacked_after:
  assumes "0 \<notin> set (map sd_id ds)"
  shows "sd_id ` {sd \<in> set (ack_all S ds). \<not> sd_acknowledged sd}
           \<subseteq> sd_id ` {sd \<in> set ds. \<not> sd_acknowledged sd} - S"
  using assms by (induction ds) (auto simp: ack_all_def)

lemma poll_facts:
  assumes k: "keys_ok st" and sh: "\<forall>xs. mset (p_shuffle p xs) = mset xs"
  shows "distinct (map fst (snd (poll_and_execute p meta st)))"
    and "set (map fst (snd (poll_and_execute p meta st))) \<subseteq> unacked_ids st"
    and "keys_ok (fst (poll_and_execute p meta st))"
    and "unacked_ids (fst (poll_and_execute p meta st))
           \<subseteq> unacked_ids st - set (map fst (snd (poll_and_execute p meta st)))"
proof -
  let ?items = "p_shuffle p (get_pending_signals_batched (p_now p) st)"
  have ids: "map fst (snd (poll_and_execute p meta st)) = map pi_delivery_id ?items"
    by (simp add: poll_and_execute_def execute_items_store)
  show "distinct (map fst (snd (poll_and_execute p meta st)))"
    unfolding ids shuffle_ids(1) [OF sh] by (rule pending_distinct [OF k])
  show "set (map fst (snd (poll_and_execute p meta st))) \<subseteq> unacked_ids st"
    unfolding ids using shuffle_ids(2) [OF sh] pending_from_unacked by auto
  show "keys_ok (fst (poll_and_execute p meta st))"
    by (rule keys_ok_preserved [OF k]) (simp_all add: poll_and_execute_def execute_items_store)
  have z: "0 \<notin> set (map sd_id (st_deliveries st))" using k by (simp add: keys_ok_def)
  show "unacked_ids (fst (poll_and_execute p meta st))
           \<subseteq> unacked_ids st - set (map fst (snd (poll_and_execute p meta st)))"
    unfolding ids unacked_ids_def
    using unacked_after [OF z, of "pi_delivery_id ` set ?items"]
    by (simp add: poll_and_execute_def execute_items_store)
qed

lemma run_polls_facts:
  assumes "keys_ok st" and "\<forall>p \<in> set ps. \<forall>xs. mset (p_shuffle p xs) = mset xs"
  shows "distinct (map fst (snd (run_polls ps meta st)))
       \<and> set (map fst (snd (run_polls ps meta st))) \<subseteq> unacked_ids st"
  using assms
proof (induction ps arbitrary: st)
  case Nil
  then show ?case by simp
next
  case (Cons p ps)
  have sh: "\<forall>xs. mset (p_shuffle p xs) = mset xs" using Cons.prems(2) by simp
  note pf = poll_facts [OF Cons.prems(1) sh, of meta]
  have ih: "distinct (map fst (snd (run_polls ps meta (fst (poll_and_execute p meta st)))))
       \<and> set (map fst (snd (run_polls ps meta (fst (poll_and_execute p meta st)))))
            \<subseteq> unacked_ids (fst (poll_and_execute p meta st))"
    using Cons.IH [OF pf(3)] Cons.prems(2) by simp
  show ?case
    using pf(1,2,4) ih by (auto simp: Let_def)
qed

lemma run_polls_inserts:
  "\<forall>x \<in> set (snd (run_polls ps meta st)). count_inserts (snd x) \<le> 1"
proof (induction ps arbitrary: st)
  case Nil
  then show ?case by simp
next
  case (Cons p ps)
  show ?case
    using Cons.IH [of "fst (poll_and_execute p meta st)"]
      execute_items_inserts [of "p_env p" meta st "p_shuffle p (get_pending_signals_batched (p_now p) st)"]
    by (auto simp: Let_def poll_and_execute_def)
qed

lemma distinct_filter_le1:
  "distinct (map fst xs) \<Longrightarrow> length (filter (\<lambda>x. fst x = d) xs) \<le> 1"
proof (induction xs)
  case Nil
  then show ?case by simp
next
  case (Cons a xs)
  show ?case
  proof (cases "fst a = d")
    case True
    then have "d \<notin> fst ` set xs" using Cons.prems by auto
    then have "filter (\<lambda>x. fst x = d) xs = []" by (auto simp: filter_empty_conv)
    with True show ?thesis by simp
  next
    case False
    with Cons show ?thesis by simp
  qed
qed

lemma inserts_per_delivery:
  assumes "distinct (map fst xs)" "\<forall>x \<in> set xs. count_inserts (snd x) \<le> 1"
  shows "sum_list (map (\<lambda>x. count_inserts (snd x)) (filter (\<lambda>x. fst x = d) xs)) \<le> 1"
proof -
  from distinct_filter_le1 [OF assms(1), of d]
  consider "filter (\<lambda>x. fst x = d) xs = []" | x where "filter (\<lambda>x. fst x = d) xs = [x]"
    by (cases "filter (\<lambda>x. fst x = d) xs") (auto simp: length_Suc_conv)
  then show ?thesis
  proof cases
    case 1
    then show ?thesis by simp
  next
    case (2 x)
    have "x \<in> set (filter (\<lambda>x. fst x = d) xs)" unfolding 2 by simp
    then have "x \<in> set xs" by simp
    with assms(2) 2 show ?thesis by simp
  qed
qed

lemma run_polls_positions:
  "length (st_positions (fst (run_polls ps meta st)))
     = length (st_positions st)
       + sum_list (map (\<lambda>x. count_inserts (snd x)) (snd (run_polls ps meta st)))"
proof (induction ps arbitrary: st)
  case Nil
  show ?case by simp
next
  case (Cons p ps)
  show ?case
    by (simp add: Let_def Cons.IH poll_and_execute_def execute_items_positions)
qed

lemma execute_trade_first_event:
  "sg_delivery_id signal \<noteq> 0 \<Longrightarrow>
   \<exists>rest. snd (snd (execute_trade env meta st user signal)) = AckWrite (sg_delivery_id signal) # rest"
  by (simp add: execute_trade_def Let_def split: option.splits)

lemma acked_not_pending:
  assumes "\<forall>sd \<in> set (st_deliveries st). sd_id sd = d \<longrightarrow> sd_acknowledged sd"
  shows "d \<notin> pi_delivery_id ` set (get_pending_signals_batched now st)"
proof
  assume "d \<in> pi_delivery_id ` set (get_pending_signals_batched now st)"
  then obtain item where "item \<in> set (get_pending_signals_batched now st)" "pi_delivery_id item = d"
    by auto
  then have "d \<in> unacked_ids st" using pending_from_unacked by blast
  with assms show False by (auto simp: unacked_ids_def)
qed

lemma flags_after_update:
  assumes "sd \<in> set (map (\<lambda>x. if P x then x\<lparr>sd_acknowledged := True, sd_executed := True\<rparr> else x) ds)"
      and "P sd \<or> (\<forall>x. sd_id x = sd_id sd \<longrightarrow> P x)"
  shows "sd_acknowledged sd \<and> sd_executed sd"
proof -
  from assms(1) obtain x where x: "x \<in> set ds"
      and s: "sd = (if P x then x\<lparr>sd_acknowledged := True, sd_executed := True\<rparr> else x)"
    unfolding set_map by (elim imageE) 
  show ?thesis
  proof (cases "P x")
    case True
    with s have "sd = x\<lparr>sd_acknowledged := True, sd_executed := True\<rparr>" by simp
    then show ?thesis by simp
  next
    case False
    with s have "sd = x" by simp
    with False assms(2) show ?thesis by blast
  qed
qed

lemma ack_all_flags:
  assumes "d \<noteq> 0"
  shows "\<forall>sd \<in> set (ack_all {d} ds). sd_id sd = d \<longrightarrow> sd_acknowledged sd \<and> sd_executed sd"
proof (intro ballI impI)
  fix sd assume m: "sd \<in> set (ack_all {d} ds)" and e: "sd_id sd = d"
  show "sd_acknowledged sd \<and> sd_executed sd"
  proof (rule flags_after_update [where P = "\<lambda>x. sd_id x \<in> {d} \<and> sd_id x \<noteq> 0" and ds = ds])
    show "sd \<in> set (map (\<lambda>x. if sd_id x \<in> {d} \<and> sd_id x \<noteq> 0
              then x\<lparr>sd_acknowledged := True, sd_executed := True\<rparr> else x) ds)"
      using m unfolding ack_all_def .
    show "(sd_id sd \<in> {d} \<and> sd_id sd \<noteq> 0)
          \<or> (\<forall>x. sd_id x = sd_id sd \<longrightarrow> sd_id x \<in> {d} \<and> sd_id x \<noteq> 0)"
      using e assms by simp
  qed
qed

lemma acknowledge_flags:
  "\<forall>sd \<in> set (st_deliveries (acknowledge_signal st d)). sd_id sd = d \<longrightarrow> sd_acknowledged sd \<and> sd_executed sd"
proof (intro ballI impI)
  fix sd assume m: "sd \<in> set (st_deliveries (acknowledge_signal st d))" and e: "sd_id sd = d"
  show "sd_acknowledged sd \<and> sd_executed sd"
  proof (rule flags_after_update [where P = "\<lambda>x. sd_id x = d" and ds = "st_deliveries st"])
    show "sd \<in> set (map (\<lambda>x. if sd_id x = d
              then x\<lparr>sd_acknowledged := True, sd_executed := True\<rparr> else x) (st_deliveries st))"
    proof -
      have "st_deliveries (acknowledge_signal st d)
              = map (\<lambda>x. if sd_id x = d
                  then x\<lparr>sd_acknowledged := True, sd_executed := True\<rparr> else x) (st_deliveries st)"
        by (simp add: acknowledge_signal_def)
      with m show ?thesis by (rule subst [where P = "\<lambda>l. sd \<in> set l", rotated])
    qed
    show "sd_id sd = d \<or> (\<forall>x. sd_id x = sd_id sd \<longrightarrow> sd_id x = d)"
      using e by simp
  qed
qed

text \<open>
  Executions that do not overlap. When the delivery id is given, the first thing
  \<^verbatim>\<open>execute_trade\<close> does is the write of the acknowledged and executed flags: the event of
  that write is the head of the events, before every check and every order. In the store
  it returns, whatever it returns and whatever failed, the flags of that delivery are
  set, and no later fetch returns the delivery; the same holds for the store right after
  the write alone, which is what a process that stopped between the write and the start
  of the executor leaves behind. One execution inserts at most one Open Position. For any
  number of polls run one after the other, on a store whose primary keys are keys and with
  any shuffle that is a permutation, no delivery is executed twice, so for each delivery at
  most one Open Position is inserted, and the table grows by exactly the inserts counted.
  This is a statement for each delivery: two deliveries of one signal to one subscriber,
  which \<^verbatim>\<open>broadcast_signal\<close> does not create, are two deliveries here.
\<close>

lemma sequential_polls_once:
  "(sg_delivery_id signal \<noteq> 0 \<longrightarrow>
      (\<exists>rest. snd (snd (execute_trade env meta st user signal))
                = AckWrite (sg_delivery_id signal) # rest)
    \<and> (\<forall>sd \<in> set (st_deliveries (fst (execute_trade env meta st user signal))).
          sd_id sd = sg_delivery_id signal \<longrightarrow> sd_acknowledged sd \<and> sd_executed sd)
    \<and> (\<forall>now. sg_delivery_id signal
          \<notin> pi_delivery_id ` set (get_pending_signals_batched now
                                     (fst (execute_trade env meta st user signal))))
    \<and> (\<forall>now. sg_delivery_id signal
          \<notin> pi_delivery_id ` set (get_pending_signals_batched now
                                     (acknowledge_signal st (sg_delivery_id signal)))))
   \<and> count_inserts (snd (snd (execute_trade env meta st user signal))) \<le> 1
   \<and> length (st_positions (fst (execute_trade env meta st user signal)))
       = length (st_positions st) + count_inserts (snd (snd (execute_trade env meta st user signal)))
   \<and> length (st_positions (fst (run_polls ps meta st)))
       = length (st_positions st)
         + sum_list (map (\<lambda>x. count_inserts (snd x)) (snd (run_polls ps meta st)))
   \<and> (keys_ok st \<and> (\<forall>p \<in> set ps. \<forall>xs. mset (p_shuffle p xs) = mset xs) \<longrightarrow>
        distinct (map fst (snd (run_polls ps meta st)))
      \<and> (\<forall>d. sum_list (map (\<lambda>x. count_inserts (snd x))
                          (filter (\<lambda>x. fst x = d) (snd (run_polls ps meta st)))) \<le> 1))"
proof (intro conjI impI allI)
  assume d: "sg_delivery_id signal \<noteq> 0"
  show "\<exists>rest. snd (snd (execute_trade env meta st user signal))
                = AckWrite (sg_delivery_id signal) # rest"
    by (rule execute_trade_first_event [OF d])
  show fl: "\<forall>sd \<in> set (st_deliveries (fst (execute_trade env meta st user signal))).
          sd_id sd = sg_delivery_id signal \<longrightarrow> sd_acknowledged sd \<and> sd_executed sd"
    unfolding execute_trade_store(1) by (rule ack_all_flags [OF d])
  show "sg_delivery_id signal
          \<notin> pi_delivery_id ` set (get_pending_signals_batched now
                                     (fst (execute_trade env meta st user signal)))" for now
    by (rule acked_not_pending) (use fl in blast)
  show "sg_delivery_id signal
          \<notin> pi_delivery_id ` set (get_pending_signals_batched now
                                     (acknowledge_signal st (sg_delivery_id signal)))" for now
    by (rule acked_not_pending) (use acknowledge_flags in blast)
next
  show "count_inserts (snd (snd (execute_trade env meta st user signal))) \<le> 1"
    by (rule execute_trade_store(5))
  show "length (st_positions (fst (execute_trade env meta st user signal)))
       = length (st_positions st) + count_inserts (snd (snd (execute_trade env meta st user signal)))"
    by (rule execute_trade_store(4))
  show "length (st_positions (fst (run_polls ps meta st)))
       = length (st_positions st)
         + sum_list (map (\<lambda>x. count_inserts (snd x)) (snd (run_polls ps meta st)))"
    by (rule run_polls_positions)
next
  assume a: "keys_ok st \<and> (\<forall>p \<in> set ps. \<forall>xs. mset (p_shuffle p xs) = mset xs)"
  then have k: "keys_ok st" and sh: "\<forall>p \<in> set ps. \<forall>xs. mset (p_shuffle p xs) = mset xs"
    by blast+
  from run_polls_facts [OF k sh, of meta]
  show dis: "distinct (map fst (snd (run_polls ps meta st)))" by (rule conjunct1)
  show "sum_list (map (\<lambda>x. count_inserts (snd x))
                          (filter (\<lambda>x. fst x = d) (snd (run_polls ps meta st)))) \<le> 1" for d
    by (rule inserts_per_delivery [OF dis run_polls_inserts])
qed

text \<open>
  At the scenario: two polls in sequence execute delivery 1 once and leave one Open
  Position.
\<close>

lemma sequential_polls_once_demo:
  "sg_delivery_id demo_signal = 1
   \<and> keys_ok demo_store
   \<and> (\<exists>rest. snd (snd (execute_trade demo_env ada_meta demo_store demo_user demo_signal))
               = AckWrite 1 # rest)
   \<and> (\<forall>now. 1 \<notin> pi_delivery_id ` set (get_pending_signals_batched now
                    (fst (execute_trade demo_env ada_meta demo_store demo_user demo_signal))))
   \<and> map (\<lambda>sd. (sd_id sd, sd_acknowledged sd, sd_executed sd))
        (st_deliveries (fst (execute_trade demo_env ada_meta demo_store demo_user demo_signal)))
      = [(1, True, True)]
   \<and> map fst (snd (run_polls [demo_poll, demo_poll] ada_meta demo_store)) = [1]
   \<and> distinct (map fst (snd (run_polls [demo_poll, demo_poll] ada_meta demo_store)))
   \<and> sum_list (map (\<lambda>x. count_inserts (snd x))
        (filter (\<lambda>x. fst x = 1) (snd (run_polls [demo_poll, demo_poll] ada_meta demo_store)))) \<le> 1
   \<and> length (st_positions (fst (run_polls [demo_poll, demo_poll] ada_meta demo_store))) = 1"
proof -
  note t = sequential_polls_once [where signal = demo_signal and env = demo_env
      and meta = ada_meta and st = demo_store and user = demo_user
      and ps = "[demo_poll, demo_poll]"]
  have d: "sg_delivery_id demo_signal = 1" by (simp add: demo_defs)
  have k: "keys_ok demo_store" by (simp add: keys_ok_def demo_defs)
  have sh: "\<forall>p \<in> set [demo_poll, demo_poll]. \<forall>xs. mset (p_shuffle p xs) = mset xs"
    by (simp add: demo_poll_def)
  have one: "(\<exists>rest. snd (snd (execute_trade demo_env ada_meta demo_store demo_user demo_signal))
               = AckWrite 1 # rest)
      \<and> (\<forall>now. 1 \<notin> pi_delivery_id ` set (get_pending_signals_batched now
                    (fst (execute_trade demo_env ada_meta demo_store demo_user demo_signal))))"
    using t d by simp
  have polls: "distinct (map fst (snd (run_polls [demo_poll, demo_poll] ada_meta demo_store)))
      \<and> sum_list (map (\<lambda>x. count_inserts (snd x))
        (filter (\<lambda>x. fst x = 1) (snd (run_polls [demo_poll, demo_poll] ada_meta demo_store)))) \<le> 1"
    using t k sh by blast
  have run: "map (\<lambda>sd. (sd_id sd, sd_acknowledged sd, sd_executed sd))
        (st_deliveries (fst (execute_trade demo_env ada_meta demo_store demo_user demo_signal)))
      = [(1, True, True)]"
    by (simp add: run_defs demo_defs)
  have tr: "map fst (snd (run_polls [demo_poll, demo_poll] ada_meta demo_store)) = [1]
      \<and> length (st_positions (fst (run_polls [demo_poll, demo_poll] ada_meta demo_store))) = 1"
    by (simp add: poll_and_execute_def execute_signal_for_user_def item_user_def item_signal_def
          demo_poll_def fetch_defs run_defs demo_defs)
  from d k one polls run tr show ?thesis by simp
qed

text \<open>
  Claim C1 fails on the code when two invocations overlap. \<^verbatim>\<open>execute_trade\<close> says of itself
  \<^verbatim>\<open>Acknowledges signal at START to prevent race condition\<close>, and the first check of the
  gate looks for a position that already exists for the signal. But the write of the
  flags is an unconditional \<^verbatim>\<open>UPDATE\<close>, nothing after the fetch reads the flags again, and
  the check of the gate and the insert of the position are far apart. Two invocations
  that both fetched delivery 1 before either wrote the flags, and both passed the gate
  before either recorded its position, both place a bracket and both insert a row: two
  Open Positions for subscriber 1 and signal 1.
\<close>

theorem overlapping_executions_duplicate:
  "get_pending_signals_batched 1010 demo_store = [demo_item]
   \<and> map (\<lambda>p. (op_user_id p, op_signal_id p))
        (st_positions (overlapping_executions demo_env ada_meta demo_store demo_item))
      = [(1, Some 1), (1, Some 1)]"
  by (simp add: overlapping_executions_def item_user_def item_signal_def demo_item_def
        fetch_defs run_defs demo_defs)

end
